theory Spec2Isabelle
  imports Main
begin

section \<open>Data model of pkg/detector/detector.go\<close>

text \<open>
  Go's \<^verbatim>\<open>map[string]string\<close> is a partial map; a nil map and an empty map are both
  \<open>Map.empty\<close> (the code reads them alike: \<^verbatim>\<open>len(m) > 0\<close>, \<^verbatim>\<open>m[k]\<close>).
\<close>

type_synonym smap = "string \<rightharpoonup> string"

text \<open>Indexing a Go map of strings: a missing key reads as the empty string.\<close>

definition mapIndex :: "smap \<Rightarrow> string \<Rightarrow> string" where
  "mapIndex m k = (case m k of None \<Rightarrow> [] | Some v \<Rightarrow> v)"

text \<open>
  Errors are values. \<open>NotFound\<close>, \<open>Conflict\<close> and \<open>AlreadyExists\<close> are the API server's
  status errors (\<^verbatim>\<open>apierrors.IsNotFound\<close>, \<^verbatim>\<open>retry.RetryOnConflict\<close>), \<open>Failure\<close> is
  any other error of a collaborator, the remaining ones are the errors detector.go
  builds itself with \<^verbatim>\<open>fmt.Errorf\<close> and \<^verbatim>\<open>errors.NewAggregate\<close>.
\<close>

datatype error =
    NotFound
  | Conflict
  | AlreadyExists
  | Failure string
  | InvalidKey
  | DifferentOwnerUID
  | WaitingForDependentOverrides
  | MutateChangedKey
  | Aggregate "error list"

definition IsNotFound :: "error \<Rightarrow> bool" where
  "IsNotFound e = (e = NotFound)"

definition IsConflict :: "error \<Rightarrow> bool" where
  "IsConflict e = (e = Conflict)"

text \<open>\<^verbatim>\<open>errors.NewAggregate\<close>: nil for an empty list of errors.\<close>

definition NewAggregate :: "error list \<Rightarrow> error option" where
  "NewAggregate errs = (if errs = [] then None else Some (Aggregate errs))"

record OwnerReference =
  or_APIVersion :: string
  or_Kind :: string
  or_Name :: string
  or_UID :: string
  or_Controller :: "bool option"
  or_BlockOwnerDeletion :: "bool option"

record ObjectReference =
  ref_APIVersion :: string
  ref_Kind :: string
  ref_Namespace :: string
  ref_Name :: string
  ref_UID :: string
  ref_ResourceVersion :: string

record TargetCluster =
  tc_Name :: string
  tc_Replicas :: int

text \<open>
  \<^verbatim>\<open>workv1alpha2.ResourceBindingSpec\<close>, with the fields detector.go reads or writes and
  the scheduler-owned \<open>Clusters\<close>. Placement, failover behaviour and replica requirements
  are opaque to the detector (it copies them); they are kept as serialised values, a
  nil pointer being \<open>None\<close>.
\<close>

record ResourceBindingSpec =
  Resource :: ObjectReference
  PropagateDeps :: bool
  ReplicaRequirements :: "string option"
  Replicas :: int
  Clusters :: "TargetCluster list"
  Placement :: "string option"
  SchedulerName :: string
  Failover :: "string option"
  ConflictResolution :: string

text \<open>
  \<^verbatim>\<open>workv1alpha2.ResourceBinding\<close> and \<^verbatim>\<open>workv1alpha2.ClusterResourceBinding\<close> have the
  same fields (object metadata and a \<open>ResourceBindingSpec\<close>); the namespace of a
  ClusterResourceBinding is empty. They live in two collections of the API server.
\<close>

record Binding =
  b_Name :: string
  b_Namespace :: string
  b_Labels :: smap
  b_Annotations :: smap
  b_OwnerReferences :: "OwnerReference list"
  b_Finalizers :: "string list"
  b_Spec :: ResourceBindingSpec

type_synonym ResourceBinding = Binding
type_synonym ClusterResourceBinding = Binding

datatype bindingKind = RB | CRB

text \<open>\<^verbatim>\<open>unstructured.Unstructured\<close>: a resource template, through its accessors.\<close>

record Unstructured =
  u_Group :: string
  u_Version :: string
  u_Kind :: string
  u_Namespace :: string
  u_Name :: string
  u_UID :: string
  u_ResourceVersion :: string
  u_Labels :: smap
  u_Annotations :: smap

definition GroupVersionString :: "string \<Rightarrow> string \<Rightarrow> string" where
  "GroupVersionString g v = (if g = [] then v else g @ ''/'' @ v)"

definition GetAPIVersion :: "Unstructured \<Rightarrow> string" where
  "GetAPIVersion u = GroupVersionString (u_Group u) (u_Version u)"

record ResourceSelector =
  rs_APIVersion :: string
  rs_Kind :: string
  rs_Namespace :: string
  rs_Name :: string
  rs_MatchLabels :: "smap option"

record PropagationSpec =
  ResourceSelectors :: "ResourceSelector list"
  ps_PropagateDeps :: bool
  ps_Placement :: string
  ps_SchedulerName :: string
  ps_Failover :: "string option"
  ps_ConflictResolution :: string
  ps_Preemption :: string
  ps_ActivationPreference :: string

text \<open>
  \<^verbatim>\<open>policyv1alpha1.PropagationPolicy\<close>; a \<^verbatim>\<open>ClusterPropagationPolicy\<close> has the same
  fields and an empty namespace. \<open>p_DeletionTimestamp\<close> is \<open>None\<close> when the timestamp
  is zero.
\<close>

record PropagationPolicy =
  p_Namespace :: string
  p_Name :: string
  p_Labels :: smap
  p_Finalizers :: "string list"
  p_DeletionTimestamp :: "string option"
  p_Spec :: PropagationSpec

type_synonym ClusterPropagationPolicy = PropagationPolicy

datatype policyKind = PP | CPP

record ClusterWideKey =
  k_Group :: string
  k_Version :: string
  k_Kind :: string
  k_Namespace :: string
  k_Name :: string

record ClusterWideKeyWithConfig =
  ClusterWideKey :: ClusterWideKey
  ResourceChangeByKarmada :: bool

text \<open>
  \<^verbatim>\<open>util.QueueKey\<close> is \<^verbatim>\<open>interface{}\<close>: the dynamic type of a queue item is one of the
  two key types or anything else.
\<close>

datatype QueueKey =
    KeyClusterWideKey ClusterWideKey
  | KeyClusterWideKeyWithConfig ClusterWideKeyWithConfig
  | KeyOther string

text \<open>
  Objects of the API server are addressed by (apiVersion, kind, namespace, name) for
  templates and by (namespace, name) for bindings and policies.
\<close>

type_synonym objectKey = "string \<times> string \<times> string \<times> string"

definition objectKeyOf :: "Unstructured \<Rightarrow> objectKey" where
  "objectKeyOf u = (GetAPIVersion u, u_Kind u, u_Namespace u, u_Name u)"

definition keyOfClusterWideKey :: "ClusterWideKey \<Rightarrow> objectKey" where
  "keyOfClusterWideKey k =
     (GroupVersionString (k_Group k) (k_Version k), k_Kind k, k_Namespace k, k_Name k)"

definition keyOfReference :: "ObjectReference \<Rightarrow> objectKey" where
  "keyOfReference r = (ref_APIVersion r, ref_Kind r, ref_Namespace r, ref_Name r)"

definition bindingKey :: "Binding \<Rightarrow> string \<times> string" where
  "bindingKey b = (b_Namespace b, b_Name b)"

definition policyKey :: "PropagationPolicy \<Rightarrow> string \<times> string" where
  "policyKey p = (p_Namespace p, p_Name p)"

section \<open>The API server, the waiting list and the queue\<close>

text \<open>
  Every request the detector sends to the API server (through the typed client, the
  dynamic client or a lister) is recorded with its outcome, in order.
\<close>

datatype request =
    GetTemplate objectKey "error option"
  | UpdateTemplate Unstructured "error option"
  | GetBinding bindingKind "string \<times> string" "error option"
  | ListBindings bindingKind string string "error option"
  | CreateBinding bindingKind Binding "error option"
  | UpdateBinding bindingKind Binding "error option"
  | GetPolicy policyKind "string \<times> string" "error option"
  | UpdatePolicy policyKind PropagationPolicy "error option"

text \<open>
  The state the detector works on: the collections of the API server, the detector's
  \<open>waitingObjects\<close> (a Go map used as a set; the list order stands for the order in
  which the runtime iterates the map), the keys added to \<open>Processor\<close>, the lines
  written by \<^verbatim>\<open>klog.Error\<close>, and \<open>faults\<close>: the failures the environment injects, one
  entry consumed by each request (\<open>None\<close>: the request is served; an exhausted script
  injects nothing). A conflict on write is such an injected failure.
\<close>

record world =
  templates :: "Unstructured list"
  rbs :: "Binding list"
  crbs :: "Binding list"
  pps :: "PropagationPolicy list"
  cpps :: "PropagationPolicy list"
  waitingObjects :: "ClusterWideKey list"
  Processor :: "ClusterWideKeyWithConfig list"
  klog :: "string list"
  faults :: "error option list"
  requests :: "request list"

definition nextFault :: "world \<Rightarrow> error option \<times> world" where
  "nextFault s = (case faults s of [] \<Rightarrow> (None, s) | f # fs \<Rightarrow> (f, s\<lparr>faults := fs\<rparr>))"

definition sent :: "request \<Rightarrow> world \<Rightarrow> world" where
  "sent r s = s\<lparr>requests := requests s @ [r]\<rparr>"

definition klogError :: "string \<Rightarrow> world \<Rightarrow> world" where
  "klogError msg s = s\<lparr>klog := klog s @ [msg]\<rparr>"

text \<open>Lookup and replacement of an object by its key in a collection.\<close>

definition lookupBy :: "('a \<Rightarrow> 'k) \<Rightarrow> 'k \<Rightarrow> 'a list \<Rightarrow> 'a option" where
  "lookupBy key k xs = find (\<lambda>x. key x = k) xs"

definition replaceBy :: "('a \<Rightarrow> 'k) \<Rightarrow> 'a \<Rightarrow> 'a list \<Rightarrow> 'a list" where
  "replaceBy key y xs = map (\<lambda>x. if key x = key y then y else x) xs"

definition getTemplate :: "objectKey \<Rightarrow> world \<Rightarrow> (error + Unstructured) \<times> world" where
  "getTemplate k s =
     (case nextFault s of
        (Some e, s1) \<Rightarrow> (Inl e, sent (GetTemplate k (Some e)) s1)
      | (None, s1) \<Rightarrow>
          (case lookupBy objectKeyOf k (templates s1) of
             None \<Rightarrow> (Inl NotFound, sent (GetTemplate k (Some NotFound)) s1)
           | Some u \<Rightarrow> (Inr u, sent (GetTemplate k None) s1)))"

definition updateTemplate :: "Unstructured \<Rightarrow> world \<Rightarrow> error option \<times> world" where
  "updateTemplate u s =
     (case nextFault s of
        (Some e, s1) \<Rightarrow> (Some e, sent (UpdateTemplate u (Some e)) s1)
      | (None, s1) \<Rightarrow>
          (case lookupBy objectKeyOf (objectKeyOf u) (templates s1) of
             None \<Rightarrow> (Some NotFound, sent (UpdateTemplate u (Some NotFound)) s1)
           | Some _ \<Rightarrow>
               (None, sent (UpdateTemplate u None)
                        (s1\<lparr>templates := replaceBy objectKeyOf u (templates s1)\<rparr>))))"

definition bindingsOf :: "bindingKind \<Rightarrow> world \<Rightarrow> Binding list" where
  "bindingsOf kind s = (case kind of RB \<Rightarrow> rbs s | CRB \<Rightarrow> crbs s)"

definition setBindings :: "bindingKind \<Rightarrow> Binding list \<Rightarrow> world \<Rightarrow> world" where
  "setBindings kind xs s = (case kind of RB \<Rightarrow> s\<lparr>rbs := xs\<rparr> | CRB \<Rightarrow> s\<lparr>crbs := xs\<rparr>)"

definition getBinding ::
  "bindingKind \<Rightarrow> string \<times> string \<Rightarrow> world \<Rightarrow> (error + Binding) \<times> world" where
  "getBinding kind k s =
     (case nextFault s of
        (Some e, s1) \<Rightarrow> (Inl e, sent (GetBinding kind k (Some e)) s1)
      | (None, s1) \<Rightarrow>
          (case lookupBy bindingKey k (bindingsOf kind s1) of
             None \<Rightarrow> (Inl NotFound, sent (GetBinding kind k (Some NotFound)) s1)
           | Some b \<Rightarrow> (Inr b, sent (GetBinding kind k None) s1)))"

definition createBinding :: "bindingKind \<Rightarrow> Binding \<Rightarrow> world \<Rightarrow> error option \<times> world" where
  "createBinding kind b s =
     (case nextFault s of
        (Some e, s1) \<Rightarrow> (Some e, sent (CreateBinding kind b (Some e)) s1)
      | (None, s1) \<Rightarrow>
          (case lookupBy bindingKey (bindingKey b) (bindingsOf kind s1) of
             Some _ \<Rightarrow> (Some AlreadyExists, sent (CreateBinding kind b (Some AlreadyExists)) s1)
           | None \<Rightarrow>
               (None, sent (CreateBinding kind b None)
                        (setBindings kind (bindingsOf kind s1 @ [b]) s1))))"

definition updateBinding :: "bindingKind \<Rightarrow> Binding \<Rightarrow> world \<Rightarrow> error option \<times> world" where
  "updateBinding kind b s =
     (case nextFault s of
        (Some e, s1) \<Rightarrow> (Some e, sent (UpdateBinding kind b (Some e)) s1)
      | (None, s1) \<Rightarrow>
          (case lookupBy bindingKey (bindingKey b) (bindingsOf kind s1) of
             None \<Rightarrow> (Some NotFound, sent (UpdateBinding kind b (Some NotFound)) s1)
           | Some _ \<Rightarrow>
               (None, sent (UpdateBinding kind b None)
                        (setBindings kind (replaceBy bindingKey b (bindingsOf kind s1)) s1))))"

section \<open>Marks: label and annotation keys\<close>

text \<open>
  Modelled from the spec: the label and annotation keys are constants of the packages
  policyv1alpha1 and util, whose declarations are not in src. The spec (4.5, 4.10, I6)
  names them pp-ID, pp-namespace, pp-name, cpp-ID, cpp-name and ClaimedBy; only that
  they are pairwise different matters here.
\<close>

definition PropagationPolicyPermanentIDLabel :: string where
  "PropagationPolicyPermanentIDLabel = ''pp-ID''"

definition PropagationPolicyNamespaceAnnotation :: string where
  "PropagationPolicyNamespaceAnnotation = ''pp-namespace''"

definition PropagationPolicyNameAnnotation :: string where
  "PropagationPolicyNameAnnotation = ''pp-name''"

definition ClusterPropagationPolicyPermanentIDLabel :: string where
  "ClusterPropagationPolicyPermanentIDLabel = ''cpp-ID''"

definition ClusterPropagationPolicyAnnotation :: string where
  "ClusterPropagationPolicyAnnotation = ''cpp-name''"

definition ResourceTemplateClaimedByLabel :: string where
  "ResourceTemplateClaimedByLabel = ''ClaimedBy''"

text \<open>
  Modelled from the spec: the finalizer names are constants of package util, not in src
  (I4: an RB carries the RB-controller finalizer, a CRB the CRB-controller finalizer).
\<close>

definition BindingControllerFinalizer :: string where
  "BindingControllerFinalizer = ''rb-controller''"

definition ClusterResourceBindingControllerFinalizer :: string where
  "ClusterResourceBindingControllerFinalizer = ''crb-controller''"

definition propagationPolicyMarkedLabels :: "string list" where
  "propagationPolicyMarkedLabels = [PropagationPolicyPermanentIDLabel]"

definition propagationPolicyMarkedAnnotations :: "string list" where
  "propagationPolicyMarkedAnnotations =
     [PropagationPolicyNamespaceAnnotation, PropagationPolicyNameAnnotation]"

definition clusterPropagationPolicyMarkedLabels :: "string list" where
  "clusterPropagationPolicyMarkedLabels = [ClusterPropagationPolicyPermanentIDLabel]"

definition clusterPropagationPolicyMarkedAnnotations :: "string list" where
  "clusterPropagationPolicyMarkedAnnotations = [ClusterPropagationPolicyAnnotation]"

text \<open>
  Modelled from the spec: \<^verbatim>\<open>util.GetLabelValue\<close> is not in src; the value of a label, the
  empty string when the object does not carry it (4.3 step 2 tests the value against
  the empty string).
\<close>

definition GetLabelValue :: "smap \<Rightarrow> string \<Rightarrow> string" where
  "GetLabelValue labels labelKey = mapIndex labels labelKey"

text \<open>
  Modelled from the spec: \<^verbatim>\<open>excludeClusterPolicy\<close> is declared in another file of the
  package. 4.3: for PP-driven applies on an already-CPP-labeled object the conflicting
  label is stripped in the same update; 4.5: a claim is a no-op unless a cross-scope
  label needs to be cleared. It removes the cpp-ID label from the label map it is given
  and reports whether the label was there.
\<close>

definition excludeClusterPolicy :: "smap \<Rightarrow> bool \<times> smap" where
  "excludeClusterPolicy objLabels =
     (case objLabels ClusterPropagationPolicyPermanentIDLabel of
        None \<Rightarrow> (False, objLabels)
      | Some _ \<Rightarrow> (True, objLabels(ClusterPropagationPolicyPermanentIDLabel := None)))"

text \<open>
  Modelled from the spec: \<^verbatim>\<open>util.MergeLabel\<close> and \<^verbatim>\<open>util.MergeAnnotation\<close> are not in
  src. 4.5: the CPP claim sets the cpp-ID label and the cpp-name annotation.
\<close>

definition MergeLabel :: "Unstructured \<Rightarrow> string \<Rightarrow> string \<Rightarrow> Unstructured" where
  "MergeLabel obj labelKey labelValue = obj\<lparr>u_Labels := (u_Labels obj)(labelKey \<mapsto> labelValue)\<rparr>"

definition MergeAnnotation :: "Unstructured \<Rightarrow> string \<Rightarrow> string \<Rightarrow> Unstructured" where
  "MergeAnnotation obj annotationKey annotationValue =
     obj\<lparr>u_Annotations := (u_Annotations obj)(annotationKey \<mapsto> annotationValue)\<rparr>"

section \<open>Claim protocol\<close>

text \<open>
  \<^verbatim>\<open>ClaimPolicyForObject\<close> (detector.go 701-728). \<^verbatim>\<open>object.GetLabels()\<close> returns a copy
  of the label map, so \<^verbatim>\<open>excludeClusterPolicy\<close> changes the local \<open>objLabels\<close> only. The
  result is the policy ID and the error of the update, if one was sent.
\<close>

definition ClaimPolicyForObject ::
  "Unstructured \<Rightarrow> PropagationPolicy \<Rightarrow> world \<Rightarrow> (string \<times> error option) \<times> world" where
  "ClaimPolicyForObject object policy s =
     (let policyID = mapIndex (p_Labels policy) PropagationPolicyPermanentIDLabel;
          (claimed, objLabels) =
            (if u_Labels object = Map.empty then (False, u_Labels object)
             else (case excludeClusterPolicy (u_Labels object) of
                     (excluded, objLabels) \<Rightarrow>
                       (\<not> excluded \<and>
                          mapIndex objLabels PropagationPolicyPermanentIDLabel = policyID,
                        objLabels)))
      in if claimed then ((policyID, None), s)
         else
           (let objLabels = objLabels(PropagationPolicyPermanentIDLabel \<mapsto> policyID);
                objectAnnotations =
                  (u_Annotations object)
                    (PropagationPolicyNamespaceAnnotation \<mapsto> p_Namespace policy,
                     PropagationPolicyNameAnnotation \<mapsto> p_Name policy);
                objectCopy = object\<lparr>u_Labels := objLabels, u_Annotations := objectAnnotations\<rparr>
            in (case updateTemplate objectCopy s of (err, s') \<Rightarrow> ((policyID, err), s'))))"

text \<open>\<^verbatim>\<open>ClaimClusterPolicyForObject\<close> (detector.go 731-745).\<close>

definition ClaimClusterPolicyForObject ::
  "Unstructured \<Rightarrow> ClusterPropagationPolicy \<Rightarrow> world \<Rightarrow> (string \<times> error option) \<times> world" where
  "ClaimClusterPolicyForObject object policy s =
     (let policyID = mapIndex (p_Labels policy) ClusterPropagationPolicyPermanentIDLabel;
          claimedID = GetLabelValue (u_Labels object) ClusterPropagationPolicyPermanentIDLabel
      in if claimedID = policyID then ((policyID, None), s)
         else
           (let objectCopy =
                  MergeAnnotation
                    (MergeLabel object ClusterPropagationPolicyPermanentIDLabel policyID)
                    ClusterPropagationPolicyAnnotation (p_Name policy)
            in (case updateTemplate objectCopy s of (err, s') \<Rightarrow> ((policyID, err), s'))))"

section \<open>Collaborators\<close>

text \<open>
  What detector.go calls and src does not hold is a field of \<open>ResourceDetector\<close>: the
  resource interpreter (\<open>HookEnabled\<close> for the InterpretReplica operation, \<open>GetReplicas\<close>),
  the REST mapper (\<open>RESTMapper\<close>: the error of \<^verbatim>\<open>restmapper.GetGroupVersionResource\<close> for
  a group, version and kind, \<open>None\<close> when the kind is mapped), helpers of the packages
  util, names and helper (\<open>ToUnstructured\<close> and \<open>ConvertToTypedObject\<close> convert between the
  typed and the unstructured form of an object and can fail;
  \<open>IsDependentOverridesPresent\<close> and \<open>IsDependentClusterOverridesPresent\<close> are given the
  client only and read through it: they return their two results and leave the world as
  it is), and the methods of the detector that other files of the package define. The theorems hold for every value of these fields, unless they state
  a hypothesis about one.
\<close>

record ResourceDetector =
  GenerateBindingName :: "string \<Rightarrow> string \<Rightarrow> string"
  DedupeAndMergeLabels :: "smap \<Rightarrow> smap \<Rightarrow> smap"
  DedupeAndMergeAnnotations :: "smap \<Rightarrow> smap \<Rightarrow> smap"
  HookEnabled :: "string \<times> string \<times> string \<Rightarrow> bool"
  GetReplicas :: "Unstructured \<Rightarrow> error + int \<times> string option"
  RESTMapper :: "string \<times> string \<times> string \<Rightarrow> error option"
  ToUnstructured :: "Unstructured \<Rightarrow> error + Unstructured"
  ConvertToTypedObject :: "PropagationPolicy \<Rightarrow> error + PropagationPolicy"
  ResourceMatches :: "Unstructured \<Rightarrow> ResourceSelector \<Rightarrow> bool"
  ConstructClusterWideKey :: "ObjectReference \<Rightarrow> error + ClusterWideKey"
  IsDependentOverridesPresent :: "PropagationPolicy \<Rightarrow> world \<Rightarrow> bool \<times> error option"
  IsDependentClusterOverridesPresent ::
    "PropagationPolicy \<Rightarrow> world \<Rightarrow> bool \<times> error option"
  propagateResource ::
    "Unstructured \<Rightarrow> ClusterWideKey \<Rightarrow> bool \<Rightarrow> world \<Rightarrow> error option \<times> world"
  cleanPPUnmatchedRBs ::
    "string \<Rightarrow> string \<Rightarrow> string \<Rightarrow> ResourceSelector list \<Rightarrow> world \<Rightarrow> error option \<times> world"
  cleanCPPUnmatchedRBs ::
    "string \<Rightarrow> string \<Rightarrow> ResourceSelector list \<Rightarrow> world \<Rightarrow> error option \<times> world"
  cleanUnmatchedCRBs ::
    "string \<Rightarrow> string \<Rightarrow> ResourceSelector list \<Rightarrow> world \<Rightarrow> error option \<times> world"
  listPPDerivedRBs ::
    "string \<Rightarrow> string \<Rightarrow> string \<Rightarrow> world \<Rightarrow> (error + Binding list) \<times> world"
  listCPPDerivedRBs :: "string \<Rightarrow> string \<Rightarrow> world \<Rightarrow> (error + Binding list) \<times> world"
  listCPPDerivedCRBs :: "string \<Rightarrow> string \<Rightarrow> world \<Rightarrow> (error + Binding list) \<times> world"
  handlePropagationPolicyPreemption :: "PropagationPolicy \<Rightarrow> world \<Rightarrow> error option \<times> world"
  handleClusterPropagationPolicyPreemption ::
    "PropagationPolicy \<Rightarrow> world \<Rightarrow> error option \<times> world"

definition GroupVersionKind :: "Unstructured \<Rightarrow> string \<times> string \<times> string" where
  "GroupVersionKind u = (u_Group u, u_Version u, u_Kind u)"

text \<open>
  Modelled from the spec: \<^verbatim>\<open>util.IsLazyActivationEnabled\<close> and \<^verbatim>\<open>preemptionEnabled\<close> are
  not in src. 3: activationPreference is Immediate or Lazy, preemption is Never or
  Always; 4.3: the lazy gate applies when the preference is Lazy; 4.7: preemption runs
  when preemption is Always.
\<close>

definition IsLazyActivationEnabled :: "string \<Rightarrow> bool" where
  "IsLazyActivationEnabled activationPreference = (activationPreference = ''Lazy'')"

definition preemptionEnabled :: "string \<Rightarrow> bool" where
  "preemptionEnabled preemption = (preemption = ''Always'')"

section \<open>Binding builder\<close>

text \<open>\<^verbatim>\<open>metav1.NewControllerRef\<close>: the owner reference that marks the controller.\<close>

definition NewControllerRef :: "Unstructured \<Rightarrow> OwnerReference" where
  "NewControllerRef owner =
     \<lparr>or_APIVersion = GetAPIVersion owner, or_Kind = u_Kind owner, or_Name = u_Name owner,
      or_UID = u_UID owner, or_Controller = Some True, or_BlockOwnerDeletion = Some True\<rparr>"

text \<open>\<^verbatim>\<open>metav1.GetControllerOfNoCopy\<close>: the first owner reference with Controller set.\<close>

definition GetControllerOfNoCopy :: "Binding \<Rightarrow> OwnerReference option" where
  "GetControllerOfNoCopy controllee =
     find (\<lambda>r. or_Controller r = Some True) (b_OwnerReferences controllee)"

text \<open>\<^verbatim>\<open>BuildResourceBinding\<close> (detector.go 748-790).\<close>

definition BuildResourceBinding ::
  "ResourceDetector \<Rightarrow> Unstructured \<Rightarrow> smap \<Rightarrow> smap \<Rightarrow> PropagationSpec \<Rightarrow> error + Binding" where
  "BuildResourceBinding d object labels annotations policySpec =
     (let bindingName = GenerateBindingName d (u_Kind object) (u_Name object);
          propagationBinding =
            \<lparr>b_Name = bindingName,
             b_Namespace = u_Namespace object,
             b_Labels = labels,
             b_Annotations = annotations,
             b_OwnerReferences = [NewControllerRef object],
             b_Finalizers = [BindingControllerFinalizer],
             b_Spec =
               \<lparr>Resource =
                  \<lparr>ref_APIVersion = GetAPIVersion object, ref_Kind = u_Kind object,
                   ref_Namespace = u_Namespace object, ref_Name = u_Name object,
                   ref_UID = u_UID object, ref_ResourceVersion = u_ResourceVersion object\<rparr>,
                PropagateDeps = ps_PropagateDeps policySpec,
                ReplicaRequirements = None,
                Replicas = 0,
                Clusters = [],
                Placement = Some (ps_Placement policySpec),
                SchedulerName = ps_SchedulerName policySpec,
                Failover = ps_Failover policySpec,
                ConflictResolution = ps_ConflictResolution policySpec\<rparr>\<rparr>
      in if HookEnabled d (GroupVersionKind object) then
           (case GetReplicas d object of
              Inl err \<Rightarrow> Inl err
            | Inr (replicas, replicaRequirements) \<Rightarrow>
                Inr (propagationBinding
                      \<lparr>b_Spec := (b_Spec propagationBinding)
                         \<lparr>Replicas := replicas, ReplicaRequirements := replicaRequirements\<rparr>\<rparr>))
         else Inr propagationBinding)"

text \<open>\<^verbatim>\<open>BuildClusterResourceBinding\<close> (detector.go 793-833).\<close>

definition BuildClusterResourceBinding ::
  "ResourceDetector \<Rightarrow> Unstructured \<Rightarrow> smap \<Rightarrow> smap \<Rightarrow> PropagationSpec \<Rightarrow> error + Binding" where
  "BuildClusterResourceBinding d object labels annotations policySpec =
     (let bindingName = GenerateBindingName d (u_Kind object) (u_Name object);
          binding =
            \<lparr>b_Name = bindingName,
             b_Namespace = [],
             b_Labels = labels,
             b_Annotations = annotations,
             b_OwnerReferences = [NewControllerRef object],
             b_Finalizers = [ClusterResourceBindingControllerFinalizer],
             b_Spec =
               \<lparr>Resource =
                  \<lparr>ref_APIVersion = GetAPIVersion object, ref_Kind = u_Kind object,
                   ref_Namespace = [], ref_Name = u_Name object,
                   ref_UID = u_UID object, ref_ResourceVersion = u_ResourceVersion object\<rparr>,
                PropagateDeps = ps_PropagateDeps policySpec,
                ReplicaRequirements = None,
                Replicas = 0,
                Clusters = [],
                Placement = Some (ps_Placement policySpec),
                SchedulerName = ps_SchedulerName policySpec,
                Failover = ps_Failover policySpec,
                ConflictResolution = ps_ConflictResolution policySpec\<rparr>\<rparr>
      in if HookEnabled d (GroupVersionKind object) then
           (case GetReplicas d object of
              Inl err \<Rightarrow> Inl err
            | Inr (replicas, replicaRequirements) \<Rightarrow>
                Inr (binding
                      \<lparr>b_Spec := (b_Spec binding)
                         \<lparr>Replicas := replicas, ReplicaRequirements := replicaRequirements\<rparr>\<rparr>))
         else Inr binding)"

section \<open>Upsert: CreateOrUpdate under RetryOnConflict\<close>

text \<open>
  \<^verbatim>\<open>controllerutil.CreateOrUpdate\<close> and \<^verbatim>\<open>retry.RetryOnConflict\<close> are library functions
  (controller-runtime, client-go), modelled after their sources. The mutation callback
  works on the object in place: it returns its error and the object as it leaves it.
  \<open>CreateOrUpdate\<close> reads the object under the key of \<open>obj\<close> into \<open>obj\<close>; not found: it
  runs the callback and creates; found: it runs the callback and updates unless the
  callback changed nothing. The wrapper \<open>mutate\<close> refuses a callback that changes the key.
\<close>

datatype OperationResult =
    OperationResultNone
  | OperationResultCreated
  | OperationResultUpdated

definition mutate ::
  "(Binding \<Rightarrow> error option \<times> Binding) \<Rightarrow> string \<times> string \<Rightarrow> Binding \<Rightarrow> error option \<times> Binding" where
  "mutate f key obj =
     (case f obj of
        (Some err, obj') \<Rightarrow> (Some err, obj')
      | (None, obj') \<Rightarrow>
          if bindingKey obj' \<noteq> key then (Some MutateChangedKey, obj') else (None, obj'))"

definition CreateOrUpdate ::
  "bindingKind \<Rightarrow> Binding \<Rightarrow> (Binding \<Rightarrow> error option \<times> Binding) \<Rightarrow> world \<Rightarrow>
     ((OperationResult \<times> error option) \<times> Binding) \<times> world" where
  "CreateOrUpdate kind obj f s =
     (let key = bindingKey obj in
      case getBinding kind key s of
        (Inl err, s1) \<Rightarrow>
          if \<not> IsNotFound err then (((OperationResultNone, Some err), obj), s1)
          else
            (case mutate f key obj of
               (Some err, obj') \<Rightarrow> (((OperationResultNone, Some err), obj'), s1)
             | (None, obj') \<Rightarrow>
                 (case createBinding kind obj' s1 of
                    (Some err, s2) \<Rightarrow> (((OperationResultNone, Some err), obj'), s2)
                  | (None, s2) \<Rightarrow> (((OperationResultCreated, None), obj'), s2)))
      | (Inr existing, s1) \<Rightarrow>
          (case mutate f key existing of
             (Some err, obj') \<Rightarrow> (((OperationResultNone, Some err), obj'), s1)
           | (None, obj') \<Rightarrow>
               if existing = obj' then (((OperationResultNone, None), obj'), s1)
               else
                 (case updateBinding kind obj' s1 of
                    (Some err, s2) \<Rightarrow> (((OperationResultNone, Some err), obj'), s2)
                  | (None, s2) \<Rightarrow> (((OperationResultUpdated, None), obj'), s2))))"

text \<open>
  \<^verbatim>\<open>retry.RetryOnConflict\<close> with a backoff of \<open>steps\<close> steps (the sleeps are not modelled):
  it runs \<open>fn\<close> until it succeeds, fails with an error that is not a conflict, or has
  run \<open>steps\<close> times, and then returns the last conflict. \<open>c\<close> holds the variables the
  closure \<open>fn\<close> captures and assigns (\<^verbatim>\<open>bindingCopy\<close>, \<^verbatim>\<open>rb\<close>).
\<close>

fun RetryOnConflict ::
  "nat \<Rightarrow> ('c \<Rightarrow> world \<Rightarrow> (error option \<times> 'c) \<times> world) \<Rightarrow> 'c \<Rightarrow> world \<Rightarrow>
     (error option \<times> 'c) \<times> world" where
  "RetryOnConflict 0 fn c s = ((None, c), s)"
| "RetryOnConflict (Suc n) fn c s =
     (case fn c s of
        ((None, c'), s') \<Rightarrow> ((None, c'), s')
      | ((Some err, c'), s') \<Rightarrow>
          if IsConflict err \<and> n \<noteq> 0 then RetryOnConflict n fn c' s'
          else ((Some err, c'), s'))"

text \<open>\<^verbatim>\<open>retry.DefaultRetry\<close> has five steps.\<close>

definition DefaultRetry :: nat where
  "DefaultRetry = 5"

section \<open>ApplyPolicy and ApplyClusterPolicy\<close>

text \<open>
  The mutation callback of \<open>ApplyPolicy\<close> (detector.go 482-505). \<open>binding\<close> is the
  desired binding, the argument \<open>bindingCopy\<close> the object \<open>CreateOrUpdate\<close> read.
  \<^verbatim>\<open>excludeClusterPolicy(bindingCopy.Labels)\<close> deletes from the label map in place.
\<close>

definition ApplyPolicy_mutate ::
  "ResourceDetector \<Rightarrow> Unstructured \<Rightarrow> Binding \<Rightarrow> Binding \<Rightarrow> error option \<times> Binding" where
  "ApplyPolicy_mutate d object binding bindingCopy =
     (if (case GetControllerOfNoCopy bindingCopy of
            None \<Rightarrow> False
          | Some ownerRef \<Rightarrow> or_UID ownerRef \<noteq> u_UID object)
      then (Some DifferentOwnerUID, bindingCopy)
      else
        (None, bindingCopy
            \<lparr>b_Annotations :=
                DedupeAndMergeAnnotations d (b_Annotations bindingCopy) (b_Annotations binding),
              b_Labels := snd (excludeClusterPolicy
                     (DedupeAndMergeLabels d (b_Labels bindingCopy) (b_Labels binding))),
              b_OwnerReferences := b_OwnerReferences binding,
              b_Finalizers := b_Finalizers binding,
              b_Spec := (b_Spec bindingCopy)
                \<lparr>Resource := Resource (b_Spec binding),
                 ReplicaRequirements := ReplicaRequirements (b_Spec binding),
                 Replicas := Replicas (b_Spec binding),
                 PropagateDeps := PropagateDeps (b_Spec binding),
                 SchedulerName := SchedulerName (b_Spec binding),
                 Placement := Placement (b_Spec binding),
                 Failover := Failover (b_Spec binding),
                 ConflictResolution := ConflictResolution (b_Spec binding)\<rparr>\<rparr>))"

text \<open>
  The mutation callback of \<open>ApplyClusterPolicy\<close> for a ResourceBinding (detector.go
  576-598).
\<close>

definition ApplyClusterPolicy_mutateRB ::
  "ResourceDetector \<Rightarrow> Unstructured \<Rightarrow> Binding \<Rightarrow> Binding \<Rightarrow> error option \<times> Binding" where
  "ApplyClusterPolicy_mutateRB d object binding bindingCopy =
     (if (case GetControllerOfNoCopy bindingCopy of
            None \<Rightarrow> False
          | Some ownerRef \<Rightarrow> or_UID ownerRef \<noteq> u_UID object)
      then (Some DifferentOwnerUID, bindingCopy)
      else
        (None, bindingCopy
            \<lparr>b_Annotations :=
                DedupeAndMergeAnnotations d (b_Annotations bindingCopy) (b_Annotations binding),
              b_Labels := DedupeAndMergeLabels d (b_Labels bindingCopy) (b_Labels binding),
              b_OwnerReferences := b_OwnerReferences binding,
              b_Finalizers := b_Finalizers binding,
              b_Spec := (b_Spec bindingCopy)
                \<lparr>Resource := Resource (b_Spec binding),
                 ReplicaRequirements := ReplicaRequirements (b_Spec binding),
                 Replicas := Replicas (b_Spec binding),
                 PropagateDeps := PropagateDeps (b_Spec binding),
                 SchedulerName := SchedulerName (b_Spec binding),
                 Placement := Placement (b_Spec binding),
                 Failover := Failover (b_Spec binding),
                 ConflictResolution := ConflictResolution (b_Spec binding)\<rparr>\<rparr>))"

text \<open>
  The mutation callback of \<open>ApplyClusterPolicy\<close> for a ClusterResourceBinding
  (detector.go 622-643): it has no assignment to \<^verbatim>\<open>Spec.PropagateDeps\<close>.
\<close>

definition ApplyClusterPolicy_mutateCRB ::
  "ResourceDetector \<Rightarrow> Unstructured \<Rightarrow> Binding \<Rightarrow> Binding \<Rightarrow> error option \<times> Binding" where
  "ApplyClusterPolicy_mutateCRB d object binding bindingCopy =
     (if (case GetControllerOfNoCopy bindingCopy of
            None \<Rightarrow> False
          | Some ownerRef \<Rightarrow> or_UID ownerRef \<noteq> u_UID object)
      then (Some DifferentOwnerUID, bindingCopy)
      else
        (None, bindingCopy
            \<lparr>b_Annotations :=
                DedupeAndMergeAnnotations d (b_Annotations bindingCopy) (b_Annotations binding),
              b_Labels := DedupeAndMergeLabels d (b_Labels bindingCopy) (b_Labels binding),
              b_OwnerReferences := b_OwnerReferences binding,
              b_Finalizers := b_Finalizers binding,
              b_Spec := (b_Spec bindingCopy)
                \<lparr>Resource := Resource (b_Spec binding),
                 ReplicaRequirements := ReplicaRequirements (b_Spec binding),
                 Replicas := Replicas (b_Spec binding),
                 SchedulerName := SchedulerName (b_Spec binding),
                 Placement := Placement (b_Spec binding),
                 Failover := Failover (b_Spec binding),
                 ConflictResolution := ConflictResolution (b_Spec binding)\<rparr>\<rparr>))"

text \<open>
  \<open>ApplyPolicy\<close> (detector.go 438-525). The events, the metric and the log lines that
  the function emits are outside the model, and with them \<^verbatim>\<open>operationResult\<close>, which
  only selects them. \<^verbatim>\<open>objectKey\<close> is used in log lines only.
\<close>

definition ApplyPolicy ::
  "ResourceDetector \<Rightarrow> Unstructured \<Rightarrow> ClusterWideKey \<Rightarrow> bool \<Rightarrow> PropagationPolicy \<Rightarrow> world \<Rightarrow>
     error option \<times> world" where
  "ApplyPolicy d object objectKey resourceChangeByKarmada policy s =
     (case ClaimPolicyForObject object policy s of
        ((policyID, Some err), s1) \<Rightarrow> (Some err, s1)
      | ((policyID, None), s1) \<Rightarrow>
          if resourceChangeByKarmada \<and>
             IsLazyActivationEnabled (ps_ActivationPreference (p_Spec policy))
          then (None, s1)
          else
            (let policyLabels = [PropagationPolicyPermanentIDLabel \<mapsto> policyID];
                 policyAnnotations =
                   [PropagationPolicyNamespaceAnnotation \<mapsto> p_Namespace policy,
                    PropagationPolicyNameAnnotation \<mapsto> p_Name policy]
             in case BuildResourceBinding d object policyLabels policyAnnotations (p_Spec policy) of
                  Inl err \<Rightarrow> (Some err, s1)
                | Inr binding \<Rightarrow>
                    (case RetryOnConflict DefaultRetry
                            (\<lambda>bindingCopy s.
                               case CreateOrUpdate RB bindingCopy
                                      (ApplyPolicy_mutate d object binding) s of
                                 (((operationResult, err), bindingCopy'), s') \<Rightarrow>
                                   ((err, bindingCopy'), s'))
                            binding s1 of
                       ((err, bindingCopy), s2) \<Rightarrow> (err, s2))))"

text \<open>\<open>ApplyClusterPolicy\<close> (detector.go 529-662).\<close>

definition ApplyClusterPolicy ::
  "ResourceDetector \<Rightarrow> Unstructured \<Rightarrow> ClusterWideKey \<Rightarrow> bool \<Rightarrow> ClusterPropagationPolicy \<Rightarrow>
     world \<Rightarrow> error option \<times> world" where
  "ApplyClusterPolicy d object objectKey resourceChangeByKarmada policy s =
     (case ClaimClusterPolicyForObject object policy s of
        ((policyID, Some err), s1) \<Rightarrow> (Some err, s1)
      | ((policyID, None), s1) \<Rightarrow>
          if resourceChangeByKarmada \<and>
             IsLazyActivationEnabled (ps_ActivationPreference (p_Spec policy))
          then (None, s1)
          else
            (let policyLabels = [ClusterPropagationPolicyPermanentIDLabel \<mapsto> policyID];
                 policyAnnotations = [ClusterPropagationPolicyAnnotation \<mapsto> p_Name policy]
             in if u_Namespace object \<noteq> [] then
                  (case BuildResourceBinding d object policyLabels policyAnnotations
                          (p_Spec policy) of
                     Inl err \<Rightarrow> (Some err, s1)
                   | Inr binding \<Rightarrow>
                       (case RetryOnConflict DefaultRetry
                               (\<lambda>bindingCopy s.
                                  case CreateOrUpdate RB bindingCopy
                                         (ApplyClusterPolicy_mutateRB d object binding) s of
                                    (((operationResult, err), bindingCopy'), s') \<Rightarrow>
                                      ((err, bindingCopy'), s'))
                               binding s1 of
                          ((err, bindingCopy), s2) \<Rightarrow> (err, s2)))
                else
                  (case BuildClusterResourceBinding d object policyLabels policyAnnotations
                          (p_Spec policy) of
                     Inl err \<Rightarrow> (Some err, s1)
                   | Inr binding \<Rightarrow>
                       (case RetryOnConflict DefaultRetry
                               (\<lambda>bindingCopy s.
                                  case CreateOrUpdate CRB bindingCopy
                                         (ApplyClusterPolicy_mutateCRB d object binding) s of
                                    (((operationResult, err), bindingCopy'), s') \<Rightarrow>
                                      ((err, bindingCopy'), s'))
                               binding s1 of
                          ((err, bindingCopy), s2) \<Rightarrow> (err, s2)))))"

section \<open>Waiting list and queue\<close>

text \<open>\<open>isWaiting\<close>, \<open>AddWaiting\<close>, \<open>RemoveWaiting\<close> (detector.go 836-858).\<close>

definition isWaiting :: "ClusterWideKey \<Rightarrow> world \<Rightarrow> bool" where
  "isWaiting objectKey s = (objectKey \<in> set (waitingObjects s))"

definition AddWaiting :: "ClusterWideKey \<Rightarrow> world \<Rightarrow> world" where
  "AddWaiting objectKey s =
     (if objectKey \<in> set (waitingObjects s) then s
      else s\<lparr>waitingObjects := waitingObjects s @ [objectKey]\<rparr>)"

definition RemoveWaiting :: "ClusterWideKey \<Rightarrow> world \<Rightarrow> world" where
  "RemoveWaiting objectKey s = s\<lparr>waitingObjects := removeAll objectKey (waitingObjects s)\<rparr>"

text \<open>
  Modelled from the spec: \<^verbatim>\<open>util.AsyncWorker\<close> is not in src. 4.9: a queue is a
  deduplicating FIFO of keys. \<open>ProcessorAdd\<close> is \<^verbatim>\<open>d.Processor.Add\<close>.
\<close>

definition ProcessorAdd :: "ClusterWideKeyWithConfig \<Rightarrow> world \<Rightarrow> world" where
  "ProcessorAdd item s =
     (if item \<in> set (Processor s) then s else s\<lparr>Processor := Processor s @ [item]\<rparr>)"

text \<open>
  \<open>GetUnstructuredObject\<close> (detector.go 668-698): the lister first, the dynamic client
  when the lister does not find the object. Both read the templates of the API server.
\<close>

definition GetUnstructuredObject ::
  "ResourceDetector \<Rightarrow> ClusterWideKey \<Rightarrow> world \<Rightarrow> (error + Unstructured) \<times> world" where
  "GetUnstructuredObject d objectKey s =
     (case RESTMapper d (k_Group objectKey, k_Version objectKey, k_Kind objectKey) of
        Some err \<Rightarrow> (Inl err, s)
      | None \<Rightarrow>
          (case getTemplate (keyOfClusterWideKey objectKey) s of
             (Inl err, s1) \<Rightarrow>
               if IsNotFound err then
                 (case getTemplate (keyOfClusterWideKey objectKey) s1 of
                    (Inr object, s2) \<Rightarrow> (Inr object, s2)
                  | (Inl err', s2) \<Rightarrow> (Inl err', s2))
               else (Inl err, s1)
           | (Inr object, s1) \<Rightarrow>
               (case ToUnstructured d object of
                  Inl err \<Rightarrow> (Inl err, s1)
                | Inr unstructuredObj \<Rightarrow> (Inr unstructuredObj, s1))))"

text \<open>\<open>GetMatching\<close> (detector.go 861-884): the loop over the waiting list.\<close>

fun GetMatching_loop ::
  "ResourceDetector \<Rightarrow> ResourceSelector list \<Rightarrow> ClusterWideKey list \<Rightarrow> ClusterWideKey list \<Rightarrow>
     world \<Rightarrow> ClusterWideKey list \<times> world" where
  "GetMatching_loop d resourceSelectors [] matchedResult s = (matchedResult, s)"
| "GetMatching_loop d resourceSelectors (waitKey # rest) matchedResult s =
     (case GetUnstructuredObject d waitKey s of
        (Inl err, s1) \<Rightarrow> GetMatching_loop d resourceSelectors rest matchedResult s1
      | (Inr waitObj, s1) \<Rightarrow>
          if list_ex (\<lambda>rs. ResourceMatches d waitObj rs) resourceSelectors
          then GetMatching_loop d resourceSelectors rest (matchedResult @ [waitKey]) s1
          else GetMatching_loop d resourceSelectors rest matchedResult s1)"

definition GetMatching ::
  "ResourceDetector \<Rightarrow> ResourceSelector list \<Rightarrow> world \<Rightarrow> ClusterWideKey list \<times> world" where
  "GetMatching d resourceSelectors s =
     GetMatching_loop d resourceSelectors (waitingObjects s) [] s"

section \<open>Template reconciler\<close>

text \<open>\<open>Reconcile\<close> (detector.go 243-277).\<close>

definition Reconcile :: "ResourceDetector \<Rightarrow> QueueKey \<Rightarrow> world \<Rightarrow> error option \<times> world" where
  "Reconcile d key s =
     (case key of
        KeyClusterWideKeyWithConfig clusterWideKeyWithConfig \<Rightarrow>
          (let clusterWideKey = ClusterWideKey clusterWideKeyWithConfig;
               resourceChangeByKarmada = ResourceChangeByKarmada clusterWideKeyWithConfig
           in case GetUnstructuredObject d clusterWideKey s of
                (Inl err, s1) \<Rightarrow>
                  if IsNotFound err then (None, RemoveWaiting clusterWideKey s1)
                  else (Some err, s1)
              | (Inr object, s1) \<Rightarrow>
                  if GetLabelValue (u_Labels object) ResourceTemplateClaimedByLabel \<noteq> []
                  then (None, RemoveWaiting clusterWideKey s1)
                  else propagateResource d object clusterWideKey resourceChangeByKarmada s1)
      | _ \<Rightarrow> (Some InvalidKey, klogError ''Invalid key'' s))"

section \<open>Cleanup of marks\<close>

text \<open>
  Modelled from the spec: \<^verbatim>\<open>util.RemoveLabels\<close> and \<^verbatim>\<open>util.RemoveAnnotations\<close> are not
  in src. 4.10: the cleanup removes the PP marks (pp-ID label, pp-namespace and pp-name
  annotations) or the CPP marks (cpp-ID label, cpp-name annotation).
\<close>

definition removeKeys :: "string list \<Rightarrow> smap \<Rightarrow> smap" where
  "removeKeys ks m = (\<lambda>k. if k \<in> set ks then None else m k)"

text \<open>
  The closures \<^verbatim>\<open>cleanupMarksFunc\<close> (detector.go 1101-1104 and 1139-1142) take any
  \<^verbatim>\<open>metav1.Object\<close>; here they act on the labels and annotations of the object.
\<close>

type_synonym cleanupFunc = "smap \<times> smap \<Rightarrow> smap \<times> smap"

definition cleanupMarksFunc :: "policyKind \<Rightarrow> cleanupFunc" where
  "cleanupMarksFunc kind =
     (case kind of
        PP \<Rightarrow> (\<lambda>(labels, annotations).
                 (removeKeys propagationPolicyMarkedLabels labels,
                  removeKeys propagationPolicyMarkedAnnotations annotations))
      | CPP \<Rightarrow> (\<lambda>(labels, annotations).
                 (removeKeys clusterPropagationPolicyMarkedLabels labels,
                  removeKeys clusterPropagationPolicyMarkedAnnotations annotations)))"

definition cleanupTemplate :: "cleanupFunc \<Rightarrow> Unstructured \<Rightarrow> Unstructured" where
  "cleanupTemplate f u =
     (case f (u_Labels u, u_Annotations u) of
        (labels, annotations) \<Rightarrow> u\<lparr>u_Labels := labels, u_Annotations := annotations\<rparr>)"

definition cleanupBinding :: "cleanupFunc \<Rightarrow> Binding \<Rightarrow> Binding" where
  "cleanupBinding f b =
     (case f (b_Labels b, b_Annotations b) of
        (labels, annotations) \<Rightarrow> b\<lparr>b_Labels := labels, b_Annotations := annotations\<rparr>)"

text \<open>
  Modelled from the spec: \<^verbatim>\<open>helper.FetchResourceTemplate\<close> is not in src. 4.10: the
  template is fetched fresh, a missing template is reported as not found.
\<close>

definition FetchResourceTemplate ::
  "ResourceDetector \<Rightarrow> ObjectReference \<Rightarrow> world \<Rightarrow> (error + Unstructured) \<times> world" where
  "FetchResourceTemplate d resource s = getTemplate (keyOfReference resource) s"

text \<open>\<open>CleanupResourceTemplateMarks\<close> (detector.go 1332-1359).\<close>

definition CleanupResourceTemplateMarks ::
  "ResourceDetector \<Rightarrow> ObjectReference \<Rightarrow> cleanupFunc \<Rightarrow> world \<Rightarrow> error option \<times> world" where
  "CleanupResourceTemplateMarks d objRef cleanupFunc s =
     (case FetchResourceTemplate d objRef s of
        (Inl err, s1) \<Rightarrow> if IsNotFound err then (None, s1) else (Some err, s1)
      | (Inr fetched, s1) \<Rightarrow>
          (let workload = cleanupTemplate cleanupFunc fetched
           in case RESTMapper d (GroupVersionKind workload) of
                Some err \<Rightarrow> (Some err, s1)
              | None \<Rightarrow> updateTemplate workload s1))"

text \<open>
  \<open>CleanupResourceBindingMarks\<close> and \<open>CleanupClusterResourceBindingMarks\<close> (detector.go
  1362-1397) differ in the type of the binding only. The closure assigns \<^verbatim>\<open>rb\<close>: after
  a failed update it continues with the binding it reads back.
\<close>

definition CleanupBindingMarks ::
  "bindingKind \<Rightarrow> Binding \<Rightarrow> cleanupFunc \<Rightarrow> world \<Rightarrow> error option \<times> world" where
  "CleanupBindingMarks kind rb cleanupFunc s =
     (case RetryOnConflict DefaultRetry
             (\<lambda>rb s.
                let rb = cleanupBinding cleanupFunc rb
                in case updateBinding kind rb s of
                     (None, s1) \<Rightarrow> ((None, rb), s1)
                   | (Some updateErr, s1) \<Rightarrow>
                       (case getBinding kind (bindingKey rb) s1 of
                          (Inr updated, s2) \<Rightarrow> ((Some updateErr, updated), s2)
                        | (Inl err, s2) \<Rightarrow> ((Some updateErr, rb), s2)))
             rb s of
        ((err, rb'), s') \<Rightarrow> (err, s'))"

definition CleanupResourceBindingMarks ::
  "Binding \<Rightarrow> cleanupFunc \<Rightarrow> world \<Rightarrow> error option \<times> world" where
  "CleanupResourceBindingMarks rb cleanupFunc s = CleanupBindingMarks RB rb cleanupFunc s"

definition CleanupClusterResourceBindingMarks ::
  "Binding \<Rightarrow> cleanupFunc \<Rightarrow> world \<Rightarrow> error option \<times> world" where
  "CleanupClusterResourceBindingMarks crb cleanupFunc s = CleanupBindingMarks CRB crb cleanupFunc s"

section \<open>Policy deletion\<close>

text \<open>
  Modelled from the spec: \<^verbatim>\<open>helper.GetResourceBindings\<close> and
  \<^verbatim>\<open>helper.GetClusterResourceBindings\<close> are not in src. 4.7: they enumerate the RBs
  (CRBs) labeled with the policy's permanent ID.
\<close>

definition listBindings ::
  "bindingKind \<Rightarrow> string \<Rightarrow> string \<Rightarrow> world \<Rightarrow> (error + Binding list) \<times> world" where
  "listBindings kind labelKey labelValue s =
     (case nextFault s of
        (Some e, s1) \<Rightarrow> (Inl e, sent (ListBindings kind labelKey labelValue (Some e)) s1)
      | (None, s1) \<Rightarrow>
          (Inr (filter (\<lambda>b. b_Labels b labelKey = Some labelValue) (bindingsOf kind s1)),
           sent (ListBindings kind labelKey labelValue None) s1))"

definition GetResourceBindings ::
  "string \<Rightarrow> string \<Rightarrow> world \<Rightarrow> (error + Binding list) \<times> world" where
  "GetResourceBindings labelKey labelValue s = listBindings RB labelKey labelValue s"

definition GetClusterResourceBindings ::
  "string \<Rightarrow> string \<Rightarrow> world \<Rightarrow> (error + Binding list) \<times> world" where
  "GetClusterResourceBindings labelKey labelValue s = listBindings CRB labelKey labelValue s"

text \<open>
  The loops over the listed bindings (detector.go 1106-1124, 1150-1168, 1177-1195) have
  the same body for a binding of kind \<open>kind\<close>: clean the template, \<^verbatim>\<open>continue\<close> when
  that fails, clean the binding otherwise. They differ in one place: the loop over
  ClusterResourceBindings logs the error of the template cleanup and does not append
  it to \<^verbatim>\<open>errs\<close> (\<open>appendTemplateErr\<close> is false there).
\<close>

fun cleanupMarks_loop ::
  "ResourceDetector \<Rightarrow> bindingKind \<Rightarrow> bool \<Rightarrow> cleanupFunc \<Rightarrow> Binding list \<Rightarrow> error list \<Rightarrow>
     world \<Rightarrow> error list \<times> world" where
  "cleanupMarks_loop d kind appendTemplateErr cleanupFunc [] errs s = (errs, s)"
| "cleanupMarks_loop d kind appendTemplateErr cleanupFunc (binding # rest) errs s =
     (case CleanupResourceTemplateMarks d (Resource (b_Spec binding)) cleanupFunc s of
        (Some err, s1) \<Rightarrow>
          cleanupMarks_loop d kind appendTemplateErr cleanupFunc rest
            (if appendTemplateErr then errs @ [err] else errs) s1
      | (None, s1) \<Rightarrow>
          (case CleanupBindingMarks kind binding cleanupFunc s1 of
             (Some err, s2) \<Rightarrow>
               cleanupMarks_loop d kind appendTemplateErr cleanupFunc rest (errs @ [err]) s2
           | (None, s2) \<Rightarrow>
               cleanupMarks_loop d kind appendTemplateErr cleanupFunc rest errs s2))"

text \<open>\<open>HandlePropagationPolicyDeletion\<close> (detector.go 1094-1126).\<close>

definition HandlePropagationPolicyDeletion ::
  "ResourceDetector \<Rightarrow> string \<Rightarrow> world \<Rightarrow> error option \<times> world" where
  "HandlePropagationPolicyDeletion d policyID s =
     (case GetResourceBindings PropagationPolicyPermanentIDLabel policyID s of
        (Inl err, s1) \<Rightarrow> (Some err, s1)
      | (Inr rbsItems, s1) \<Rightarrow>
          (case cleanupMarks_loop d RB True (cleanupMarksFunc PP) rbsItems [] s1 of
             (errs, s2) \<Rightarrow> (NewAggregate errs, s2)))"

text \<open>\<open>HandleClusterPropagationPolicyDeletion\<close> (detector.go 1133-1198).\<close>

definition HandleClusterPropagationPolicyDeletion ::
  "ResourceDetector \<Rightarrow> string \<Rightarrow> world \<Rightarrow> error option \<times> world" where
  "HandleClusterPropagationPolicyDeletion d policyID s =
     (case (case GetClusterResourceBindings ClusterPropagationPolicyPermanentIDLabel policyID s of
              (Inl err, s1) \<Rightarrow> ([err], s1)
            | (Inr crbsItems, s1) \<Rightarrow>
                cleanupMarks_loop d CRB False (cleanupMarksFunc CPP) crbsItems [] s1) of
        (errs, s2) \<Rightarrow>
          (case (case GetResourceBindings ClusterPropagationPolicyPermanentIDLabel policyID s2 of
                   (Inl err, s3) \<Rightarrow> (errs @ [err], s3)
                 | (Inr rbsItems, s3) \<Rightarrow>
                     cleanupMarks_loop d RB True (cleanupMarksFunc CPP) rbsItems errs s3) of
             (errs', s4) \<Rightarrow> (NewAggregate errs', s4)))"

section \<open>Policy creation and update\<close>

text \<open>
  The loops that put the templates of the derived bindings on the queue (detector.go
  1222-1228, 1289-1302).
\<close>

fun enqueueDerived ::
  "ResourceDetector \<Rightarrow> Binding list \<Rightarrow> world \<Rightarrow> error option \<times> world" where
  "enqueueDerived d [] s = (None, s)"
| "enqueueDerived d (rb # rest) s =
     (case ConstructClusterWideKey d (Resource (b_Spec rb)) of
        Inl err \<Rightarrow> (Some err, s)
      | Inr resourceKey \<Rightarrow>
          enqueueDerived d rest
            (ProcessorAdd \<lparr>ClusterWideKey = resourceKey, ResourceChangeByKarmada = True\<rparr> s))"

text \<open>The loop over the matched keys (detector.go 1243-1246, 1316-1319).\<close>

fun enqueueMatched :: "ClusterWideKey list \<Rightarrow> world \<Rightarrow> world" where
  "enqueueMatched [] s = s"
| "enqueueMatched (key # rest) s =
     enqueueMatched rest
       (ProcessorAdd \<lparr>ClusterWideKey = key, ResourceChangeByKarmada = True\<rparr>
          (RemoveWaiting key s))"

text \<open>\<open>HandlePropagationPolicyCreationOrUpdate\<close> (detector.go 1206-1256).\<close>

definition HandlePropagationPolicyCreationOrUpdate ::
  "ResourceDetector \<Rightarrow> PropagationPolicy \<Rightarrow> world \<Rightarrow> error option \<times> world" where
  "HandlePropagationPolicyCreationOrUpdate d policy s =
     (let policyID = mapIndex (p_Labels policy) PropagationPolicyPermanentIDLabel in
      case cleanPPUnmatchedRBs d policyID (p_Namespace policy) (p_Name policy)
             (ResourceSelectors (p_Spec policy)) s of
        (Some err, s1) \<Rightarrow> (Some err, s1)
      | (None, s1) \<Rightarrow>
          (case listPPDerivedRBs d policyID (p_Namespace policy) (p_Name policy) s1 of
             (Inl err, s2) \<Rightarrow> (Some err, s2)
           | (Inr resourceBindings, s2) \<Rightarrow>
               (case enqueueDerived d resourceBindings s2 of
                  (Some err, s3) \<Rightarrow> (Some err, s3)
                | (None, s3) \<Rightarrow>
                    (case GetMatching d (ResourceSelectors (p_Spec policy)) s3 of
                       (matchedKeys, s4) \<Rightarrow>
                         (case (if matchedKeys \<noteq> [] then
                                  (case IsDependentOverridesPresent d policy s4 of
                                     (present, err) \<Rightarrow> err \<noteq> None \<or> \<not> present)
                                else False) of
                            True \<Rightarrow> (Some WaitingForDependentOverrides, s4)
                          | False \<Rightarrow>
                              (let s5 = enqueueMatched matchedKeys s4
                               in if preemptionEnabled (ps_Preemption (p_Spec policy))
                                  then handlePropagationPolicyPreemption d policy s5
                                  else (None, s5)))))))"

text \<open>\<open>HandleClusterPropagationPolicyCreationOrUpdate\<close> (detector.go 1264-1329).\<close>

definition HandleClusterPropagationPolicyCreationOrUpdate ::
  "ResourceDetector \<Rightarrow> ClusterPropagationPolicy \<Rightarrow> world \<Rightarrow> error option \<times> world" where
  "HandleClusterPropagationPolicyCreationOrUpdate d policy s =
     (let policyID = mapIndex (p_Labels policy) ClusterPropagationPolicyPermanentIDLabel in
      case cleanCPPUnmatchedRBs d policyID (p_Name policy) (ResourceSelectors (p_Spec policy)) s of
        (Some err, s1) \<Rightarrow> (Some err, s1)
      | (None, s1) \<Rightarrow>
      (case cleanUnmatchedCRBs d policyID (p_Name policy) (ResourceSelectors (p_Spec policy)) s1 of
        (Some err, s2) \<Rightarrow> (Some err, s2)
      | (None, s2) \<Rightarrow>
      (case listCPPDerivedRBs d policyID (p_Name policy) s2 of
        (Inl err, s3) \<Rightarrow> (Some err, s3)
      | (Inr resourceBindings, s3) \<Rightarrow>
      (case listCPPDerivedCRBs d policyID (p_Name policy) s3 of
        (Inl err, s4) \<Rightarrow> (Some err, s4)
      | (Inr clusterResourceBindings, s4) \<Rightarrow>
      (case enqueueDerived d resourceBindings s4 of
        (Some err, s5) \<Rightarrow> (Some err, s5)
      | (None, s5) \<Rightarrow>
      (case enqueueDerived d clusterResourceBindings s5 of
        (Some err, s6) \<Rightarrow> (Some err, s6)
      | (None, s6) \<Rightarrow>
      (case GetMatching d (ResourceSelectors (p_Spec policy)) s6 of
        (matchedKeys, s7) \<Rightarrow>
          (case (if matchedKeys \<noteq> [] then
                   (case IsDependentClusterOverridesPresent d policy s7 of
                      (present, err) \<Rightarrow> err \<noteq> None \<or> \<not> present)
                 else False) of
             True \<Rightarrow> (Some WaitingForDependentOverrides, s7)
           | False \<Rightarrow>
               (let s8 = enqueueMatched matchedKeys s7
                in if preemptionEnabled (ps_Preemption (p_Spec policy))
                   then handleClusterPropagationPolicyPreemption d policy s8
                   else (None, s8))))))))))"

section \<open>Policy reconcilers\<close>

text \<open>
  Modelled from the spec: the names of the detector's finalizers on policies are
  constants of package util, not in src (3: PPs and CPPs carry a finalizer owned by the
  detector; on deletion, cleanup runs and the finalizer is then removed).
\<close>

definition PropagationPolicyControllerFinalizer :: string where
  "PropagationPolicyControllerFinalizer = ''pp-detector''"

definition ClusterPropagationPolicyControllerFinalizer :: string where
  "ClusterPropagationPolicyControllerFinalizer = ''cpp-detector''"

definition policiesOf :: "policyKind \<Rightarrow> world \<Rightarrow> PropagationPolicy list" where
  "policiesOf kind s = (case kind of PP \<Rightarrow> pps s | CPP \<Rightarrow> cpps s)"

definition setPolicies :: "policyKind \<Rightarrow> PropagationPolicy list \<Rightarrow> world \<Rightarrow> world" where
  "setPolicies kind xs s = (case kind of PP \<Rightarrow> s\<lparr>pps := xs\<rparr> | CPP \<Rightarrow> s\<lparr>cpps := xs\<rparr>)"

definition getPolicy ::
  "policyKind \<Rightarrow> string \<times> string \<Rightarrow> world \<Rightarrow> (error + PropagationPolicy) \<times> world" where
  "getPolicy kind k s =
     (case nextFault s of
        (Some e, s1) \<Rightarrow> (Inl e, sent (GetPolicy kind k (Some e)) s1)
      | (None, s1) \<Rightarrow>
          (case lookupBy policyKey k (policiesOf kind s1) of
             None \<Rightarrow> (Inl NotFound, sent (GetPolicy kind k (Some NotFound)) s1)
           | Some p \<Rightarrow> (Inr p, sent (GetPolicy kind k None) s1)))"

definition updatePolicy ::
  "policyKind \<Rightarrow> PropagationPolicy \<Rightarrow> world \<Rightarrow> error option \<times> world" where
  "updatePolicy kind p s =
     (case nextFault s of
        (Some e, s1) \<Rightarrow> (Some e, sent (UpdatePolicy kind p (Some e)) s1)
      | (None, s1) \<Rightarrow>
          (case lookupBy policyKey (policyKey p) (policiesOf kind s1) of
             None \<Rightarrow> (Some NotFound, sent (UpdatePolicy kind p (Some NotFound)) s1)
           | Some _ \<Rightarrow>
               (None, sent (UpdatePolicy kind p None)
                        (setPolicies kind (replaceBy policyKey p (policiesOf kind s1)) s1))))"

text \<open>
  \<^verbatim>\<open>controllerutil.RemoveFinalizer\<close>: removes the finalizer and tells whether the object
  carried it.
\<close>

definition RemoveFinalizer :: "PropagationPolicy \<Rightarrow> string \<Rightarrow> bool \<times> PropagationPolicy" where
  "RemoveFinalizer obj finalizer =
     (finalizer \<in> set (p_Finalizers obj),
      obj\<lparr>p_Finalizers := removeAll finalizer (p_Finalizers obj)\<rparr>)"

text \<open>\<open>ReconcilePropagationPolicy\<close> (detector.go 947-985).\<close>

definition ReconcilePropagationPolicy :: "ResourceDetector \<Rightarrow> QueueKey \<Rightarrow> world \<Rightarrow> error option \<times> world" where
  "ReconcilePropagationPolicy d key s =
     (case key of
        KeyClusterWideKey ckey \<Rightarrow>
          (case getPolicy PP (k_Namespace ckey, k_Name ckey) s of
             (Inl err, s1) \<Rightarrow> if IsNotFound err then (None, s1) else (Some err, s1)
           | (Inr unstructuredObj, s1) \<Rightarrow>
               (case ConvertToTypedObject d unstructuredObj of
                  Inl err \<Rightarrow> (Some err, s1)
                | Inr propagationObject \<Rightarrow>
                    if p_DeletionTimestamp propagationObject \<noteq> None then
                      (case HandlePropagationPolicyDeletion d
                              (mapIndex (p_Labels propagationObject)
                                 PropagationPolicyPermanentIDLabel) s1 of
                         (Some err, s2) \<Rightarrow> (Some err, s2)
                       | (None, s2) \<Rightarrow>
                           (case RemoveFinalizer propagationObject
                                   PropagationPolicyControllerFinalizer of
                              (True, propagationObject') \<Rightarrow>
                                updatePolicy PP propagationObject' s2
                            | (False, propagationObject') \<Rightarrow> (None, s2)))
                    else HandlePropagationPolicyCreationOrUpdate d propagationObject s1))
      | _ \<Rightarrow>
          (Some InvalidKey,
           klogError ''Found invalid key when reconciling propagation policy.'' s))"

text \<open>\<open>ReconcileClusterPropagationPolicy\<close> (detector.go 1048-1087).\<close>

definition ReconcileClusterPropagationPolicy :: "ResourceDetector \<Rightarrow> QueueKey \<Rightarrow> world \<Rightarrow> error option \<times> world" where
  "ReconcileClusterPropagationPolicy d key s =
     (case key of
        KeyClusterWideKey ckey \<Rightarrow>
          (case getPolicy CPP (k_Namespace ckey, k_Name ckey) s of
             (Inl err, s1) \<Rightarrow> if IsNotFound err then (None, s1) else (Some err, s1)
           | (Inr unstructuredObj, s1) \<Rightarrow>
               (case ConvertToTypedObject d unstructuredObj of
                  Inl err \<Rightarrow> (Some err, s1)
                | Inr propagationObject \<Rightarrow>
                    if p_DeletionTimestamp propagationObject \<noteq> None then
                      (case HandleClusterPropagationPolicyDeletion d
                              (mapIndex (p_Labels propagationObject)
                                 ClusterPropagationPolicyPermanentIDLabel) s1 of
                         (Some err, s2) \<Rightarrow> (Some err, s2)
                       | (None, s2) \<Rightarrow>
                           (case RemoveFinalizer propagationObject
                                   ClusterPropagationPolicyControllerFinalizer of
                              (True, propagationObject') \<Rightarrow>
                                updatePolicy CPP propagationObject' s2
                            | (False, propagationObject') \<Rightarrow> (None, s2)))
                    else HandleClusterPropagationPolicyCreationOrUpdate d propagationObject s1))
      | _ \<Rightarrow>
          (Some InvalidKey,
           klogError ''Found invalid key when reconciling cluster propagation policy.'' s))"

section \<open>Worker\<close>

text \<open>
  Modelled from the spec: the worker of \<^verbatim>\<open>util.AsyncWorker\<close> is not in src. 4.9: each
  worker pulls a key, invokes the registered reconciler, and on returned error re-adds
  the key with rate-limited delay; on nil error, forgets the key. (The comment on
  \<open>Reconcile\<close>, detector.go 242, says the same: the key will be re-queued if an error is
  non-nil.)
\<close>

datatype queueAction = Forget QueueKey | AddRateLimited QueueKey

definition worker ::
  "(QueueKey \<Rightarrow> world \<Rightarrow> error option \<times> world) \<Rightarrow> QueueKey \<Rightarrow> world \<Rightarrow> queueAction \<times> world" where
  "worker reconcileFunc key s =
     (case reconcileFunc key s of
        (None, s') \<Rightarrow> (Forget key, s')
      | (Some err, s') \<Rightarrow> (AddRateLimited key, s'))"

section \<open>Observations\<close>

text \<open>
  What the statements below observe of a run: the value of \<^verbatim>\<open>spec.clusters\<close> of the
  binding stored under a key, the collection a request addresses, and the requests
  sent between two states (\<open>sentSince Q s s'\<close>: the log of \<open>s'\<close> extends the log of \<open>s\<close>
  by requests that all satisfy \<open>Q\<close>).
\<close>

definition clustersAt :: "bindingKind \<Rightarrow> string \<times> string \<Rightarrow> world \<Rightarrow> TargetCluster list option" where
  "clustersAt kind k s =
     map_option (\<lambda>b. Clusters (b_Spec b)) (lookupBy bindingKey k (bindingsOf kind s))"

fun bindingRequestKind :: "request \<Rightarrow> bindingKind option" where
  "bindingRequestKind (GetBinding kind k r) = Some kind"
| "bindingRequestKind (ListBindings kind l v r) = Some kind"
| "bindingRequestKind (CreateBinding kind b r) = Some kind"
| "bindingRequestKind (UpdateBinding kind b r) = Some kind"
| "bindingRequestKind _ = None"

definition sentSince :: "(request \<Rightarrow> bool) \<Rightarrow> world \<Rightarrow> world \<Rightarrow> bool" where
  "sentSince Q s s' = (\<exists>delta. requests s' = requests s @ delta \<and> list_all Q delta)"

definition overwrittenBy :: "Binding \<Rightarrow> Binding \<Rightarrow> bool" where
  "overwrittenBy binding b \<longleftrightarrow>
     b_OwnerReferences b = b_OwnerReferences binding \<and>
     b_Finalizers b = b_Finalizers binding \<and>
     Resource (b_Spec b) = Resource (b_Spec binding) \<and>
     ReplicaRequirements (b_Spec b) = ReplicaRequirements (b_Spec binding) \<and>
     Replicas (b_Spec b) = Replicas (b_Spec binding) \<and>
     SchedulerName (b_Spec b) = SchedulerName (b_Spec binding) \<and>
     Placement (b_Spec b) = Placement (b_Spec binding) \<and>
     Failover (b_Spec b) = Failover (b_Spec binding) \<and>
     ConflictResolution (b_Spec b) = ConflictResolution (b_Spec binding)"

fun isTemplateRead :: "request \<Rightarrow> bool" where
  "isTemplateRead (GetTemplate k r) = True"
| "isTemplateRead _ = False"

fun isBindingRequestFor :: "bindingKind \<Rightarrow> string \<times> string \<Rightarrow> request \<Rightarrow> bool" where
  "isBindingRequestFor kind k (GetBinding kind' k' r) = (kind' = kind \<and> k' = k)"
| "isBindingRequestFor kind k (UpdateBinding kind' b r) = (kind' = kind \<and> bindingKey b = k)"
| "isBindingRequestFor kind k _ = False"

text \<open>The marks of a policy of kind \<open>pk\<close> are absent from these labels and annotations.\<close>

definition unmarked :: "policyKind \<Rightarrow> smap \<Rightarrow> smap \<Rightarrow> bool" where
  "unmarked pk labels annotations =
     (case pk of
        PP \<Rightarrow> list_all (\<lambda>k. labels k = None) propagationPolicyMarkedLabels \<and>
              list_all (\<lambda>k. annotations k = None) propagationPolicyMarkedAnnotations
      | CPP \<Rightarrow> list_all (\<lambda>k. labels k = None) clusterPropagationPolicyMarkedLabels \<and>
               list_all (\<lambda>k. annotations k = None) clusterPropagationPolicyMarkedAnnotations)"

text \<open>
  I5 as a check of the request log. \<open>items\<close> are the listed bindings with their kind.
  The check reads the log from the start and keeps the set of bindings whose template
  has just been cleared: a template read that finds nothing, or a successful update of
  the template without the marks, clears the listed bindings that refer to that
  template; any other template request clears none. An update of a binding is
  accepted only for a binding in the set, which then shrinks to that binding; a read of
  a binding shrinks the set to that binding; any other request empties it. \<open>None\<close>
  is a violation: a binding was written before its template was cleared, or after a
  template request that did not clear it.
\<close>

definition clearedBy ::
  "(bindingKind \<times> Binding) list \<Rightarrow> objectKey \<Rightarrow> (bindingKind \<times> string \<times> string) set" where
  "clearedBy items k =
     set (map (\<lambda>(kind, b). (kind, bindingKey b))
            (filter (\<lambda>(kind, b). keyOfReference (Resource (b_Spec b)) = k) items))"

fun marksStep ::
  "policyKind \<Rightarrow> (bindingKind \<times> Binding) list \<Rightarrow> (bindingKind \<times> string \<times> string) set option \<Rightarrow>
     request \<Rightarrow> (bindingKind \<times> string \<times> string) set option" where
  "marksStep pk items None r = None"
| "marksStep pk items (Some cleared) (GetTemplate k out) =
     Some (if out = Some NotFound then clearedBy items k else {})"
| "marksStep pk items (Some cleared) (UpdateTemplate u out) =
     Some (if out = None \<and> unmarked pk (u_Labels u) (u_Annotations u)
           then clearedBy items (objectKeyOf u) else {})"
| "marksStep pk items (Some cleared) (UpdateBinding kind b out) =
     (if (kind, bindingKey b) \<in> cleared then Some {(kind, bindingKey b)} else None)"
| "marksStep pk items (Some cleared) (GetBinding kind k out) = Some (cleared \<inter> {(kind, k)})"
| "marksStep pk items (Some cleared) r = Some {}"

definition marksLead :: "policyKind \<Rightarrow> (bindingKind \<times> Binding) list \<Rightarrow> request list \<Rightarrow> bool" where
  "marksLead pk items log = (foldl (marksStep pk items) (Some {}) log \<noteq> None)"

text \<open>The bindings that carry the label \<open>labelKey\<close> with the value \<open>policyID\<close>.\<close>

definition labelled :: "string \<Rightarrow> string \<Rightarrow> Binding list \<Rightarrow> Binding list" where
  "labelled labelKey policyID bs = filter (\<lambda>b. b_Labels b labelKey = Some policyID) bs"

section \<open>Example objects\<close>

text \<open>
  A detector whose collaborators do nothing, a Deployment \<open>default/nginx\<close>, a
  PropagationPolicy and a ClusterPropagationPolicy that select it, and a world that
  holds them. The witnesses below run the code on them.
\<close>

definition ex_detector :: ResourceDetector where
  "ex_detector =
     \<lparr>GenerateBindingName = (\<lambda>kind name. name @ ''-'' @ kind),
      DedupeAndMergeLabels = (\<lambda>existLabel newLabel. existLabel ++ newLabel),
      DedupeAndMergeAnnotations = (\<lambda>existAnnotation newAnnotation. existAnnotation ++ newAnnotation),
      HookEnabled = (\<lambda>gvk. False),
      GetReplicas = (\<lambda>object. Inr (0, None)),
      RESTMapper = (\<lambda>gvk. None),
      ToUnstructured = Inr,
      ConvertToTypedObject = Inr,
      ResourceMatches = (\<lambda>object rs. rs_Kind rs = u_Kind object),
      ConstructClusterWideKey =
        (\<lambda>r. Inr \<lparr>k_Group = [], k_Version = ref_APIVersion r, k_Kind = ref_Kind r,
                  k_Namespace = ref_Namespace r, k_Name = ref_Name r\<rparr>),
      IsDependentOverridesPresent = (\<lambda>policy s. (False, None)),
      IsDependentClusterOverridesPresent = (\<lambda>policy s. (False, None)),
      propagateResource = (\<lambda>object objectKey resourceChangeByKarmada s. (None, s)),
      cleanPPUnmatchedRBs = (\<lambda>policyID ns name selectors s. (None, s)),
      cleanCPPUnmatchedRBs = (\<lambda>policyID name selectors s. (None, s)),
      cleanUnmatchedCRBs = (\<lambda>policyID name selectors s. (None, s)),
      listPPDerivedRBs = (\<lambda>policyID ns name s. (Inr [], s)),
      listCPPDerivedRBs = (\<lambda>policyID name s. (Inr [], s)),
      listCPPDerivedCRBs = (\<lambda>policyID name s. (Inr [], s)),
      handlePropagationPolicyPreemption = (\<lambda>policy s. (None, s)),
      handleClusterPropagationPolicyPreemption = (\<lambda>policy s. (None, s))\<rparr>"

definition ex_nginx :: Unstructured where
  "ex_nginx =
     \<lparr>u_Group = ''apps'', u_Version = ''v1'', u_Kind = ''Deployment'',
      u_Namespace = ''default'', u_Name = ''nginx'', u_UID = ''uid-1'',
      u_ResourceVersion = ''1'', u_Labels = Map.empty, u_Annotations = Map.empty\<rparr>"

definition ex_spec :: PropagationSpec where
  "ex_spec =
     \<lparr>ResourceSelectors =
        [\<lparr>rs_APIVersion = ''apps/v1'', rs_Kind = ''Deployment'', rs_Namespace = [],
          rs_Name = [], rs_MatchLabels = None\<rparr>],
      ps_PropagateDeps = True, ps_Placement = ''member1'', ps_SchedulerName = ''default-scheduler'',
      ps_Failover = None, ps_ConflictResolution = ''Abort'', ps_Preemption = ''Never'',
      ps_ActivationPreference = ''Lazy''\<rparr>"

definition ex_pp :: PropagationPolicy where
  "ex_pp =
     \<lparr>p_Namespace = ''default'', p_Name = ''pp1'',
      p_Labels = [PropagationPolicyPermanentIDLabel \<mapsto> ''id-1''],
      p_Finalizers = [PropagationPolicyControllerFinalizer],
      p_DeletionTimestamp = None, p_Spec = ex_spec\<rparr>"

definition ex_cpp :: ClusterPropagationPolicy where
  "ex_cpp =
     \<lparr>p_Namespace = [], p_Name = ''cpp1'',
      p_Labels = [ClusterPropagationPolicyPermanentIDLabel \<mapsto> ''id-2''],
      p_Finalizers = [ClusterPropagationPolicyControllerFinalizer],
      p_DeletionTimestamp = None, p_Spec = ex_spec\<rparr>"

definition ex_key :: ClusterWideKey where
  "ex_key =
     \<lparr>k_Group = ''apps'', k_Version = ''v1'', k_Kind = ''Deployment'',
      k_Namespace = ''default'', k_Name = ''nginx''\<rparr>"

definition ex_world :: world where
  "ex_world =
     \<lparr>templates = [ex_nginx], rbs = [], crbs = [], pps = [ex_pp], cpps = [ex_cpp],
      waitingObjects = [], Processor = [], klog = [], faults = [], requests = []\<rparr>"

text \<open>The template after the claim of \<open>ex_pp\<close> and after the claim of \<open>ex_cpp\<close>.\<close>

definition ex_nginx_pp :: Unstructured where
  "ex_nginx_pp =
     ex_nginx
       \<lparr>u_Labels := [PropagationPolicyPermanentIDLabel \<mapsto> ''id-1''],
        u_Annotations :=
          [PropagationPolicyNamespaceAnnotation \<mapsto> ''default'',
           PropagationPolicyNameAnnotation \<mapsto> ''pp1'']\<rparr>"

definition ex_nginx_cpp :: Unstructured where
  "ex_nginx_cpp =
     ex_nginx
       \<lparr>u_Labels := [ClusterPropagationPolicyPermanentIDLabel \<mapsto> ''id-2''],
        u_Annotations := [ClusterPropagationPolicyAnnotation \<mapsto> ''cpp1'']\<rparr>"

definition ex_world_pp :: world where
  "ex_world_pp =
     ex_world\<lparr>templates := [ex_nginx_pp], requests := [UpdateTemplate ex_nginx_pp None]\<rparr>"

definition ex_world_cpp :: world where
  "ex_world_cpp =
     ex_world\<lparr>templates := [ex_nginx_cpp], requests := [UpdateTemplate ex_nginx_cpp None]\<rparr>"

definition ex_reference :: ObjectReference where
  "ex_reference =
     \<lparr>ref_APIVersion = ''apps/v1'', ref_Kind = ''Deployment'', ref_Namespace = ''default'',
      ref_Name = ''nginx'', ref_UID = ''uid-1'', ref_ResourceVersion = ''1''\<rparr>"

text \<open>
  A ResourceBinding of \<open>default/nginx\<close> that an older policy produced and the scheduler
  has filled in, and the binding after \<open>ApplyPolicy\<close> has refreshed it for \<open>ex_pp\<close>.
\<close>

definition ex_binding :: Binding where
  "ex_binding =
     \<lparr>b_Name = ''nginx-Deployment'', b_Namespace = ''default'',
      b_Labels = [PropagationPolicyPermanentIDLabel \<mapsto> ''id-0''],
      b_Annotations = Map.empty,
      b_OwnerReferences = [NewControllerRef ex_nginx],
      b_Finalizers = [BindingControllerFinalizer],
      b_Spec =
        \<lparr>Resource = ex_reference, PropagateDeps = False, ReplicaRequirements = None,
         Replicas = 0, Clusters = [\<lparr>tc_Name = ''member1'', tc_Replicas = 2\<rparr>],
         Placement = Some ''member0'', SchedulerName = ''default-scheduler'',
         Failover = None, ConflictResolution = ''Abort''\<rparr>\<rparr>"

definition ex_binding_refreshed :: Binding where
  "ex_binding_refreshed =
     ex_binding
       \<lparr>b_Labels := [PropagationPolicyPermanentIDLabel \<mapsto> ''id-1''],
        b_Annotations :=
          [PropagationPolicyNamespaceAnnotation \<mapsto> ''default'',
           PropagationPolicyNameAnnotation \<mapsto> ''pp1''],
        b_Spec := (b_Spec ex_binding)\<lparr>PropagateDeps := True, Placement := Some ''member1''\<rparr>\<rparr>"

definition ex_binding_built :: Binding where
  "ex_binding_built = ex_binding_refreshed\<lparr>b_Spec := (b_Spec ex_binding_refreshed)\<lparr>Clusters := []\<rparr>\<rparr>"

definition ex_world_refreshed :: world where
  "ex_world_refreshed =
     ex_world
        \<lparr>templates := [ex_nginx_pp],
         rbs := [ex_binding_refreshed],
         requests :=
           [GetBinding RB (''default'', ''nginx-Deployment'') None,
            UpdateBinding RB ex_binding_refreshed None]\<rparr>"

definition ex_world_bound :: world where
  "ex_world_bound = ex_world\<lparr>templates := [ex_nginx_pp], rbs := [ex_binding]\<rparr>"

definition ex_binding_stale :: Binding where
  "ex_binding_stale =
     ex_binding\<lparr>b_OwnerReferences := [(NewControllerRef ex_nginx)\<lparr>or_UID := ''uid-0''\<rparr>]\<rparr>"

definition ex_world_stale :: world where
  "ex_world_stale = ex_world\<lparr>templates := [ex_nginx_pp], rbs := [ex_binding_stale]\<rparr>"

definition ex_world_refused :: world where
  "ex_world_refused =
     ex_world_stale\<lparr>requests := [GetBinding RB (''default'', ''nginx-Deployment'') None]\<rparr>"

definition ex_role :: Unstructured where
  "ex_role =
     \<lparr>u_Group = ''rbac.authorization.k8s.io'', u_Version = ''v1'', u_Kind = ''ClusterRole'',
      u_Namespace = [], u_Name = ''viewer'', u_UID = ''uid-2'', u_ResourceVersion = ''7'',
      u_Labels = [ClusterPropagationPolicyPermanentIDLabel \<mapsto> ''id-2''],
      u_Annotations = [ClusterPropagationPolicyAnnotation \<mapsto> ''cpp1'']\<rparr>"

definition ex_role_key :: ClusterWideKey where
  "ex_role_key =
     \<lparr>k_Group = ''rbac.authorization.k8s.io'', k_Version = ''v1'', k_Kind = ''ClusterRole'',
      k_Namespace = [], k_Name = ''viewer''\<rparr>"

definition ex_world_c :: world where
  "ex_world_c = ex_world\<lparr>templates := [ex_nginx_cpp, ex_role]\<rparr>"

text \<open>
  The bindings that \<open>ApplyClusterPolicy\<close> creates for \<open>ex_cpp\<close>: a ResourceBinding for the
  Deployment, a ClusterResourceBinding for the ClusterRole.
\<close>

definition ex_rb_created :: Binding where
  "ex_rb_created =
     \<lparr>b_Name = ''nginx-Deployment'', b_Namespace = ''default'',
      b_Labels = [ClusterPropagationPolicyPermanentIDLabel \<mapsto> ''id-2''],
      b_Annotations = [ClusterPropagationPolicyAnnotation \<mapsto> ''cpp1''],
      b_OwnerReferences = [NewControllerRef ex_nginx],
      b_Finalizers = [BindingControllerFinalizer],
      b_Spec =
        \<lparr>Resource = ex_reference, PropagateDeps = True, ReplicaRequirements = None,
         Replicas = 0, Clusters = [], Placement = Some ''member1'',
         SchedulerName = ''default-scheduler'', Failover = None,
         ConflictResolution = ''Abort''\<rparr>\<rparr>"

definition ex_crb_created :: Binding where
  "ex_crb_created =
     \<lparr>b_Name = ''viewer-ClusterRole'', b_Namespace = [],
      b_Labels = [ClusterPropagationPolicyPermanentIDLabel \<mapsto> ''id-2''],
      b_Annotations = [ClusterPropagationPolicyAnnotation \<mapsto> ''cpp1''],
      b_OwnerReferences = [NewControllerRef ex_role],
      b_Finalizers = [ClusterResourceBindingControllerFinalizer],
      b_Spec =
        \<lparr>Resource =
           \<lparr>ref_APIVersion = ''rbac.authorization.k8s.io/v1'', ref_Kind = ''ClusterRole'',
            ref_Namespace = [], ref_Name = ''viewer'', ref_UID = ''uid-2'',
            ref_ResourceVersion = ''7''\<rparr>,
         PropagateDeps = True, ReplicaRequirements = None,
         Replicas = 0, Clusters = [], Placement = Some ''member1'',
         SchedulerName = ''default-scheduler'', Failover = None,
         ConflictResolution = ''Abort''\<rparr>\<rparr>"

definition ex_world_rb :: world where
  "ex_world_rb =
     ex_world_c
       \<lparr>rbs := [ex_rb_created],
        requests :=
          [GetBinding RB (''default'', ''nginx-Deployment'') (Some NotFound),
           CreateBinding RB ex_rb_created None]\<rparr>"

definition ex_world_crb :: world where
  "ex_world_crb =
     ex_world_c
       \<lparr>crbs := [ex_crb_created],
        requests :=
          [GetBinding CRB ([], ''viewer-ClusterRole'') (Some NotFound),
           CreateBinding CRB ex_crb_created None]\<rparr>"

text \<open>
  The existing ClusterResourceBinding of the witness says \<^verbatim>\<open>propagateDeps = false\<close> and
  the policy says true: the update callback keeps false.
\<close>

definition ex_crb_existing :: Binding where
  "ex_crb_existing = ex_crb_created\<lparr>b_Spec := (b_Spec ex_crb_created)\<lparr>PropagateDeps := False\<rparr>\<rparr>"

definition ex_service :: Unstructured where
  "ex_service =
     \<lparr>u_Group = [], u_Version = ''v1'', u_Kind = ''Service'',
      u_Namespace = ''default'', u_Name = ''web'', u_UID = ''uid-3'', u_ResourceVersion = ''4'',
      u_Labels = [ResourceTemplateClaimedByLabel \<mapsto> ''multiclusterservice''],
      u_Annotations = Map.empty\<rparr>"

definition ex_service_item :: ClusterWideKeyWithConfig where
  "ex_service_item =
     \<lparr>ClusterWideKey =
        \<lparr>k_Group = [], k_Version = ''v1'', k_Kind = ''Service'', k_Namespace = ''default'',
         k_Name = ''web''\<rparr>,
      ResourceChangeByKarmada = False\<rparr>"

definition ex_world_service :: world where
  "ex_world_service =
     ex_world\<lparr>templates := [ex_nginx, ex_service],
              waitingObjects := [ex_key, ClusterWideKey ex_service_item]\<rparr>"

definition ex_world_service_done :: world where
  "ex_world_service_done =
     ex_world_service
       \<lparr>waitingObjects := [ex_key],
        requests := [GetTemplate (''v1'', ''Service'', ''default'', ''web'') None]\<rparr>"

definition ex_world_waiting :: world where
  "ex_world_waiting = ex_world\<lparr>waitingObjects := [ex_key]\<rparr>"

definition ex_world_gated :: world where
  "ex_world_gated =
     ex_world_waiting
       \<lparr>requests := [GetTemplate (''apps/v1'', ''Deployment'', ''default'', ''nginx'') None]\<rparr>"

definition ex_nginx_unmarked :: Unstructured where
  "ex_nginx_unmarked = cleanupTemplate (cleanupMarksFunc PP) ex_nginx_pp"

definition ex_binding_unmarked :: Binding where
  "ex_binding_unmarked = cleanupBinding (cleanupMarksFunc PP) ex_binding_refreshed"

definition ex_world_marked :: world where
  "ex_world_marked = ex_world\<lparr>templates := [ex_nginx_pp], rbs := [ex_binding_refreshed]\<rparr>"

definition ex_log_cleanup :: "request list" where
  "ex_log_cleanup =
     [ListBindings RB PropagationPolicyPermanentIDLabel ''id-1'' None,
      GetTemplate (''apps/v1'', ''Deployment'', ''default'', ''nginx'') None,
      UpdateTemplate ex_nginx_unmarked None,
      UpdateBinding RB ex_binding_unmarked None]"

definition ex_log_failed :: "request list" where
  "ex_log_failed =
     [ListBindings RB PropagationPolicyPermanentIDLabel ''id-1'' None,
      GetTemplate (''apps/v1'', ''Deployment'', ''default'', ''nginx'') None,
      UpdateTemplate ex_nginx_unmarked (Some Conflict)]"

definition ex_world_unmarked :: world where
  "ex_world_unmarked =
     ex_world_marked
       \<lparr>templates := [ex_nginx_unmarked], rbs := [ex_binding_unmarked],
        requests := ex_log_cleanup\<rparr>"

section \<open>Lemmas on the collections and the request log\<close>

lemma lookupBy_replaceBy:
  "lookupBy key k (replaceBy key y xs) =
     (if k = key y then map_option (\<lambda>_. y) (lookupBy key k xs) else lookupBy key k xs)"
  by (induction xs) (auto simp: lookupBy_def replaceBy_def)

lemma lookupBy_append:
  "lookupBy key k (xs @ [y]) =
     (case lookupBy key k xs of Some x \<Rightarrow> Some x | None \<Rightarrow> if key y = k then Some y else None)"
  by (induction xs) (auto simp: lookupBy_def)

lemma lookupBy_key: "lookupBy key k xs = Some x \<Longrightarrow> key x = k"
  by (induction xs) (auto simp: lookupBy_def split: if_splits)

lemma bindingsOf_simps [simp]:
  "bindingsOf kind (sent r s) = bindingsOf kind s"
  "bindingsOf kind (s\<lparr>faults := fs\<rparr>) = bindingsOf kind s"
  "bindingsOf kind (s\<lparr>templates := ts\<rparr>) = bindingsOf kind s"
  "bindingsOf kind (setBindings kind' xs s) = (if kind = kind' then xs else bindingsOf kind s)"
  by (auto simp: bindingsOf_def sent_def setBindings_def split: bindingKind.splits)

lemma nextFault_bindingsOf [simp]: "bindingsOf kind (snd (nextFault s)) = bindingsOf kind s"
  by (simp add: nextFault_def split: list.splits)

lemma nextFault_bindingsOf': "nextFault s = (f, s1) \<Longrightarrow> bindingsOf kind s1 = bindingsOf kind s"
  using nextFault_bindingsOf[of kind s] by simp

lemma getBinding_bindingsOf:
  "getBinding kind k s = (r, s1) \<Longrightarrow> bindingsOf kind' s1 = bindingsOf kind' s"
  by (auto simp: getBinding_def nextFault_bindingsOf' split: prod.splits option.splits)

lemma getBinding_found:
  "getBinding kind k s = (Inr b, s1) \<Longrightarrow> lookupBy bindingKey k (bindingsOf kind s) = Some b"
  by (auto simp: getBinding_def nextFault_bindingsOf' split: prod.splits option.splits)

lemma createBinding_clustersAt:
  "createBinding kind b s = (r, s1) \<Longrightarrow> clustersAt kind' k s = Some c \<Longrightarrow>
     clustersAt kind' k s1 = Some c"
  by (auto simp: createBinding_def clustersAt_def nextFault_bindingsOf' lookupBy_append
           split: prod.splits option.splits)

lemma updateBinding_clustersAt:
  "updateBinding kind b s = (r, s1) \<Longrightarrow>
   lookupBy bindingKey (bindingKey b) (bindingsOf kind s) = Some b0 \<Longrightarrow>
   Clusters (b_Spec b) = Clusters (b_Spec b0) \<Longrightarrow>
   clustersAt kind' k s1 = clustersAt kind' k s"
  by (auto simp: updateBinding_def clustersAt_def nextFault_bindingsOf' lookupBy_replaceBy
           split: prod.splits option.splits)

lemma getBinding_clustersAt:
  "getBinding kind k s = (r, s1) \<Longrightarrow> clustersAt kind' k' s1 = clustersAt kind' k' s"
  by (simp add: clustersAt_def getBinding_bindingsOf)

lemma mutate_keeps:
  assumes "\<And>b. Clusters (b_Spec (snd (f b))) = Clusters (b_Spec b)"
      and "mutate f key obj = (r, obj')"
  shows "Clusters (b_Spec obj') = Clusters (b_Spec obj)"
  using assms(2) assms(1)[of obj]
  by (auto simp: mutate_def split: prod.splits option.splits if_splits)

lemma mutate_key: "mutate f key obj = (None, obj') \<Longrightarrow> bindingKey obj' = key"
  by (auto simp: mutate_def split: prod.splits option.splits if_splits)

lemma CreateOrUpdate_clustersAt:
  assumes keeps: "\<And>b. Clusters (b_Spec (snd (f b))) = Clusters (b_Spec b)"
      and run: "CreateOrUpdate kind obj f s = (r, s')"
      and pre: "clustersAt kind' k s = Some c"
  shows "clustersAt kind' k s' = Some c"
proof -
  obtain g s1 where g: "getBinding kind (bindingKey obj) s = (g, s1)"
    by (cases "getBinding kind (bindingKey obj) s")
  have pre1: "clustersAt kind' k s1 = Some c"
    using getBinding_clustersAt[OF g] pre by simp
  show ?thesis
  proof (cases g)
    case (Inl err)
    show ?thesis
    proof (cases "IsNotFound err")
      case False
      with run g Inl pre1 show ?thesis by (simp add: CreateOrUpdate_def Let_def)
    next
      case True
      obtain m obj' where m: "mutate f (bindingKey obj) obj = (m, obj')"
        by (cases "mutate f (bindingKey obj) obj")
      show ?thesis
      proof (cases m)
        case (Some e)
        with run g Inl True m pre1 show ?thesis by (simp add: CreateOrUpdate_def Let_def)
      next
        case None
        obtain cr s2 where cr: "createBinding kind obj' s1 = (cr, s2)"
          by (cases "createBinding kind obj' s1")
        from run g Inl True m None cr have "s' = s2"
          by (auto simp: CreateOrUpdate_def Let_def split: option.splits)
        with createBinding_clustersAt[OF cr pre1] show ?thesis by simp
      qed
    qed
  next
    case (Inr existing)
    obtain m obj' where m: "mutate f (bindingKey obj) existing = (m, obj')"
      by (cases "mutate f (bindingKey obj) existing")
    show ?thesis
    proof (cases m)
      case (Some e)
      with run g Inr m pre1 show ?thesis by (simp add: CreateOrUpdate_def Let_def)
    next
      case None
      show ?thesis
      proof (cases "existing = obj'")
        case True
        with run g Inr m None pre1 show ?thesis by (simp add: CreateOrUpdate_def Let_def)
      next
        case False
        obtain ur s2 where ur: "updateBinding kind obj' s1 = (ur, s2)"
          by (cases "updateBinding kind obj' s1")
        from run g Inr m None False ur have s': "s' = s2"
          by (auto simp: CreateOrUpdate_def Let_def split: option.splits)
        have key: "bindingKey obj' = bindingKey obj" using mutate_key m None by simp
        have found: "lookupBy bindingKey (bindingKey obj') (bindingsOf kind s1) = Some existing"
          using getBinding_found g Inr getBinding_bindingsOf[OF g, of kind] key by simp
        have "Clusters (b_Spec obj') = Clusters (b_Spec existing)"
          using mutate_keeps[OF keeps m] .
        from updateBinding_clustersAt[OF ur found this] pre1 s' show ?thesis by simp
      qed
    qed
  qed
qed

lemma RetryOnConflict_invariant:
  assumes step: "\<And>c s r s'. fn c s = (r, s') \<Longrightarrow> P s \<Longrightarrow> P s'"
      and "P s" and "RetryOnConflict n fn c s = (r, s')"
  shows "P s'"
  using assms(2,3)
proof (induction n arbitrary: c s)
  case 0
  then show ?case by simp
next
  case (Suc n)
  obtain e c1 s1 where f: "fn c s = ((e, c1), s1)" by (cases "fn c s") auto
  have p1: "P s1" using step[OF f Suc.prems(1)] .
  show ?case
  proof (cases "\<exists>err. e = Some err \<and> IsConflict err \<and> n \<noteq> 0")
    case True
    with Suc.prems(2) f have "RetryOnConflict n fn c1 s1 = (r, s')" by auto
    from Suc.IH[OF p1 this] show ?thesis .
  next
    case False
    with Suc.prems(2) f have "s' = s1" by (cases e) (auto split: if_splits)
    with p1 show ?thesis by simp
  qed
qed

lemma callbacks_keep_clusters:
  "Clusters (b_Spec (snd (ApplyPolicy_mutate d object binding b))) = Clusters (b_Spec b)"
  "Clusters (b_Spec (snd (ApplyClusterPolicy_mutateRB d object binding b))) = Clusters (b_Spec b)"
  "Clusters (b_Spec (snd (ApplyClusterPolicy_mutateCRB d object binding b))) = Clusters (b_Spec b)"
  by (simp_all add: ApplyPolicy_mutate_def ApplyClusterPolicy_mutateRB_def
        ApplyClusterPolicy_mutateCRB_def)

lemma updateTemplate_bindingsOf:
  "updateTemplate u s = (r, s1) \<Longrightarrow> bindingsOf kind s1 = bindingsOf kind s"
  by (auto simp: updateTemplate_def nextFault_bindingsOf' split: prod.splits option.splits)

lemma ClaimPolicyForObject_bindingsOf:
  "ClaimPolicyForObject object policy s = (r, s1) \<Longrightarrow> bindingsOf kind s1 = bindingsOf kind s"
  by (auto simp: ClaimPolicyForObject_def Let_def updateTemplate_bindingsOf
           split: prod.splits if_splits)

lemma ClaimClusterPolicyForObject_bindingsOf:
  "ClaimClusterPolicyForObject object policy s = (r, s1) \<Longrightarrow>
     bindingsOf kind s1 = bindingsOf kind s"
  by (auto simp: ClaimClusterPolicyForObject_def Let_def updateTemplate_bindingsOf
           split: prod.splits if_splits)

lemma upsert_clustersAt:
  assumes keeps: "\<And>b. Clusters (b_Spec (snd (f b))) = Clusters (b_Spec b)"
      and run: "RetryOnConflict n
                  (\<lambda>bindingCopy s.
                     case CreateOrUpdate kind bindingCopy f s of
                       (((operationResult, err), bindingCopy'), s') \<Rightarrow> ((err, bindingCopy'), s'))
                  binding s = (r, s')"
      and pre: "clustersAt kind' k s = Some c"
  shows "clustersAt kind' k s' = Some c"
proof (rule RetryOnConflict_invariant[where P = "\<lambda>s. clustersAt kind' k s = Some c", OF _ pre run])
  fix c0 s0 r0 s0'
  assume a: "(case CreateOrUpdate kind c0 f s0 of
                (((operationResult, err), bindingCopy'), s') \<Rightarrow> ((err, bindingCopy'), s')) = (r0, s0')"
     and p: "clustersAt kind' k s0 = Some c"
  obtain x where x: "CreateOrUpdate kind c0 f s0 = (x, s0')"
    using a by (auto split: prod.splits)
  from CreateOrUpdate_clustersAt[OF keeps x p] show "clustersAt kind' k s0' = Some c" .
qed

lemma ApplyPolicy_clustersAt:
  assumes run: "ApplyPolicy d object objectKey resourceChangeByKarmada policy s = (r, s')"
      and pre: "clustersAt kind k s = Some c"
  shows "clustersAt kind k s' = Some c"
proof -
  obtain pid ce s1 where cl: "ClaimPolicyForObject object policy s = ((pid, ce), s1)"
    by (cases "ClaimPolicyForObject object policy s") auto
  have p1: "clustersAt kind k s1 = Some c"
    using pre ClaimPolicyForObject_bindingsOf[OF cl] by (simp add: clustersAt_def)
  show ?thesis
  proof (cases "ce = None \<and> \<not> (resourceChangeByKarmada \<and>
             IsLazyActivationEnabled (ps_ActivationPreference (p_Spec policy)))")
    case False
    with run cl have "s' = s1" by (auto simp: ApplyPolicy_def split: option.splits)
    with p1 show ?thesis by simp
  next
    case True
    let ?build = "BuildResourceBinding d object [PropagationPolicyPermanentIDLabel \<mapsto> pid]
       [PropagationPolicyNamespaceAnnotation \<mapsto> p_Namespace policy,
        PropagationPolicyNameAnnotation \<mapsto> p_Name policy] (p_Spec policy)"
    show ?thesis
    proof (cases ?build)
      case (Inl err)
      with run cl True have "s' = s1" by (auto simp: ApplyPolicy_def Let_def)
      with p1 show ?thesis by simp
    next
      case (Inr binding)
      with run cl True obtain x where
        "RetryOnConflict DefaultRetry
           (\<lambda>bindingCopy s.
              case CreateOrUpdate RB bindingCopy (ApplyPolicy_mutate d object binding) s of
                (((operationResult, err), bindingCopy'), s') \<Rightarrow> ((err, bindingCopy'), s'))
           binding s1 = (x, s')"
        by (auto simp: ApplyPolicy_def Let_def split: prod.splits)
      from upsert_clustersAt[OF callbacks_keep_clusters(1) this p1] show ?thesis .
    qed
  qed
qed

lemma sentSince_refl [simp]: "sentSince Q s s"
  by (simp add: sentSince_def)

lemma sentSince_trans: "sentSince Q s s1 \<Longrightarrow> sentSince Q s1 s2 \<Longrightarrow> sentSince Q s s2"
  by (auto simp: sentSince_def)

lemma sentSince_mono: "sentSince Q s s' \<Longrightarrow> (\<And>r. Q r \<Longrightarrow> Q' r) \<Longrightarrow> sentSince Q' s s'"
  by (auto simp: sentSince_def list_all_iff)

lemma nextFault_requests: "nextFault s = (f, s1) \<Longrightarrow> requests s1 = requests s"
  by (auto simp: nextFault_def split: list.splits)

lemma updateTemplate_sent:
  "updateTemplate u s = (r, s1) \<Longrightarrow> requests s1 = requests s @ [UpdateTemplate u r]"
  by (auto simp: updateTemplate_def sent_def nextFault_requests split: prod.splits option.splits)

lemma getTemplate_sent:
  "getTemplate k s = (r, s1) \<Longrightarrow>
     requests s1 = requests s @ [GetTemplate k (case r of Inl e \<Rightarrow> Some e | Inr _ \<Rightarrow> None)]"
  by (auto simp: getTemplate_def sent_def nextFault_requests split: prod.splits option.splits)

lemma getBinding_sent:
  "getBinding kind k s = (r, s1) \<Longrightarrow>
     requests s1 = requests s @ [GetBinding kind k (case r of Inl e \<Rightarrow> Some e | Inr _ \<Rightarrow> None)]"
  by (auto simp: getBinding_def sent_def nextFault_requests split: prod.splits option.splits)

lemma createBinding_sent:
  "createBinding kind b s = (r, s1) \<Longrightarrow> requests s1 = requests s @ [CreateBinding kind b r]"
  by (auto simp: createBinding_def sent_def setBindings_def nextFault_requests
           split: prod.splits option.splits bindingKind.splits)

lemma updateBinding_sent:
  "updateBinding kind b s = (r, s1) \<Longrightarrow> requests s1 = requests s @ [UpdateBinding kind b r]"
  by (auto simp: updateBinding_def sent_def setBindings_def nextFault_requests
           split: prod.splits option.splits bindingKind.splits)

lemma ClaimPolicyForObject_sent:
  "ClaimPolicyForObject object policy s = (r, s1) \<Longrightarrow>
     sentSince (\<lambda>r. bindingRequestKind r = None) s s1"
  by (auto simp: ClaimPolicyForObject_def Let_def sentSince_def dest!: updateTemplate_sent
           split: prod.splits if_splits)

lemma ClaimClusterPolicyForObject_sent:
  "ClaimClusterPolicyForObject object policy s = (r, s1) \<Longrightarrow>
     sentSince (\<lambda>r. bindingRequestKind r = None) s s1"
  by (auto simp: ClaimClusterPolicyForObject_def Let_def sentSince_def dest!: updateTemplate_sent
           split: prod.splits if_splits)



section \<open>Lemmas on the claim protocol\<close>


lemma labels_nonempty: "u_Labels object k = Some v \<Longrightarrow> u_Labels object \<noteq> Map.empty"
  by auto

lemma label_keys_distinct:
  "PropagationPolicyPermanentIDLabel \<noteq> ClusterPropagationPolicyPermanentIDLabel"
  by (simp add: PropagationPolicyPermanentIDLabel_def ClusterPropagationPolicyPermanentIDLabel_def)

lemma ClaimPolicyForObject_noop:
  assumes "u_Labels object PropagationPolicyPermanentIDLabel =
             Some (mapIndex (p_Labels policy) PropagationPolicyPermanentIDLabel)"
      and "u_Labels object ClusterPropagationPolicyPermanentIDLabel = None"
  shows "ClaimPolicyForObject object policy s =
           ((mapIndex (p_Labels policy) PropagationPolicyPermanentIDLabel, None), s)"
  using assms labels_nonempty[OF assms(1)]
  by (simp add: ClaimPolicyForObject_def excludeClusterPolicy_def mapIndex_def Let_def)

lemma ClaimClusterPolicyForObject_noop:
  assumes "u_Labels object ClusterPropagationPolicyPermanentIDLabel =
             Some (mapIndex (p_Labels policy) ClusterPropagationPolicyPermanentIDLabel)"
  shows "ClaimClusterPolicyForObject object policy s =
           ((mapIndex (p_Labels policy) ClusterPropagationPolicyPermanentIDLabel, None), s)"
  using assms
  by (simp add: ClaimClusterPolicyForObject_def GetLabelValue_def mapIndex_def Let_def)

lemma updateTemplate_ok:
  "updateTemplate u s = (None, s') \<Longrightarrow>
     lookupBy objectKeyOf (objectKeyOf u) (templates s') = Some u"
  by (auto simp: updateTemplate_def nextFault_def sent_def lookupBy_replaceBy
           split: list.splits option.splits)



lemma ClaimPolicyForObject_update:
  assumes "\<not> (u_Labels object \<noteq> Map.empty \<and>
              u_Labels object ClusterPropagationPolicyPermanentIDLabel = None \<and>
              mapIndex (u_Labels object) PropagationPolicyPermanentIDLabel =
                mapIndex (p_Labels policy) PropagationPolicyPermanentIDLabel)"
  shows "ClaimPolicyForObject object policy s =
     (case updateTemplate
        (object\<lparr>u_Labels :=
            ((u_Labels object)(ClusterPropagationPolicyPermanentIDLabel := None))
              (PropagationPolicyPermanentIDLabel \<mapsto>
                 mapIndex (p_Labels policy) PropagationPolicyPermanentIDLabel),
          u_Annotations :=
            (u_Annotations object)
              (PropagationPolicyNamespaceAnnotation \<mapsto> p_Namespace policy,
               PropagationPolicyNameAnnotation \<mapsto> p_Name policy)\<rparr>) s of
        (err, s') \<Rightarrow> ((mapIndex (p_Labels policy) PropagationPolicyPermanentIDLabel, err), s'))"
proof (cases "u_Labels object = Map.empty")
  case True
  then show ?thesis by (simp add: ClaimPolicyForObject_def Let_def)
next
  case False
  show ?thesis
  proof (cases "u_Labels object ClusterPropagationPolicyPermanentIDLabel")
    case None
    then have "(u_Labels object)(ClusterPropagationPolicyPermanentIDLabel := None) = u_Labels object"
      by (rule fun_upd_idem)
    with None False assms show ?thesis
      by (simp add: ClaimPolicyForObject_def excludeClusterPolicy_def Let_def)
  next
    case (Some a)
    with False show ?thesis
      by (simp add: ClaimPolicyForObject_def excludeClusterPolicy_def Let_def)
  qed
qed

lemma ClaimPolicyForObject_twice:
  assumes "lookupBy objectKeyOf (objectKeyOf object) (templates s) = Some object"
      and "ClaimPolicyForObject object policy s = ((pid, None), s')"
      and "lookupBy objectKeyOf (objectKeyOf object) (templates s') = Some object'"
  shows "ClaimPolicyForObject object' policy s' = ((pid, None), s')"
proof (cases "u_Labels object \<noteq> Map.empty \<and>
              u_Labels object ClusterPropagationPolicyPermanentIDLabel = None \<and>
              mapIndex (u_Labels object) PropagationPolicyPermanentIDLabel =
                mapIndex (p_Labels policy) PropagationPolicyPermanentIDLabel")
  case True
  then have "ClaimPolicyForObject object policy s =
      ((mapIndex (p_Labels policy) PropagationPolicyPermanentIDLabel, None), s)"
    by (simp add: ClaimPolicyForObject_def excludeClusterPolicy_def Let_def)
  with assms show ?thesis by simp
next
  case False
  let ?pid = "mapIndex (p_Labels policy) PropagationPolicyPermanentIDLabel"
  let ?copy = "object\<lparr>u_Labels :=
            ((u_Labels object)(ClusterPropagationPolicyPermanentIDLabel := None))
              (PropagationPolicyPermanentIDLabel \<mapsto> ?pid),
          u_Annotations :=
            (u_Annotations object)
              (PropagationPolicyNamespaceAnnotation \<mapsto> p_Namespace policy,
               PropagationPolicyNameAnnotation \<mapsto> p_Name policy)\<rparr>"
  from ClaimPolicyForObject_update[OF False, of s] assms(2)
  have upd: "updateTemplate ?copy s = (None, s')" and pid: "pid = ?pid"
    by (auto split: prod.splits)
  have key: "objectKeyOf ?copy = objectKeyOf object"
    by (simp add: objectKeyOf_def GetAPIVersion_def)
  from updateTemplate_ok[OF upd] key assms(3) have "object' = ?copy" by simp
  then have "u_Labels object' PropagationPolicyPermanentIDLabel = Some ?pid"
    and "u_Labels object' ClusterPropagationPolicyPermanentIDLabel = None"
    using label_keys_distinct by simp_all
  with pid show ?thesis
    using ClaimPolicyForObject_noop[of object' policy s'] by simp
qed

lemma ClaimClusterPolicyForObject_twice:
  assumes "lookupBy objectKeyOf (objectKeyOf object) (templates s) = Some object"
      and "ClaimClusterPolicyForObject object policy s = ((pid, None), s')"
      and "lookupBy objectKeyOf (objectKeyOf object) (templates s') = Some object'"
  shows "ClaimClusterPolicyForObject object' policy s' = ((pid, None), s')"
proof (cases "GetLabelValue (u_Labels object) ClusterPropagationPolicyPermanentIDLabel =
              mapIndex (p_Labels policy) ClusterPropagationPolicyPermanentIDLabel")
  case True
  then have "ClaimClusterPolicyForObject object policy s =
      ((mapIndex (p_Labels policy) ClusterPropagationPolicyPermanentIDLabel, None), s)"
    by (simp add: ClaimClusterPolicyForObject_def Let_def)
  with assms show ?thesis by simp
next
  case False
  let ?pid = "mapIndex (p_Labels policy) ClusterPropagationPolicyPermanentIDLabel"
  let ?copy = "MergeAnnotation
                    (MergeLabel object ClusterPropagationPolicyPermanentIDLabel ?pid)
                    ClusterPropagationPolicyAnnotation (p_Name policy)"
  from False assms(2)
  have upd: "updateTemplate ?copy s = (None, s')" and pid: "pid = ?pid"
    by (auto simp: ClaimClusterPolicyForObject_def Let_def split: prod.splits)
  have key: "objectKeyOf ?copy = objectKeyOf object"
    by (simp add: objectKeyOf_def GetAPIVersion_def MergeLabel_def MergeAnnotation_def)
  from updateTemplate_ok[OF upd] key assms(3) have "object' = ?copy" by simp
  then have "u_Labels object' ClusterPropagationPolicyPermanentIDLabel = Some ?pid"
    by (simp add: MergeLabel_def MergeAnnotation_def)
  with pid show ?thesis
    using ClaimClusterPolicyForObject_noop[of object' policy s'] by simp
qed



lemma ApplyPolicy_lazy:
  assumes "resourceChangeByKarmada"
      and "IsLazyActivationEnabled (ps_ActivationPreference (p_Spec policy))"
  shows "ApplyPolicy d object objectKey resourceChangeByKarmada policy s =
           (case ClaimPolicyForObject object policy s of ((policyID, err), s1) \<Rightarrow> (err, s1))"
  using assms by (auto simp: ApplyPolicy_def split: prod.splits option.splits)

lemma ApplyClusterPolicy_lazy:
  assumes "resourceChangeByKarmada"
      and "IsLazyActivationEnabled (ps_ActivationPreference (p_Spec policy))"
  shows "ApplyClusterPolicy d object objectKey resourceChangeByKarmada policy s =
           (case ClaimClusterPolicyForObject object policy s of ((policyID, err), s1) \<Rightarrow> (err, s1))"
  using assms by (auto simp: ApplyClusterPolicy_def split: prod.splits option.splits)


lemmas ex_defs = ex_detector_def ex_nginx_def ex_spec_def ex_pp_def ex_cpp_def ex_key_def
  ex_world_def ex_nginx_pp_def ex_nginx_cpp_def
  ex_world_pp_def ex_world_cpp_def

lemmas key_defs = PropagationPolicyPermanentIDLabel_def PropagationPolicyNamespaceAnnotation_def
  PropagationPolicyNameAnnotation_def ClusterPropagationPolicyPermanentIDLabel_def
  ClusterPropagationPolicyAnnotation_def ResourceTemplateClaimedByLabel_def

lemma ex_claim_pp:
  "ClaimPolicyForObject ex_nginx ex_pp ex_world =
     ((''id-1'', None),
      ex_world_pp)"
  by (simp add: ClaimPolicyForObject_def ex_defs key_defs mapIndex_def updateTemplate_def
        nextFault_def sent_def lookupBy_def replaceBy_def objectKeyOf_def GetAPIVersion_def
        GroupVersionString_def excludeClusterPolicy_def Let_def)

lemma ex_claim_cpp:
  "ClaimClusterPolicyForObject ex_nginx ex_cpp ex_world =
     ((''id-2'', None),
      ex_world_cpp)"
  by (simp add: ClaimClusterPolicyForObject_def ex_defs key_defs mapIndex_def updateTemplate_def
        nextFault_def sent_def lookupBy_def replaceBy_def objectKeyOf_def GetAPIVersion_def
        GroupVersionString_def GetLabelValue_def MergeLabel_def MergeAnnotation_def Let_def)

lemma ApplyClusterPolicy_clustersAt:
  assumes run: "ApplyClusterPolicy d object objectKey resourceChangeByKarmada policy s = (r, s')"
      and pre: "clustersAt kind k s = Some c"
  shows "clustersAt kind k s' = Some c"
proof -
  obtain pid ce s1 where cl: "ClaimClusterPolicyForObject object policy s = ((pid, ce), s1)"
    by (cases "ClaimClusterPolicyForObject object policy s") auto
  have p1: "clustersAt kind k s1 = Some c"
    using pre ClaimClusterPolicyForObject_bindingsOf[OF cl] by (simp add: clustersAt_def)
  show ?thesis
  proof (cases "ce = None \<and> \<not> (resourceChangeByKarmada \<and>
             IsLazyActivationEnabled (ps_ActivationPreference (p_Spec policy)))")
    case False
    with run cl have "s' = s1" by (auto simp: ApplyClusterPolicy_def split: option.splits)
    with p1 show ?thesis by simp
  next
    case True
    show ?thesis
    proof (cases "u_Namespace object \<noteq> []")
      case ns: True
      let ?build = "BuildResourceBinding d object [ClusterPropagationPolicyPermanentIDLabel \<mapsto> pid]
         [ClusterPropagationPolicyAnnotation \<mapsto> p_Name policy] (p_Spec policy)"
      show ?thesis
      proof (cases ?build)
        case (Inl err)
        with run cl True ns have "s' = s1" by (auto simp: ApplyClusterPolicy_def Let_def)
        with p1 show ?thesis by simp
      next
        case (Inr binding)
        with run cl True ns obtain x where
          "RetryOnConflict DefaultRetry
             (\<lambda>bindingCopy s.
                case CreateOrUpdate RB bindingCopy (ApplyClusterPolicy_mutateRB d object binding) s of
                  (((operationResult, err), bindingCopy'), s') \<Rightarrow> ((err, bindingCopy'), s'))
             binding s1 = (x, s')"
          by (auto simp: ApplyClusterPolicy_def Let_def split: prod.splits)
        from upsert_clustersAt[OF callbacks_keep_clusters(2) this p1] show ?thesis .
      qed
    next
      case ns: False
      let ?build = "BuildClusterResourceBinding d object
         [ClusterPropagationPolicyPermanentIDLabel \<mapsto> pid]
         [ClusterPropagationPolicyAnnotation \<mapsto> p_Name policy] (p_Spec policy)"
      show ?thesis
      proof (cases ?build)
        case (Inl err)
        with run cl True ns have "s' = s1" by (auto simp: ApplyClusterPolicy_def Let_def)
        with p1 show ?thesis by simp
      next
        case (Inr binding)
        with run cl True ns obtain x where
          "RetryOnConflict DefaultRetry
             (\<lambda>bindingCopy s.
                case CreateOrUpdate CRB bindingCopy (ApplyClusterPolicy_mutateCRB d object binding) s of
                  (((operationResult, err), bindingCopy'), s') \<Rightarrow> ((err, bindingCopy'), s'))
             binding s1 = (x, s')"
          by (auto simp: ApplyClusterPolicy_def Let_def split: prod.splits)
        from upsert_clustersAt[OF callbacks_keep_clusters(3) this p1] show ?thesis .
      qed
    qed
  qed
qed

lemmas ex_defs2 = ex_reference_def ex_binding_def ex_binding_refreshed_def ex_world_bound_def
  ex_binding_built_def ex_world_refreshed_def

lemmas client_defs = nextFault_def sent_def lookupBy_def replaceBy_def getTemplate_def
  updateTemplate_def bindingsOf_def setBindings_def getBinding_def createBinding_def
  updateBinding_def bindingKey_def objectKeyOf_def GetAPIVersion_def GroupVersionString_def

lemma RetryOnConflict_numeral:
  "RetryOnConflict (numeral k) fn c s =
     (case fn c s of
        ((None, c'), s') \<Rightarrow> ((None, c'), s')
      | ((Some err, c'), s') \<Rightarrow>
          if IsConflict err \<and> pred_numeral k \<noteq> 0 then RetryOnConflict (pred_numeral k) fn c' s'
          else ((Some err, c'), s'))"
  by (simp add: numeral_eq_Suc)

lemma ex_pp_simps:
  "p_Namespace ex_pp = ''default''" "p_Name ex_pp = ''pp1''" "p_Spec ex_pp = ex_spec"
  "p_Namespace ex_cpp = []" "p_Name ex_cpp = ''cpp1''" "p_Spec ex_cpp = ex_spec"
  "ps_ActivationPreference ex_spec = ''Lazy''"
  by (simp_all add: ex_pp_def ex_cpp_def ex_spec_def)

lemma ex_claim_pp_noop:
  "ClaimPolicyForObject ex_nginx_pp ex_pp ex_world_bound = ((''id-1'', None), ex_world_bound)"
  by (simp add: ClaimPolicyForObject_def ex_defs key_defs mapIndex_def
        excludeClusterPolicy_def Let_def)

lemma ex_build_rb:
  "BuildResourceBinding ex_detector ex_nginx_pp [PropagationPolicyPermanentIDLabel \<mapsto> ''id-1'']
     [PropagationPolicyNamespaceAnnotation \<mapsto> ''default'',
      PropagationPolicyNameAnnotation \<mapsto> ''pp1''] ex_spec = Inr ex_binding_built"
  by (simp add: BuildResourceBinding_def ex_defs ex_defs2 Let_def NewControllerRef_def
        GroupVersionKind_def GetAPIVersion_def GroupVersionString_def)

lemma ex_upsert_rb:
  "CreateOrUpdate RB ex_binding_built (ApplyPolicy_mutate ex_detector ex_nginx_pp ex_binding_built)
     ex_world_bound =
   (((OperationResultUpdated, None), ex_binding_refreshed), ex_world_refreshed)"
  by (simp add: CreateOrUpdate_def mutate_def ApplyPolicy_mutate_def
      GetControllerOfNoCopy_def NewControllerRef_def excludeClusterPolicy_def IsNotFound_def
      ex_defs ex_defs2 key_defs client_defs Let_def)

lemma ex_apply_pp:
  "ApplyPolicy ex_detector ex_nginx_pp ex_key False ex_pp ex_world_bound = (None, ex_world_refreshed)"
  by (simp add: ApplyPolicy_def ex_claim_pp_noop ex_pp_simps ex_build_rb Let_def
        DefaultRetry_def RetryOnConflict_numeral ex_upsert_rb)

lemmas ex_defs3 = ex_binding_stale_def ex_world_stale_def

lemma callbacks_overwrite:
  "fst (ApplyPolicy_mutate d object binding bindingCopy) = None \<Longrightarrow>
     overwrittenBy binding (snd (ApplyPolicy_mutate d object binding bindingCopy)) \<and>
     PropagateDeps (b_Spec (snd (ApplyPolicy_mutate d object binding bindingCopy))) =
       PropagateDeps (b_Spec binding) \<and>
     b_Annotations (snd (ApplyPolicy_mutate d object binding bindingCopy)) =
       DedupeAndMergeAnnotations d (b_Annotations bindingCopy) (b_Annotations binding) \<and>
     b_Labels (snd (ApplyPolicy_mutate d object binding bindingCopy)) =
       snd (excludeClusterPolicy
              (DedupeAndMergeLabels d (b_Labels bindingCopy) (b_Labels binding)))"
  "fst (ApplyClusterPolicy_mutateRB d object binding bindingCopy) = None \<Longrightarrow>
     overwrittenBy binding (snd (ApplyClusterPolicy_mutateRB d object binding bindingCopy)) \<and>
     PropagateDeps (b_Spec (snd (ApplyClusterPolicy_mutateRB d object binding bindingCopy))) =
       PropagateDeps (b_Spec binding) \<and>
     b_Annotations (snd (ApplyClusterPolicy_mutateRB d object binding bindingCopy)) =
       DedupeAndMergeAnnotations d (b_Annotations bindingCopy) (b_Annotations binding) \<and>
     b_Labels (snd (ApplyClusterPolicy_mutateRB d object binding bindingCopy)) =
       DedupeAndMergeLabels d (b_Labels bindingCopy) (b_Labels binding)"
  "fst (ApplyClusterPolicy_mutateCRB d object binding bindingCopy) = None \<Longrightarrow>
     overwrittenBy binding (snd (ApplyClusterPolicy_mutateCRB d object binding bindingCopy)) \<and>
     b_Annotations (snd (ApplyClusterPolicy_mutateCRB d object binding bindingCopy)) =
       DedupeAndMergeAnnotations d (b_Annotations bindingCopy) (b_Annotations binding) \<and>
     b_Labels (snd (ApplyClusterPolicy_mutateCRB d object binding bindingCopy)) =
       DedupeAndMergeLabels d (b_Labels bindingCopy) (b_Labels binding)"
  by (simp_all add: ApplyPolicy_mutate_def ApplyClusterPolicy_mutateRB_def
        ApplyClusterPolicy_mutateCRB_def overwrittenBy_def split: if_splits)

lemma callbacks_refuse:
  assumes "GetControllerOfNoCopy existing = Some ownerRef" and "or_UID ownerRef \<noteq> u_UID object"
  shows "ApplyPolicy_mutate d object binding existing = (Some DifferentOwnerUID, existing)"
    and "ApplyClusterPolicy_mutateRB d object binding existing = (Some DifferentOwnerUID, existing)"
    and "ApplyClusterPolicy_mutateCRB d object binding existing = (Some DifferentOwnerUID, existing)"
  using assms
  by (simp_all add: ApplyPolicy_mutate_def ApplyClusterPolicy_mutateRB_def
        ApplyClusterPolicy_mutateCRB_def)

lemma upsert_refused:
  assumes get: "getBinding kind (bindingKey binding) s1 = (Inr existing, s2)"
      and cb: "f existing = (Some DifferentOwnerUID, existing)"
  shows "RetryOnConflict DefaultRetry
           (\<lambda>bindingCopy s.
              case CreateOrUpdate kind bindingCopy f s of
                (((operationResult, err), bindingCopy'), s') \<Rightarrow> ((err, bindingCopy'), s'))
           binding s1 = ((Some DifferentOwnerUID, existing), s2)"
  using get cb
  by (simp add: DefaultRetry_def RetryOnConflict_numeral CreateOrUpdate_def mutate_def
        IsConflict_def Let_def)

lemma getBinding_found_sent:
  "getBinding kind k s = (Inr b, s1) \<Longrightarrow> requests s1 = requests s @ [GetBinding kind k None]"
  using getBinding_sent[of kind k s "Inr b" s1] by simp

lemma createBinding_bindingsOf:
  "createBinding kind b s = (r, s1) \<Longrightarrow>
     bindingsOf kind' s1 =
       (if r = None \<and> kind' = kind then bindingsOf kind s @ [b] else bindingsOf kind' s)"
  by (auto simp: createBinding_def nextFault_bindingsOf' split: prod.splits option.splits)

lemma createBinding_ok:
  "createBinding kind b s = (None, s1) \<Longrightarrow>
     lookupBy bindingKey (bindingKey b) (bindingsOf kind s) = None"
  by (auto simp: createBinding_def nextFault_bindingsOf' split: prod.splits option.splits)

lemma updateBinding_bindingsOf:
  "updateBinding kind b s = (r, s1) \<Longrightarrow>
     bindingsOf kind' s1 =
       (if r = None \<and> kind' = kind then replaceBy bindingKey b (bindingsOf kind s)
        else bindingsOf kind' s)"
  by (auto simp: updateBinding_def nextFault_bindingsOf' split: prod.splits option.splits)

lemma updateBinding_ok:
  "updateBinding kind b s = (None, s1) \<Longrightarrow>
     lookupBy bindingKey (bindingKey b) (bindingsOf kind s) \<noteq> None"
  by (auto simp: updateBinding_def nextFault_bindingsOf' split: prod.splits option.splits)

lemma mutate_snd:
  "mutate f key obj = (r, obj') \<Longrightarrow> obj' = snd (f obj)"
  by (auto simp: mutate_def split: prod.splits option.splits if_splits)

lemma CreateOrUpdate_cases:
  assumes "CreateOrUpdate kind obj f s = (((res, err), obj'), s')"
  obtains
    (get_failed) e where "getBinding kind (bindingKey obj) s = (Inl e, s')" "\<not> IsNotFound e"
      "err = Some e" "obj' = obj"
  | (create_refused) e s1 m where "getBinding kind (bindingKey obj) s = (Inl e, s1)" "IsNotFound e"
      "mutate f (bindingKey obj) obj = (Some m, obj')" "err = Some m" "s' = s1"
  | (created) e s1 where "getBinding kind (bindingKey obj) s = (Inl e, s1)" "IsNotFound e"
      "mutate f (bindingKey obj) obj = (None, obj')" "createBinding kind obj' s1 = (err, s')"
  | (update_refused) existing s1 m where "getBinding kind (bindingKey obj) s = (Inr existing, s1)"
      "mutate f (bindingKey obj) existing = (Some m, obj')" "err = Some m" "s' = s1"
  | (unchanged) s1 where "getBinding kind (bindingKey obj) s = (Inr obj', s1)"
      "mutate f (bindingKey obj) obj' = (None, obj')" "err = None" "s' = s1"
  | (updated) existing s1 where "getBinding kind (bindingKey obj) s = (Inr existing, s1)"
      "mutate f (bindingKey obj) existing = (None, obj')" "existing \<noteq> obj'"
      "updateBinding kind obj' s1 = (err, s')"
proof -
  obtain g s1 where g: "getBinding kind (bindingKey obj) s = (g, s1)"
    by (cases "getBinding kind (bindingKey obj) s")
  show thesis
  proof (cases g)
    case (Inl e)
    show thesis
    proof (cases "IsNotFound e")
      case False
      with assms g Inl show thesis
        by (intro get_failed[of e]) (auto simp: CreateOrUpdate_def Let_def)
    next
      case True
      obtain m o1 where m: "mutate f (bindingKey obj) obj = (m, o1)"
        by (cases "mutate f (bindingKey obj) obj")
      show thesis
      proof (cases m)
        case (Some x)
        with assms g Inl True m show thesis
          by (intro create_refused[of e s1 x]) (auto simp: CreateOrUpdate_def Let_def)
      next
        case None
        with assms g Inl True m show thesis
          by (intro created[of e s1])
            (auto simp: CreateOrUpdate_def Let_def split: prod.splits option.splits)
      qed
    qed
  next
    case (Inr existing)
    obtain m o1 where m: "mutate f (bindingKey obj) existing = (m, o1)"
      by (cases "mutate f (bindingKey obj) existing")
    show thesis
    proof (cases m)
      case (Some x)
      with assms g Inr m show thesis
        by (intro update_refused[of existing s1 x]) (auto simp: CreateOrUpdate_def Let_def)
    next
      case None
      show thesis
      proof (cases "existing = o1")
        case True
        with assms g Inr m None show thesis
          by (intro unchanged[of s1]) (auto simp: CreateOrUpdate_def Let_def)
      next
        case False
        with assms g Inr m None show thesis
          by (intro updated[of existing s1])
            (auto simp: CreateOrUpdate_def Let_def split: prod.splits option.splits)
      qed
    qed
  qed
qed

lemma sentSince_one: "requests s' = requests s @ [r] \<Longrightarrow> Q r \<Longrightarrow> sentSince Q s s'"
  by (simp add: sentSince_def)

lemma getBinding_sentSince:
  "getBinding kind k s = (r, s1) \<Longrightarrow> sentSince (\<lambda>r. bindingRequestKind r = Some kind) s s1"
  by (rule sentSince_one[OF getBinding_sent]) simp_all

lemma createBinding_sentSince:
  "createBinding kind b s = (r, s1) \<Longrightarrow> sentSince (\<lambda>r. bindingRequestKind r = Some kind) s s1"
  by (rule sentSince_one[OF createBinding_sent]) simp_all

lemma updateBinding_sentSince:
  "updateBinding kind b s = (r, s1) \<Longrightarrow> sentSince (\<lambda>r. bindingRequestKind r = Some kind) s s1"
  by (rule sentSince_one[OF updateBinding_sent]) simp_all

lemma CreateOrUpdate_sentSince:
  assumes "CreateOrUpdate kind obj f s = (r, s')"
  shows "sentSince (\<lambda>r. bindingRequestKind r = Some kind) s s'"
proof -
  obtain res err obj' where r: "CreateOrUpdate kind obj f s = (((res, err), obj'), s')"
    using assms by (cases r) auto
  show ?thesis
    using r
    by (cases rule: CreateOrUpdate_cases)
      (auto intro: getBinding_sentSince
         sentSince_trans[OF getBinding_sentSince createBinding_sentSince]
         sentSince_trans[OF getBinding_sentSince updateBinding_sentSince])
qed

lemma CreateOrUpdate_other_kind:
  assumes "CreateOrUpdate kind obj f s = (r, s')" and "kind' \<noteq> kind"
  shows "bindingsOf kind' s' = bindingsOf kind' s"
proof -
  obtain res err obj' where r: "CreateOrUpdate kind obj f s = (((res, err), obj'), s')"
    using assms by (cases r) auto
  show ?thesis
    using r assms(2)
    by (cases rule: CreateOrUpdate_cases)
      (auto simp: getBinding_bindingsOf createBinding_bindingsOf updateBinding_bindingsOf)
qed

lemma CreateOrUpdate_key:
  assumes r: "CreateOrUpdate kind obj f s = (((res, err), obj'), s')"
      and f: "\<And>b. bindingKey (snd (f b)) = bindingKey b"
  shows "bindingKey obj' = bindingKey obj"
  using r
proof (cases rule: CreateOrUpdate_cases)
  case (update_refused existing s1 m)
  from mutate_snd[OF update_refused(2)] f[of existing]
    lookupBy_key[OF getBinding_found[OF update_refused(1)]]
  show ?thesis by simp
next
  case (unchanged s1)
  from lookupBy_key[OF getBinding_found[OF unchanged(1)]] show ?thesis .
next
  case (updated existing s1)
  from mutate_key[OF updated(2)] show ?thesis .
qed (auto dest: mutate_snd mutate_key simp: f)

lemma CreateOrUpdate_stored:
  assumes r: "CreateOrUpdate kind obj f s = (((res, None), obj'), s')"
  shows "lookupBy bindingKey (bindingKey obj) (bindingsOf kind s') \<noteq> None"
  using r
proof (cases rule: CreateOrUpdate_cases)
  case (created e s1)
  from createBinding_bindingsOf[OF created(4), of kind] mutate_key[OF created(3)]
  show ?thesis by (simp add: lookupBy_append split: option.splits)
next
  case (unchanged s1)
  from getBinding_found[OF unchanged(1)] getBinding_bindingsOf[OF unchanged(1), of kind]
    unchanged(4)
  show ?thesis by simp
next
  case (updated existing s1)
  from updateBinding_bindingsOf[OF updated(4), of kind] mutate_key[OF updated(2)]
    updateBinding_ok[OF updated(4)]
  show ?thesis by (auto simp: lookupBy_replaceBy)
qed auto

lemma RetryOnConflict_last:
  assumes "RetryOnConflict n fn c s = ((None, c'), s')" and "n \<noteq> 0" and "I c"
      and step: "\<And>c s e c1 s1. I c \<Longrightarrow> fn c s = ((e, c1), s1) \<Longrightarrow> I c1"
  shows "\<exists>c0 s0. I c0 \<and> fn c0 s0 = ((None, c'), s')"
  using assms(1,2,3)
proof (induction n arbitrary: c s)
  case 0
  then show ?case by simp
next
  case (Suc n)
  obtain e c1 s1 where f: "fn c s = ((e, c1), s1)" by (cases "fn c s") auto
  show ?case
  proof (cases e)
    case None
    with Suc.prems f have "c' = c1" "s' = s1" by auto
    with f None Suc.prems(3) show ?thesis by blast
  next
    case (Some err)
    with Suc.prems f have retry: "IsConflict err \<and> n \<noteq> 0"
      and rec: "RetryOnConflict n fn c1 s1 = ((None, c'), s')"
      by (auto split: if_splits)
    from Suc.IH[OF rec _ step[OF Suc.prems(3) f]] retry show ?thesis by blast
  qed
qed

lemma upsert_stored:
  assumes run: "RetryOnConflict DefaultRetry
                  (\<lambda>bindingCopy s.
                     case CreateOrUpdate kind bindingCopy f s of
                       (((operationResult, err), bindingCopy'), s') \<Rightarrow> ((err, bindingCopy'), s'))
                  binding s = ((None, b'), s')"
      and f: "\<And>b. bindingKey (snd (f b)) = bindingKey b"
  shows "lookupBy bindingKey (bindingKey binding) (bindingsOf kind s') \<noteq> None"
proof -
  let ?fn = "\<lambda>bindingCopy s.
                     case CreateOrUpdate kind bindingCopy f s of
                       (((operationResult, err), bindingCopy'), s') \<Rightarrow> ((err, bindingCopy'), s')"
  have "\<exists>c0 s0. bindingKey c0 = bindingKey binding \<and> ?fn c0 s0 = ((None, b'), s')"
  proof (rule RetryOnConflict_last[OF run, where I = "\<lambda>c. bindingKey c = bindingKey binding"])
    show "DefaultRetry \<noteq> 0" by (simp add: DefaultRetry_def)
    show "bindingKey binding = bindingKey binding" by simp
  next
    fix c s e c1 s1
    assume k: "bindingKey c = bindingKey binding"
      and a: "(case CreateOrUpdate kind c f s of
                 (((operationResult, err), bindingCopy'), s') \<Rightarrow> ((err, bindingCopy'), s')) =
              ((e, c1), s1)"
    then obtain res where "CreateOrUpdate kind c f s = (((res, e), c1), s1)"
      by (auto split: prod.splits)
    from CreateOrUpdate_key[OF this f] k show "bindingKey c1 = bindingKey binding" by simp
  qed
  then obtain c0 s0 where k: "bindingKey c0 = bindingKey binding"
    and fn: "?fn c0 s0 = ((None, b'), s')"
    by blast
  obtain res e c1 s1 where cou: "CreateOrUpdate kind c0 f s0 = (((res, e), c1), s1)"
    by (cases "CreateOrUpdate kind c0 f s0") auto
  with fn have r: "CreateOrUpdate kind c0 f s0 = (((res, None), b'), s')"
    by simp
  from CreateOrUpdate_stored[OF r] k show ?thesis by simp
qed

lemma upsert_other_kind:
  assumes run: "RetryOnConflict n
                  (\<lambda>bindingCopy s.
                     case CreateOrUpdate kind bindingCopy f s of
                       (((operationResult, err), bindingCopy'), s') \<Rightarrow> ((err, bindingCopy'), s'))
                  binding s = (r, s')"
      and "kind' \<noteq> kind"
  shows "bindingsOf kind' s' = bindingsOf kind' s"
proof (rule RetryOnConflict_invariant[where P = "\<lambda>x. bindingsOf kind' x = bindingsOf kind' s",
      OF _ _ run])
  fix c0 s0 r0 s0'
  assume a: "(case CreateOrUpdate kind c0 f s0 of
                (((operationResult, err), bindingCopy'), s') \<Rightarrow> ((err, bindingCopy'), s')) = (r0, s0')"
     and p: "bindingsOf kind' s0 = bindingsOf kind' s"
  obtain x where x: "CreateOrUpdate kind c0 f s0 = (x, s0')"
    using a by (auto split: prod.splits)
  from CreateOrUpdate_other_kind[OF x assms(2)] p show "bindingsOf kind' s0' = bindingsOf kind' s"
    by simp
qed simp

lemma upsert_sentSince:
  assumes run: "RetryOnConflict n
                  (\<lambda>bindingCopy s.
                     case CreateOrUpdate kind bindingCopy f s of
                       (((operationResult, err), bindingCopy'), s') \<Rightarrow> ((err, bindingCopy'), s'))
                  binding s = (r, s')"
  shows "sentSince (\<lambda>r. bindingRequestKind r = Some kind) s s'"
proof (rule RetryOnConflict_invariant[where
      P = "\<lambda>x. sentSince (\<lambda>r. bindingRequestKind r = Some kind) s x", OF _ _ run])
  fix c0 s0 r0 s0'
  assume a: "(case CreateOrUpdate kind c0 f s0 of
                (((operationResult, err), bindingCopy'), s') \<Rightarrow> ((err, bindingCopy'), s')) = (r0, s0')"
     and p: "sentSince (\<lambda>r. bindingRequestKind r = Some kind) s s0"
  obtain x where x: "CreateOrUpdate kind c0 f s0 = (x, s0')"
    using a by (auto split: prod.splits)
  from sentSince_trans[OF p CreateOrUpdate_sentSince[OF x]]
  show "sentSince (\<lambda>r. bindingRequestKind r = Some kind) s s0'" .
qed simp

lemma callbacks_keep_key:
  "bindingKey (snd (ApplyPolicy_mutate d object binding b)) = bindingKey b"
  "bindingKey (snd (ApplyClusterPolicy_mutateRB d object binding b)) = bindingKey b"
  "bindingKey (snd (ApplyClusterPolicy_mutateCRB d object binding b)) = bindingKey b"
  by (simp_all add: ApplyPolicy_mutate_def ApplyClusterPolicy_mutateRB_def
        ApplyClusterPolicy_mutateCRB_def bindingKey_def)

lemma BuildResourceBinding_key:
  "BuildResourceBinding d object labels annotations policySpec = Inr binding \<Longrightarrow>
     bindingKey binding =
       (u_Namespace object, GenerateBindingName d (u_Kind object) (u_Name object))"
  by (auto simp: BuildResourceBinding_def Let_def bindingKey_def
           split: if_splits sum.splits prod.splits)

lemma BuildClusterResourceBinding_key:
  "BuildClusterResourceBinding d object labels annotations policySpec = Inr binding \<Longrightarrow>
     bindingKey binding = ([], GenerateBindingName d (u_Kind object) (u_Name object))"
  by (auto simp: BuildClusterResourceBinding_def Let_def bindingKey_def
           split: if_splits sum.splits prod.splits)

lemma bindingsOf_RB: "bindingsOf RB s = rbs s" and bindingsOf_CRB: "bindingsOf CRB s = crbs s"
  by (simp_all add: bindingsOf_def)

lemmas ex_defs4 = ex_role_def ex_role_key_def ex_world_c_def ex_rb_created_def
  ex_crb_created_def ex_world_rb_def ex_world_crb_def

lemma ex_claim_cpp_noop:
  "ClaimClusterPolicyForObject ex_nginx_cpp ex_cpp ex_world_c = ((''id-2'', None), ex_world_c)"
  "ClaimClusterPolicyForObject ex_role ex_cpp ex_world_c = ((''id-2'', None), ex_world_c)"
  by (simp_all add: ClaimClusterPolicyForObject_def ex_defs ex_role_def key_defs mapIndex_def
        GetLabelValue_def Let_def)

lemma ex_build_cpp:
  "BuildResourceBinding ex_detector ex_nginx_cpp
     [ClusterPropagationPolicyPermanentIDLabel \<mapsto> ''id-2'']
     [ClusterPropagationPolicyAnnotation \<mapsto> ''cpp1''] ex_spec = Inr ex_rb_created"
  "BuildClusterResourceBinding ex_detector ex_role
     [ClusterPropagationPolicyPermanentIDLabel \<mapsto> ''id-2'']
     [ClusterPropagationPolicyAnnotation \<mapsto> ''cpp1''] ex_spec = Inr ex_crb_created"
  by (simp_all add: BuildResourceBinding_def BuildClusterResourceBinding_def ex_defs ex_defs2
        ex_defs4 Let_def NewControllerRef_def GroupVersionKind_def GetAPIVersion_def
        GroupVersionString_def)

lemma ex_upsert_cpp:
  "CreateOrUpdate RB ex_rb_created
     (ApplyClusterPolicy_mutateRB ex_detector ex_nginx_cpp ex_rb_created) ex_world_c =
   (((OperationResultCreated, None), ex_rb_created), ex_world_rb)"
  "CreateOrUpdate CRB ex_crb_created
     (ApplyClusterPolicy_mutateCRB ex_detector ex_role ex_crb_created) ex_world_c =
   (((OperationResultCreated, None), ex_crb_created), ex_world_crb)"
  by (simp_all add: CreateOrUpdate_def mutate_def ApplyClusterPolicy_mutateRB_def
      ApplyClusterPolicy_mutateCRB_def
      GetControllerOfNoCopy_def NewControllerRef_def IsNotFound_def
      ex_defs ex_defs2 ex_defs4 key_defs client_defs Let_def)

lemma ex_apply_cpp:
  "ApplyClusterPolicy ex_detector ex_nginx_cpp ex_key False ex_cpp ex_world_c = (None, ex_world_rb)"
  "ApplyClusterPolicy ex_detector ex_role ex_role_key False ex_cpp ex_world_c = (None, ex_world_crb)"
  by (simp_all add: ApplyClusterPolicy_def ex_claim_cpp_noop ex_pp_simps ex_build_cpp Let_def
        DefaultRetry_def RetryOnConflict_numeral ex_upsert_cpp)
    (simp_all add: ex_nginx_cpp_def ex_nginx_def ex_role_def)

lemma nextFault_frame:
  assumes "nextFault s = (f, s1)"
  shows "templates s1 = templates s" "rbs s1 = rbs s" "crbs s1 = crbs s" "pps s1 = pps s"
    "cpps s1 = cpps s" "waitingObjects s1 = waitingObjects s" "Processor s1 = Processor s"
    "klog s1 = klog s"
  using assms by (auto simp: nextFault_def split: list.splits)

lemma getTemplate_frame:
  assumes "getTemplate k s = (r, s1)"
  shows "templates s1 = templates s" "rbs s1 = rbs s" "crbs s1 = crbs s" "pps s1 = pps s"
    "cpps s1 = cpps s" "waitingObjects s1 = waitingObjects s" "Processor s1 = Processor s"
    "klog s1 = klog s"
  using assms
  by (auto simp: getTemplate_def sent_def dest: nextFault_frame split: prod.splits option.splits)

lemma getTemplate_sentSince:
  "getTemplate k s = (r, s1) \<Longrightarrow> sentSince isTemplateRead s s1"
  by (rule sentSince_one[OF getTemplate_sent]) simp_all

lemma GetUnstructuredObject_cases:
  assumes "GetUnstructuredObject d objectKey s = (r, s')"
  obtains (unmapped) "s' = s"
  | (one) r1 where "getTemplate (keyOfClusterWideKey objectKey) s = (r1, s')"
  | (two) r1 s1 r2 where "getTemplate (keyOfClusterWideKey objectKey) s = (r1, s1)"
      "getTemplate (keyOfClusterWideKey objectKey) s1 = (r2, s')"
  using assms
  by (auto simp: GetUnstructuredObject_def split: option.splits prod.splits sum.splits if_splits)

lemma GetUnstructuredObject_frame:
  assumes "GetUnstructuredObject d objectKey s = (r, s')"
  shows "templates s' = templates s" "rbs s' = rbs s" "crbs s' = crbs s" "pps s' = pps s"
    "cpps s' = cpps s" "waitingObjects s' = waitingObjects s" "Processor s' = Processor s"
    "klog s' = klog s"
  using assms
  by (cases rule: GetUnstructuredObject_cases; simp add: getTemplate_frame)+

lemma GetUnstructuredObject_sentSince:
  assumes "GetUnstructuredObject d objectKey s = (r, s')"
  shows "sentSince isTemplateRead s s'"
  using assms
  by (cases rule: GetUnstructuredObject_cases)
    (auto intro: getTemplate_sentSince sentSince_trans[OF getTemplate_sentSince getTemplate_sentSince])

lemma GetUnstructuredObject_propagateResource:
  "GetUnstructuredObject (d\<lparr>propagateResource := p\<rparr>) objectKey s =
     GetUnstructuredObject d objectKey s"
  by (simp add: GetUnstructuredObject_def split: option.splits prod.splits sum.splits)

lemma RemoveWaiting_frame:
  "templates (RemoveWaiting k s) = templates s" "rbs (RemoveWaiting k s) = rbs s"
  "crbs (RemoveWaiting k s) = crbs s" "Processor (RemoveWaiting k s) = Processor s"
  "requests (RemoveWaiting k s) = requests s"
  "waitingObjects (RemoveWaiting k s) = removeAll k (waitingObjects s)"
  by (simp_all add: RemoveWaiting_def)

lemmas ex_defs5 = ex_service_def ex_service_item_def ex_world_service_def
  ex_world_service_done_def

lemma GetMatching_loop_frame:
  "GetMatching_loop d sels ks matched s = (matchedKeys, s') \<Longrightarrow>
     waitingObjects s' = waitingObjects s \<and> Processor s' = Processor s \<and>
     set matchedKeys \<subseteq> set matched \<union> set ks"
proof (induction ks arbitrary: matched s)
  case Nil
  then show ?case by simp
next
  case (Cons k ks)
  obtain r s1 where g: "GetUnstructuredObject d k s = (r, s1)"
    by (cases "GetUnstructuredObject d k s")
  note fr = GetUnstructuredObject_frame(6,7)[OF g]
  show ?case
  proof (cases r)
    case (Inl e)
    with Cons.prems g have "GetMatching_loop d sels ks matched s1 = (matchedKeys, s')" by simp
    from Cons.IH[OF this] fr show ?thesis by auto
  next
    case (Inr obj)
    show ?thesis
    proof (cases "list_ex (\<lambda>rs. ResourceMatches d obj rs) sels")
      case True
      with Cons.prems g Inr
      have "GetMatching_loop d sels ks (matched @ [k]) s1 = (matchedKeys, s')" by simp
      from Cons.IH[OF this] fr show ?thesis by auto
    next
      case False
      with Cons.prems g Inr
      have "GetMatching_loop d sels ks matched s1 = (matchedKeys, s')" by simp
      from Cons.IH[OF this] fr show ?thesis by auto
    qed
  qed
qed

lemma GetMatching_frame:
  assumes "GetMatching d sels s = (matchedKeys, s')"
  shows "waitingObjects s' = waitingObjects s" "Processor s' = Processor s"
    "set matchedKeys \<subseteq> set (waitingObjects s)"
  using GetMatching_loop_frame[of d sels "waitingObjects s" "[]" s matchedKeys s'] assms
  by (simp_all add: GetMatching_def)

lemma enqueueDerived_waiting:
  "enqueueDerived d bs s = (r, s') \<Longrightarrow> waitingObjects s' = waitingObjects s"
  by (induction bs arbitrary: s) (auto simp: ProcessorAdd_def split: sum.splits if_splits)

lemma gate_PP:
  assumes "cleanPPUnmatchedRBs d (mapIndex (p_Labels policy) PropagationPolicyPermanentIDLabel)
             (p_Namespace policy) (p_Name policy) (ResourceSelectors (p_Spec policy)) s = (None, sa)"
      and "listPPDerivedRBs d (mapIndex (p_Labels policy) PropagationPolicyPermanentIDLabel)
             (p_Namespace policy) (p_Name policy) sa = (Inr resourceBindings, sb)"
      and "enqueueDerived d resourceBindings sb = (None, sc)"
      and "GetMatching d (ResourceSelectors (p_Spec policy)) sc = (matchedKeys, s')"
      and "matchedKeys \<noteq> []"
      and "IsDependentOverridesPresent d policy s' = (present, err)"
      and "err \<noteq> None \<or> \<not> present"
  shows "HandlePropagationPolicyCreationOrUpdate d policy s = (Some WaitingForDependentOverrides, s')"
  using assms by (auto simp: HandlePropagationPolicyCreationOrUpdate_def Let_def)

lemma gate_CPP:
  assumes "cleanCPPUnmatchedRBs d
             (mapIndex (p_Labels policy) ClusterPropagationPolicyPermanentIDLabel)
             (p_Name policy) (ResourceSelectors (p_Spec policy)) s = (None, sa)"
      and "cleanUnmatchedCRBs d
             (mapIndex (p_Labels policy) ClusterPropagationPolicyPermanentIDLabel)
             (p_Name policy) (ResourceSelectors (p_Spec policy)) sa = (None, sa')"
      and "listCPPDerivedRBs d
             (mapIndex (p_Labels policy) ClusterPropagationPolicyPermanentIDLabel)
             (p_Name policy) sa' = (Inr resourceBindings, sb)"
      and "listCPPDerivedCRBs d
             (mapIndex (p_Labels policy) ClusterPropagationPolicyPermanentIDLabel)
             (p_Name policy) sb = (Inr clusterResourceBindings, sb')"
      and "enqueueDerived d resourceBindings sb' = (None, sc)"
      and "enqueueDerived d clusterResourceBindings sc = (None, sc')"
      and "GetMatching d (ResourceSelectors (p_Spec policy)) sc' = (matchedKeys, s')"
      and "matchedKeys \<noteq> []"
      and "IsDependentClusterOverridesPresent d policy s' = (present, err)"
      and "err \<noteq> None \<or> \<not> present"
  shows "HandleClusterPropagationPolicyCreationOrUpdate d policy s =
           (Some WaitingForDependentOverrides, s')"
  using assms by (auto simp: HandleClusterPropagationPolicyCreationOrUpdate_def Let_def)

lemma ex_GetMatching:
  "GetMatching ex_detector (ResourceSelectors ex_spec) ex_world_waiting = ([ex_key], ex_world_gated)"
  by (simp add: GetMatching_def GetUnstructuredObject_def ex_world_waiting_def
      ex_world_gated_def ex_defs client_defs keyOfClusterWideKey_def IsNotFound_def)

lemma unmarked_cleanup:
  "unmarked pk (u_Labels (cleanupTemplate (cleanupMarksFunc pk) u))
     (u_Annotations (cleanupTemplate (cleanupMarksFunc pk) u))"
  by (cases pk)
    (simp_all add: unmarked_def cleanupTemplate_def cleanupMarksFunc_def removeKeys_def
      propagationPolicyMarkedLabels_def propagationPolicyMarkedAnnotations_def
      clusterPropagationPolicyMarkedLabels_def clusterPropagationPolicyMarkedAnnotations_def)

lemma cleanupTemplate_key: "objectKeyOf (cleanupTemplate f u) = objectKeyOf u"
  by (simp add: cleanupTemplate_def objectKeyOf_def GetAPIVersion_def split: prod.splits)

lemma cleanupBinding_key: "bindingKey (cleanupBinding f b) = bindingKey b"
  by (simp add: cleanupBinding_def bindingKey_def split: prod.splits)

lemma getTemplate_found:
  "getTemplate k s = (Inr u, s1) \<Longrightarrow> objectKeyOf u = k"
  by (auto simp: getTemplate_def dest: lookupBy_key split: prod.splits option.splits)

lemma template_phase:
  assumes "CleanupResourceTemplateMarks d objRef (cleanupMarksFunc pk) s = (r, s')"
  shows "\<exists>T. requests s' = requests s @ T \<and>
           (\<forall>A. foldl (marksStep pk items) (Some A) T =
                  Some (if r = None then clearedBy items (keyOfReference objRef) else {}))"
proof -
  let ?k = "keyOfReference objRef"
  obtain g s1 where g: "getTemplate ?k s = (g, s1)" by (cases "getTemplate ?k s")
  note sent1 = getTemplate_sent[OF g]
  show ?thesis
  proof (cases g)
    case (Inl e)
    with assms g have "s' = s1" "r = (if IsNotFound e then None else Some e)"
      by (auto simp: CleanupResourceTemplateMarks_def FetchResourceTemplate_def split: if_splits)
    with sent1 Inl show ?thesis
      by (intro exI[of _ "[GetTemplate ?k (Some e)]"]) (auto simp: IsNotFound_def)
  next
    case (Inr fetched)
    let ?w = "cleanupTemplate (cleanupMarksFunc pk) fetched"
    have key: "objectKeyOf ?w = ?k"
      using getTemplate_found g Inr by (simp add: cleanupTemplate_key)
    show ?thesis
    proof (cases "RESTMapper d (GroupVersionKind ?w)")
      case (Some err)
      with assms g Inr have "s' = s1" "r = Some err"
        by (auto simp: CleanupResourceTemplateMarks_def FetchResourceTemplate_def Let_def)
      with sent1 Inr show ?thesis
        by (intro exI[of _ "[GetTemplate ?k None]"]) auto
    next
      case None
      with assms g Inr have u: "updateTemplate ?w s1 = (r, s')"
        by (auto simp: CleanupResourceTemplateMarks_def FetchResourceTemplate_def Let_def)
      from updateTemplate_sent[OF u] sent1 Inr key show ?thesis
        by (intro exI[of _ "[GetTemplate ?k None, UpdateTemplate ?w r]"])
          (auto simp: unmarked_cleanup)
    qed
  qed
qed

lemma binding_requests_accepted:
  "list_all (isBindingRequestFor kind k) B \<Longrightarrow> (kind, k) \<in> A \<Longrightarrow>
     \<exists>A'. foldl (marksStep pk items) (Some A) B = Some A' \<and> (kind, k) \<in> A'"
proof (induction B arbitrary: A)
  case Nil
  then show ?case by simp
next
  case (Cons e B)
  then show ?case by (cases e) auto
qed

lemma RetryOnConflict_invariant2:
  assumes step: "\<And>c s r c' s'. I c \<Longrightarrow> P s \<Longrightarrow> fn c s = ((r, c'), s') \<Longrightarrow> I c' \<and> P s'"
      and "I c" and "P s" and "RetryOnConflict n fn c s = (r, s')"
  shows "P s'"
  using assms(2,3,4)
proof (induction n arbitrary: c s)
  case 0
  then show ?case by simp
next
  case (Suc n)
  obtain e c1 s1 where f: "fn c s = ((e, c1), s1)" by (cases "fn c s") auto
  note p1 = step[OF Suc.prems(1,2) f]
  show ?case
  proof (cases "\<exists>err. e = Some err \<and> IsConflict err \<and> n \<noteq> 0")
    case True
    with Suc.prems(3) f have "RetryOnConflict n fn c1 s1 = (r, s')" by auto
    from Suc.IH[OF _ _ this] p1 show ?thesis by simp
  next
    case False
    with Suc.prems(3) f have "s' = s1" by (cases e) (auto split: if_splits)
    with p1 show ?thesis by simp
  qed
qed

lemma sentSince_two:
  "requests s1 = requests s @ [a] \<Longrightarrow> requests s2 = requests s1 @ [b] \<Longrightarrow> Q a \<Longrightarrow> Q b \<Longrightarrow>
     sentSince Q s s2"
  by (simp add: sentSince_def)

lemma binding_phase:
  assumes "CleanupBindingMarks kind rb f s = (r, s')"
  shows "sentSince (isBindingRequestFor kind (bindingKey rb)) s s'"
proof -
  let ?fn = "\<lambda>rb s.
                let rb = cleanupBinding f rb
                in case updateBinding kind rb s of
                     (None, s1) \<Rightarrow> ((None, rb), s1)
                   | (Some updateErr, s1) \<Rightarrow>
                       (case getBinding kind (bindingKey rb) s1 of
                          (Inr updated, s2) \<Rightarrow> ((Some updateErr, updated), s2)
                        | (Inl err, s2) \<Rightarrow> ((Some updateErr, rb), s2))"
  obtain x where run: "RetryOnConflict DefaultRetry ?fn rb s = (x, s')"
    using assms by (auto simp: CleanupBindingMarks_def split: prod.splits)
  show ?thesis
  proof (rule RetryOnConflict_invariant2[where I = "\<lambda>c. bindingKey c = bindingKey rb"
        and P = "\<lambda>x. sentSince (isBindingRequestFor kind (bindingKey rb)) s x", OF _ _ _ run])
    fix c s0 r0 c' s0'
    assume k: "bindingKey c = bindingKey rb"
      and p: "sentSince (isBindingRequestFor kind (bindingKey rb)) s s0"
      and f: "?fn c s0 = ((r0, c'), s0')"
    let ?c = "cleanupBinding f c"
    have kc: "bindingKey ?c = bindingKey rb" using k by (simp add: cleanupBinding_key)
    obtain u s1 where u: "updateBinding kind ?c s0 = (u, s1)"
      by (cases "updateBinding kind ?c s0")
    note su = updateBinding_sent[OF u]
    show "bindingKey c' = bindingKey rb \<and>
          sentSince (isBindingRequestFor kind (bindingKey rb)) s s0'"
    proof (cases u)
      case None
      with f u have "c' = ?c" "s0' = s1" by (simp_all add: Let_def)
      with kc su show ?thesis
        by (auto intro!: sentSince_trans[OF p] sentSince_one[where r = "UpdateBinding kind ?c u"])
    next
      case (Some updateErr)
      obtain g s2 where g: "getBinding kind (bindingKey ?c) s1 = (g, s2)"
        by (cases "getBinding kind (bindingKey ?c) s1")
      from f u Some g have s0': "s0' = s2" and c': "c' = (case g of Inr updated \<Rightarrow> updated | Inl e \<Rightarrow> ?c)"
        by (auto simp: Let_def split: sum.splits)
      have "bindingKey c' = bindingKey rb"
      proof (cases g)
        case (Inl e)
        with c' kc show ?thesis by simp
      next
        case (Inr updated)
        with lookupBy_key[OF getBinding_found] g c' kc show ?thesis by fastforce
      qed
      moreover have "sentSince (isBindingRequestFor kind (bindingKey rb)) s0 s2"
        by (rule sentSince_two[OF su getBinding_sent[OF g]]) (simp_all add: kc)
      ultimately show ?thesis using s0' sentSince_trans[OF p] by simp
    qed
  qed simp_all
qed

lemma foldl_marksStep_None [simp]: "foldl (marksStep pk items) None es = None"
  by (induction es) simp_all

lemma clearedBy_member:
  "(kind, b) \<in> set items \<Longrightarrow> (kind, bindingKey b) \<in> clearedBy items (keyOfReference (Resource (b_Spec b)))"
  by (force simp: clearedBy_def)

lemma loop_accepted:
  assumes "cleanupMarks_loop d kind appendTemplateErr (cleanupMarksFunc pk) rest errs s = (errs', s')"
      and "set rest \<subseteq> {b. (kind, b) \<in> set items}"
  shows "\<exists>D. requests s' = requests s @ D \<and>
           (\<forall>A. foldl (marksStep pk items) (Some A) D \<noteq> None)"
  using assms
proof (induction rest arbitrary: errs s)
  case Nil
  then show ?case by simp
next
  case (Cons b rest)
  let ?f = "cleanupMarksFunc pk"
  have mem: "(kind, b) \<in> set items" and sub: "set rest \<subseteq> {b. (kind, b) \<in> set items}"
    using Cons.prems(2) by auto
  obtain t s1 where t: "CleanupResourceTemplateMarks d (Resource (b_Spec b)) ?f s = (t, s1)"
    by (cases "CleanupResourceTemplateMarks d (Resource (b_Spec b)) ?f s")
  from template_phase[OF t, of items] obtain T where
    T: "requests s1 = requests s @ T"
    and TA: "\<And>A. foldl (marksStep pk items) (Some A) T =
                  Some (if t = None then clearedBy items (keyOfReference (Resource (b_Spec b))) else {})"
    by blast
  show ?case
  proof (cases t)
    case (Some err)
    with Cons.prems(1) t have
      "cleanupMarks_loop d kind appendTemplateErr ?f rest
         (if appendTemplateErr then errs @ [err] else errs) s1 = (errs', s')" by simp
    from Cons.IH[OF this sub] obtain D where
      D: "requests s' = requests s1 @ D" "\<And>A. foldl (marksStep pk items) (Some A) D \<noteq> None"
      by blast
    with T TA Some show ?thesis
      by (intro exI[of _ "T @ D"]) simp
  next
    case None
    obtain r s2 where r: "CleanupBindingMarks kind b ?f s1 = (r, s2)"
      by (cases "CleanupBindingMarks kind b ?f s1")
    from binding_phase[OF r] obtain B where
      B: "requests s2 = requests s1 @ B" "list_all (isBindingRequestFor kind (bindingKey b)) B"
      by (auto simp: sentSince_def)
    from Cons.prems(1) t None r obtain errs2 where
      "cleanupMarks_loop d kind appendTemplateErr ?f rest errs2 s2 = (errs', s')"
      by (cases r) auto
    from Cons.IH[OF this sub] obtain D where
      D: "requests s' = requests s2 @ D" "\<And>A. foldl (marksStep pk items) (Some A) D \<noteq> None"
      by blast
    have "foldl (marksStep pk items) (Some A) (T @ B @ D) \<noteq> None" for A
    proof -
      from binding_requests_accepted[OF B(2) clearedBy_member[OF mem], of pk items]
      obtain A' where "foldl (marksStep pk items)
          (Some (clearedBy items (keyOfReference (Resource (b_Spec b))))) B = Some A'"
        by blast
      with TA[of A] None D(2)[of A'] show ?thesis by simp
    qed
    with T B(1) D(1) show ?thesis
      by (intro exI[of _ "T @ B @ D"]) simp
  qed
qed

lemma loop_mono:
  assumes "\<forall>A. foldl (marksStep pk items) (Some A) D \<noteq> None"
  shows "marksLead pk items D"
  using assms by (simp add: marksLead_def)

lemma listBindings_cases:
  assumes "listBindings kind labelKey labelValue s = (r, s1)"
  shows "requests s1 = requests s @ [ListBindings kind labelKey labelValue
            (case r of Inl e \<Rightarrow> Some e | Inr _ \<Rightarrow> None)]"
    and "bindingsOf kind' s1 = bindingsOf kind' s"
    and "\<And>bs. r = Inr bs \<Longrightarrow> bs = labelled labelKey labelValue (bindingsOf kind s)"
proof -
  show "requests s1 = requests s @ [ListBindings kind labelKey labelValue
            (case r of Inl e \<Rightarrow> Some e | Inr _ \<Rightarrow> None)]"
    using assms
    by (auto simp: listBindings_def sent_def nextFault_requests split: prod.splits option.splits)
  show "bindingsOf kind' s1 = bindingsOf kind' s"
    using assms
    by (auto simp: listBindings_def nextFault_bindingsOf' split: prod.splits option.splits)
  show "\<And>bs. r = Inr bs \<Longrightarrow> bs = labelled labelKey labelValue (bindingsOf kind s)"
    using assms
    by (auto simp: listBindings_def labelled_def nextFault_bindingsOf'
             split: prod.splits option.splits)
qed

lemma CleanupResourceTemplateMarks_bindingsOf:
  "CleanupResourceTemplateMarks d objRef f s = (r, s') \<Longrightarrow> bindingsOf kind s' = bindingsOf kind s"
  by (auto simp: CleanupResourceTemplateMarks_def FetchResourceTemplate_def Let_def
        bindingsOf_def getTemplate_frame
      dest!: updateTemplate_bindingsOf[where kind = kind]
      split: prod.splits sum.splits option.splits if_splits bindingKind.splits)

lemma CleanupBindingMarks_other_kind:
  assumes "CleanupBindingMarks kind rb f s = (r, s')" and "kind' \<noteq> kind"
  shows "bindingsOf kind' s' = bindingsOf kind' s"
proof -
  let ?fn = "\<lambda>rb s.
                let rb = cleanupBinding f rb
                in case updateBinding kind rb s of
                     (None, s1) \<Rightarrow> ((None, rb), s1)
                   | (Some updateErr, s1) \<Rightarrow>
                       (case getBinding kind (bindingKey rb) s1 of
                          (Inr updated, s2) \<Rightarrow> ((Some updateErr, updated), s2)
                        | (Inl err, s2) \<Rightarrow> ((Some updateErr, rb), s2))"
  obtain x where run: "RetryOnConflict DefaultRetry ?fn rb s = (x, s')"
    using assms by (auto simp: CleanupBindingMarks_def split: prod.splits)
  show ?thesis
  proof (rule RetryOnConflict_invariant[where P = "\<lambda>x. bindingsOf kind' x = bindingsOf kind' s",
        OF _ _ run])
    fix c s0 r0 s0'
    assume f: "?fn c s0 = (r0, s0')" and p: "bindingsOf kind' s0 = bindingsOf kind' s"
    let ?c = "cleanupBinding f c"
    obtain u s1 where u: "updateBinding kind ?c s0 = (u, s1)"
      by (cases "updateBinding kind ?c s0")
    have b1: "bindingsOf kind' s1 = bindingsOf kind' s0"
      using updateBinding_bindingsOf[OF u, of kind'] assms(2) by simp
    show "bindingsOf kind' s0' = bindingsOf kind' s"
    proof (cases u)
      case None
      with f u have "s0' = s1" by (simp add: Let_def)
      with b1 p show ?thesis by simp
    next
      case (Some e)
      obtain g s2 where g: "getBinding kind (bindingKey ?c) s1 = (g, s2)"
        by (cases "getBinding kind (bindingKey ?c) s1")
      with f u Some have "s0' = s2" by (auto simp: Let_def split: sum.splits)
      with getBinding_bindingsOf[OF g, of kind'] b1 p show ?thesis by simp
    qed
  qed simp
qed

lemma loop_other_kind:
  assumes "cleanupMarks_loop d kind appendTemplateErr f rest errs s = (errs', s')"
      and "kind' \<noteq> kind"
  shows "bindingsOf kind' s' = bindingsOf kind' s"
  using assms(1)
proof (induction rest arbitrary: errs s)
  case Nil
  then show ?case by simp
next
  case (Cons b rest)
  obtain t s1 where t: "CleanupResourceTemplateMarks d (Resource (b_Spec b)) f s = (t, s1)"
    by (cases "CleanupResourceTemplateMarks d (Resource (b_Spec b)) f s")
  note f1 = CleanupResourceTemplateMarks_bindingsOf[OF t, of kind']
  show ?case
  proof (cases t)
    case (Some err)
    with Cons.prems t have
      "cleanupMarks_loop d kind appendTemplateErr f rest
         (if appendTemplateErr then errs @ [err] else errs) s1 = (errs', s')" by simp
    from Cons.IH[OF this] f1 show ?thesis by simp
  next
    case None
    obtain r s2 where r: "CleanupBindingMarks kind b f s1 = (r, s2)"
      by (cases "CleanupBindingMarks kind b f s1")
    from Cons.prems t None r obtain errs2 where
      "cleanupMarks_loop d kind appendTemplateErr f rest errs2 s2 = (errs', s')"
      by (cases r) auto
    from Cons.IH[OF this] CleanupBindingMarks_other_kind[OF r assms(2)] f1 show ?thesis by simp
  qed
qed

lemma marksLead_after_list:
  assumes "\<forall>A. foldl (marksStep pk items) (Some A) D \<noteq> None"
  shows "\<forall>A. foldl (marksStep pk items) (Some A) (ListBindings kind l v out # D) \<noteq> None"
  using assms by simp

lemma HandlePropagationPolicyDeletion_marksLead:
  "\<exists>delta. requests (snd (HandlePropagationPolicyDeletion d policyID s)) = requests s @ delta \<and>
      marksLead PP
        (map (Pair RB) (labelled PropagationPolicyPermanentIDLabel policyID (rbs s))) delta"
proof -
  let ?L = PropagationPolicyPermanentIDLabel
  let ?items = "map (Pair RB) (labelled ?L policyID (rbs s))"
  obtain r s1 where l: "listBindings RB ?L policyID s = (r, s1)"
    by (cases "listBindings RB ?L policyID s")
  note lc = listBindings_cases[OF l]
  show ?thesis
  proof (cases r)
    case (Inl e)
    with l have "snd (HandlePropagationPolicyDeletion d policyID s) = s1"
      by (simp add: HandlePropagationPolicyDeletion_def GetResourceBindings_def)
    with lc(1) Inl show ?thesis
      by (intro exI[of _ "[ListBindings RB ?L policyID (Some e)]"]) (simp add: marksLead_def)
  next
    case (Inr bs)
    obtain errs s2 where lp: "cleanupMarks_loop d RB True (cleanupMarksFunc PP) bs [] s1 = (errs, s2)"
      by (cases "cleanupMarks_loop d RB True (cleanupMarksFunc PP) bs [] s1")
    have bs: "bs = labelled ?L policyID (rbs s)"
      using lc(3)[OF Inr] by (simp add: bindingsOf_RB)
    then have "set bs \<subseteq> {b. (RB, b) \<in> set ?items}" by auto
    from loop_accepted[OF lp this] obtain D where
      D: "requests s2 = requests s1 @ D" "\<forall>A. foldl (marksStep PP ?items) (Some A) D \<noteq> None"
      by blast
    from l Inr lp have "snd (HandlePropagationPolicyDeletion d policyID s) = s2"
      by (simp add: HandlePropagationPolicyDeletion_def GetResourceBindings_def)
    with lc(1) Inr D show ?thesis
      by (intro exI[of _ "ListBindings RB ?L policyID None # D"]) (simp add: marksLead_def)
  qed
qed

lemma HandleClusterPropagationPolicyDeletion_marksLead:
  "\<exists>delta. requests (snd (HandleClusterPropagationPolicyDeletion d policyID s)) =
        requests s @ delta \<and>
      marksLead CPP
        (map (Pair CRB) (labelled ClusterPropagationPolicyPermanentIDLabel policyID (crbs s)) @
         map (Pair RB) (labelled ClusterPropagationPolicyPermanentIDLabel policyID (rbs s)))
        delta"
proof -
  let ?L = ClusterPropagationPolicyPermanentIDLabel
  let ?items = "map (Pair CRB) (labelled ?L policyID (crbs s)) @
                map (Pair RB) (labelled ?L policyID (rbs s))"
  let ?ok = "\<lambda>D. \<forall>A. foldl (marksStep CPP ?items) (Some A) D \<noteq> None"
  \<comment> \<open>the ClusterResourceBindings\<close>
  obtain r1 s1 where l1: "listBindings CRB ?L policyID s = (r1, s1)"
    by (cases "listBindings CRB ?L policyID s")
  note lc1 = listBindings_cases[OF l1]
  obtain errs s2 where p1:
    "(case (r1, s1) of
        (Inl err, s1) \<Rightarrow> ([err], s1)
      | (Inr crbsItems, s1) \<Rightarrow>
          cleanupMarks_loop d CRB False (cleanupMarksFunc CPP) crbsItems [] s1) = (errs, s2)"
    by (cases "(case (r1, s1) of
        (Inl err, s1) \<Rightarrow> ([err], s1)
      | (Inr crbsItems, s1) \<Rightarrow>
          cleanupMarks_loop d CRB False (cleanupMarksFunc CPP) crbsItems [] s1)")
  have first: "\<exists>D1. requests s2 = requests s1 @ D1 \<and> ?ok D1 \<and> rbs s2 = rbs s"
  proof (cases r1)
    case (Inl e)
    with p1 lc1(2)[of RB] show ?thesis
      by (intro exI[of _ "[]"]) (auto simp: bindingsOf_RB)
  next
    case (Inr bs)
    with p1 have lp: "cleanupMarks_loop d CRB False (cleanupMarksFunc CPP) bs [] s1 = (errs, s2)"
      by simp
    have "bs = labelled ?L policyID (crbs s)"
      using lc1(3)[OF Inr] by (simp add: bindingsOf_CRB)
    then have "set bs \<subseteq> {b. (CRB, b) \<in> set ?items}" by auto
    from loop_accepted[OF lp this] loop_other_kind[OF lp, of RB] lc1(2)[of RB]
    show ?thesis by (auto simp: bindingsOf_RB)
  qed
  then obtain D1 where D1: "requests s2 = requests s1 @ D1" "?ok D1" and rbs2: "rbs s2 = rbs s"
    by blast
  \<comment> \<open>the ResourceBindings\<close>
  obtain r3 s3 where l3: "listBindings RB ?L policyID s2 = (r3, s3)"
    by (cases "listBindings RB ?L policyID s2")
  note lc3 = listBindings_cases[OF l3]
  obtain errs' s4 where p3:
    "(case (r3, s3) of
        (Inl err, s3) \<Rightarrow> (errs @ [err], s3)
      | (Inr rbsItems, s3) \<Rightarrow>
          cleanupMarks_loop d RB True (cleanupMarksFunc CPP) rbsItems errs s3) = (errs', s4)"
    by (cases "(case (r3, s3) of
        (Inl err, s3) \<Rightarrow> (errs @ [err], s3)
      | (Inr rbsItems, s3) \<Rightarrow>
          cleanupMarks_loop d RB True (cleanupMarksFunc CPP) rbsItems errs s3)")
  have second: "\<exists>D3. requests s4 = requests s3 @ D3 \<and> ?ok D3"
  proof (cases r3)
    case (Inl e)
    with p3 show ?thesis by (intro exI[of _ "[]"]) auto
  next
    case (Inr bs)
    with p3 have lp: "cleanupMarks_loop d RB True (cleanupMarksFunc CPP) bs errs s3 = (errs', s4)"
      by simp
    have "bs = labelled ?L policyID (rbs s)"
      using lc3(3)[OF Inr] rbs2 by (simp add: bindingsOf_RB)
    then have "set bs \<subseteq> {b. (RB, b) \<in> set ?items}" by auto
    from loop_accepted[OF lp this] show ?thesis by blast
  qed
  then obtain D3 where D3: "requests s4 = requests s3 @ D3" "?ok D3" by blast
  have res: "snd (HandleClusterPropagationPolicyDeletion d policyID s) = s4"
    using l1 p1 l3 p3
    by (simp add: HandleClusterPropagationPolicyDeletion_def GetClusterResourceBindings_def
          GetResourceBindings_def)
  let ?e1 = "ListBindings CRB ?L policyID (case r1 of Inl e \<Rightarrow> Some e | Inr _ \<Rightarrow> None)"
  let ?e3 = "ListBindings RB ?L policyID (case r3 of Inl e \<Rightarrow> Some e | Inr _ \<Rightarrow> None)"
  have "requests s4 = requests s @ (?e1 # D1 @ ?e3 # D3)"
    using lc1(1) D1(1) lc3(1) D3(1) by simp
  moreover have "marksLead CPP ?items (?e1 # D1 @ ?e3 # D3)"
  proof -
    obtain A1 where "foldl (marksStep CPP ?items) (Some {}) D1 = Some A1"
      using D1(2) by blast
    with D3(2) show ?thesis by (simp add: marksLead_def)
  qed
  ultimately show ?thesis using res by metis
qed

lemmas ex_defs6 = ex_world_marked_def ex_log_cleanup_def ex_log_failed_def

lemma ex_marked_keys:
  "objectKeyOf ex_nginx_pp = (''apps/v1'', ''Deployment'', ''default'', ''nginx'')"
  "bindingKey ex_binding_refreshed = (''default'', ''nginx-Deployment'')"
  "keyOfReference (Resource (b_Spec ex_binding_refreshed)) =
     (''apps/v1'', ''Deployment'', ''default'', ''nginx'')"
  "b_Labels ex_binding_refreshed PropagationPolicyPermanentIDLabel = Some ''id-1''"
  by (simp_all add: objectKeyOf_def GetAPIVersion_def GroupVersionString_def bindingKey_def
      keyOfReference_def ex_defs ex_defs2)

lemma ex_unmarked_keys:
  "objectKeyOf ex_nginx_unmarked = (''apps/v1'', ''Deployment'', ''default'', ''nginx'')"
  "bindingKey ex_binding_unmarked = (''default'', ''nginx-Deployment'')"
  "GroupVersionKind ex_nginx_unmarked = (''apps'', ''v1'', ''Deployment'')"
  by (simp_all add: ex_nginx_unmarked_def ex_binding_unmarked_def cleanupTemplate_key
      cleanupBinding_key ex_marked_keys)
    (simp add: GroupVersionKind_def cleanupTemplate_def ex_defs split: prod.splits)

lemma ex_cleanup_template:
  "CleanupResourceTemplateMarks ex_detector (Resource (b_Spec ex_binding_refreshed))
     (cleanupMarksFunc PP) (ex_world_marked\<lparr>faults := fs, requests := log\<rparr>) =
   (case fs of
      [] \<Rightarrow> (None, ex_world_marked
               \<lparr>templates := [ex_nginx_unmarked], faults := [],
                requests := log @
                  [GetTemplate (''apps/v1'', ''Deployment'', ''default'', ''nginx'') None,
                   UpdateTemplate ex_nginx_unmarked None]\<rparr>)
    | [None] \<Rightarrow> (None, ex_world_marked
               \<lparr>templates := [ex_nginx_unmarked], faults := [],
                requests := log @
                  [GetTemplate (''apps/v1'', ''Deployment'', ''default'', ''nginx'') None,
                   UpdateTemplate ex_nginx_unmarked None]\<rparr>)
    | None # Some e # fs' \<Rightarrow> (Some e, ex_world_marked
               \<lparr>faults := fs',
                requests := log @
                  [GetTemplate (''apps/v1'', ''Deployment'', ''default'', ''nginx'') None,
                   UpdateTemplate ex_nginx_unmarked (Some e)]\<rparr>)
    | None # None # fs' \<Rightarrow> (None, ex_world_marked
               \<lparr>templates := [ex_nginx_unmarked], faults := fs',
                requests := log @
                  [GetTemplate (''apps/v1'', ''Deployment'', ''default'', ''nginx'') None,
                   UpdateTemplate ex_nginx_unmarked None]\<rparr>)
    | Some e # fs' \<Rightarrow>
        (if e = NotFound then None else Some e, ex_world_marked
               \<lparr>faults := fs',
                requests := log @
                  [GetTemplate (''apps/v1'', ''Deployment'', ''default'', ''nginx'') (Some e)]\<rparr>))"
  by (simp add: CleanupResourceTemplateMarks_def FetchResourceTemplate_def ex_unmarked_keys
      ex_marked_keys
      getTemplate_def updateTemplate_def nextFault_def sent_def lookupBy_def replaceBy_def
      IsNotFound_def Let_def ex_world_marked_def ex_world_def
      ex_nginx_unmarked_def[symmetric] ex_detector_def
      split: list.splits option.splits)

lemma ex_list:
  "listBindings RB PropagationPolicyPermanentIDLabel ''id-1''
     (ex_world_marked\<lparr>faults := fs\<rparr>) =
   (case fs of
      [] \<Rightarrow> (Inr [ex_binding_refreshed],
              ex_world_marked\<lparr>faults := [],
                requests := [ListBindings RB PropagationPolicyPermanentIDLabel ''id-1'' None]\<rparr>)
    | None # fs' \<Rightarrow> (Inr [ex_binding_refreshed],
              ex_world_marked\<lparr>faults := fs',
                requests := [ListBindings RB PropagationPolicyPermanentIDLabel ''id-1'' None]\<rparr>)
    | Some e # fs' \<Rightarrow> (Inl e,
              ex_world_marked\<lparr>faults := fs',
                requests :=
                  [ListBindings RB PropagationPolicyPermanentIDLabel ''id-1'' (Some e)]\<rparr>))"
  by (simp add: listBindings_def nextFault_def sent_def bindingsOf_def ex_marked_keys
      ex_world_marked_def ex_world_def split: list.splits option.splits)

lemma ex_cleanup_binding:
  "CleanupBindingMarks RB ex_binding_refreshed (cleanupMarksFunc PP)
     (ex_world_marked\<lparr>templates := ts, faults := [], requests := log\<rparr>) =
   (None, ex_world_marked
            \<lparr>templates := ts, rbs := [ex_binding_unmarked], faults := [],
             requests := log @ [UpdateBinding RB ex_binding_unmarked None]\<rparr>)"
  by (simp add: CleanupBindingMarks_def DefaultRetry_def RetryOnConflict_numeral Let_def
      ex_binding_unmarked_def[symmetric] updateBinding_def nextFault_def sent_def bindingsOf_def
      setBindings_def lookupBy_def replaceBy_def ex_unmarked_keys ex_marked_keys
      ex_world_marked_def ex_world_def)

lemma ex_deletion:
  "HandlePropagationPolicyDeletion ex_detector ''id-1'' ex_world_marked = (None, ex_world_unmarked)"
proof -
  have w: "ex_world_marked = ex_world_marked\<lparr>faults := []\<rparr>"
    by (simp add: ex_world_marked_def ex_world_def)
  have "HandlePropagationPolicyDeletion ex_detector ''id-1'' (ex_world_marked\<lparr>faults := []\<rparr>) =
      (None, ex_world_unmarked)"
    by (simp add: HandlePropagationPolicyDeletion_def GetResourceBindings_def ex_list
        ex_cleanup_template ex_cleanup_binding NewAggregate_def)
      (simp add: ex_world_unmarked_def ex_log_cleanup_def ex_world_marked_def ex_world_def)
  with w show ?thesis by simp
qed

lemma ex_deletion_failed:
  "HandlePropagationPolicyDeletion ex_detector ''id-1''
     (ex_world_marked\<lparr>faults := [None, None, Some Conflict]\<rparr>) =
   (Some (Aggregate [Conflict]), ex_world_marked\<lparr>requests := ex_log_failed\<rparr>)"
  by (simp add: HandlePropagationPolicyDeletion_def GetResourceBindings_def ex_list
        ex_cleanup_template NewAggregate_def)
    (simp add: ex_log_failed_def ex_world_marked_def ex_world_def)

section \<open>Claims\<close>

text \<open>
  C3. \<open>ClaimPolicyForObject\<close> and \<open>ClaimClusterPolicyForObject\<close> are idempotent. When the
  template already bears the policy's permanent ID under the label of the policy's
  scope (and, for a PropagationPolicy, carries no cpp-ID label that would have to be
  cleared), the function returns that ID with no error and leaves the world as it is:
  no request is sent, so no update reaches the template. Hence a second call after a
  successful first one, on the template as the API server then holds it, returns the
  same ID and sends nothing.
\<close>

theorem claim_idempotent:
  "(u_Labels object PropagationPolicyPermanentIDLabel =
      Some (mapIndex (p_Labels policy) PropagationPolicyPermanentIDLabel) \<and>
    u_Labels object ClusterPropagationPolicyPermanentIDLabel = None \<longrightarrow>
      ClaimPolicyForObject object policy s =
        ((mapIndex (p_Labels policy) PropagationPolicyPermanentIDLabel, None), s)) \<and>
   (u_Labels object ClusterPropagationPolicyPermanentIDLabel =
      Some (mapIndex (p_Labels cpolicy) ClusterPropagationPolicyPermanentIDLabel) \<longrightarrow>
      ClaimClusterPolicyForObject object cpolicy s =
        ((mapIndex (p_Labels cpolicy) ClusterPropagationPolicyPermanentIDLabel, None), s)) \<and>
   (lookupBy objectKeyOf (objectKeyOf object) (templates s) = Some object \<and>
    ClaimPolicyForObject object policy s = ((pid, None), s') \<and>
    lookupBy objectKeyOf (objectKeyOf object) (templates s') = Some object' \<longrightarrow>
      ClaimPolicyForObject object' policy s' = ((pid, None), s')) \<and>
   (lookupBy objectKeyOf (objectKeyOf object) (templates s) = Some object \<and>
    ClaimClusterPolicyForObject object cpolicy s = ((cpid, None), s'') \<and>
    lookupBy objectKeyOf (objectKeyOf object) (templates s'') = Some object'' \<longrightarrow>
      ClaimClusterPolicyForObject object'' cpolicy s'' = ((cpid, None), s''))"
  using ClaimPolicyForObject_noop ClaimClusterPolicyForObject_noop
    ClaimPolicyForObject_twice ClaimClusterPolicyForObject_twice
  by blast

theorem claim_idempotent_witness:
  "ClaimPolicyForObject ex_nginx_pp ex_pp ex_world = ((''id-1'', None), ex_world) \<and>
   ClaimClusterPolicyForObject ex_nginx_cpp ex_cpp ex_world = ((''id-2'', None), ex_world) \<and>
   ClaimPolicyForObject ex_nginx ex_pp ex_world = ((''id-1'', None), ex_world_pp) \<and>
   ClaimPolicyForObject ex_nginx_pp ex_pp ex_world_pp = ((''id-1'', None), ex_world_pp) \<and>
   ClaimClusterPolicyForObject ex_nginx ex_cpp ex_world = ((''id-2'', None), ex_world_cpp) \<and>
   ClaimClusterPolicyForObject ex_nginx_cpp ex_cpp ex_world_cpp = ((''id-2'', None), ex_world_cpp)"
proof -
  have l0: "lookupBy objectKeyOf (objectKeyOf ex_nginx) (templates ex_world) = Some ex_nginx"
    by (simp add: ex_defs lookupBy_def)
  have l1: "lookupBy objectKeyOf (objectKeyOf ex_nginx) (templates ex_world_pp) = Some ex_nginx_pp"
    by (simp add: ex_defs lookupBy_def objectKeyOf_def GetAPIVersion_def)
  have l2: "lookupBy objectKeyOf (objectKeyOf ex_nginx) (templates ex_world_cpp) = Some ex_nginx_cpp"
    by (simp add: ex_defs lookupBy_def objectKeyOf_def GetAPIVersion_def)
  have p1: "u_Labels ex_nginx_pp PropagationPolicyPermanentIDLabel =
              Some (mapIndex (p_Labels ex_pp) PropagationPolicyPermanentIDLabel)"
    and p2: "u_Labels ex_nginx_pp ClusterPropagationPolicyPermanentIDLabel = None"
    and p3: "u_Labels ex_nginx_cpp ClusterPropagationPolicyPermanentIDLabel =
              Some (mapIndex (p_Labels ex_cpp) ClusterPropagationPolicyPermanentIDLabel)"
    and ids: "mapIndex (p_Labels ex_pp) PropagationPolicyPermanentIDLabel = ''id-1''"
      "mapIndex (p_Labels ex_cpp) ClusterPropagationPolicyPermanentIDLabel = ''id-2''"
    by (simp_all add: ex_defs key_defs mapIndex_def)
  have c1: "ClaimPolicyForObject ex_nginx_pp ex_pp ex_world =
      ((mapIndex (p_Labels ex_pp) PropagationPolicyPermanentIDLabel, None), ex_world)"
    using claim_idempotent[where object = ex_nginx_pp and policy = ex_pp and s = ex_world] p1 p2
    by blast
  have c2: "ClaimClusterPolicyForObject ex_nginx_cpp ex_cpp ex_world =
      ((mapIndex (p_Labels ex_cpp) ClusterPropagationPolicyPermanentIDLabel, None), ex_world)"
    using claim_idempotent[where object = ex_nginx_cpp and cpolicy = ex_cpp and s = ex_world] p3
    by blast
  have c3: "ClaimPolicyForObject ex_nginx_pp ex_pp ex_world_pp = ((''id-1'', None), ex_world_pp)"
    using claim_idempotent[where object = ex_nginx and policy = ex_pp and s = ex_world
        and pid = "''id-1''" and s' = ex_world_pp and object' = ex_nginx_pp] l0 l1 ex_claim_pp
    by blast
  have c4: "ClaimClusterPolicyForObject ex_nginx_cpp ex_cpp ex_world_cpp =
      ((''id-2'', None), ex_world_cpp)"
    using claim_idempotent[where object = ex_nginx and cpolicy = ex_cpp and s = ex_world
        and cpid = "''id-2''" and s'' = ex_world_cpp and object'' = ex_nginx_cpp]
      l0 l2 ex_claim_cpp
    by blast
  from c1 c2 c3 c4 ex_claim_pp ex_claim_cpp show ?thesis
    by (simp only: ids simp_thms)
qed

text \<open>
  C5. The lazy gate. When the change that triggered the reconcile was made by Karmada
  itself and the activation preference of the policy is Lazy, \<open>ApplyPolicy\<close> and
  \<open>ApplyClusterPolicy\<close> claim the policy on the template and return what the claim
  returned: success when the claim succeeded (its error otherwise). No binding is built
  or upserted: the world is the one the claim left, the ResourceBindings and
  ClusterResourceBindings are untouched, and no request of the call addresses a binding.
\<close>

theorem lazy_gate:
  assumes "resourceChangeByKarmada"
      and "IsLazyActivationEnabled (ps_ActivationPreference (p_Spec policy))"
  shows "(\<forall>policyID err s1. ClaimPolicyForObject object policy s = ((policyID, err), s1) \<longrightarrow>
            ApplyPolicy d object objectKey resourceChangeByKarmada policy s = (err, s1) \<and>
            rbs s1 = rbs s \<and> crbs s1 = crbs s \<and>
            sentSince (\<lambda>r. bindingRequestKind r = None) s s1) \<and>
         (\<forall>policyID err s1. ClaimClusterPolicyForObject object policy s = ((policyID, err), s1) \<longrightarrow>
            ApplyClusterPolicy d object objectKey resourceChangeByKarmada policy s = (err, s1) \<and>
            rbs s1 = rbs s \<and> crbs s1 = crbs s \<and>
            sentSince (\<lambda>r. bindingRequestKind r = None) s s1)"
proof (intro conjI allI impI)
  fix policyID err s1
  assume c: "ClaimPolicyForObject object policy s = ((policyID, err), s1)"
  show "ApplyPolicy d object objectKey resourceChangeByKarmada policy s = (err, s1)"
    using ApplyPolicy_lazy[OF assms] c by simp
  show "rbs s1 = rbs s" using ClaimPolicyForObject_bindingsOf[OF c, of RB]
    by (simp add: bindingsOf_def)
  show "crbs s1 = crbs s" using ClaimPolicyForObject_bindingsOf[OF c, of CRB]
    by (simp add: bindingsOf_def)
  show "sentSince (\<lambda>r. bindingRequestKind r = None) s s1"
    using ClaimPolicyForObject_sent[OF c] .
next
  fix policyID err s1
  assume c: "ClaimClusterPolicyForObject object policy s = ((policyID, err), s1)"
  show "ApplyClusterPolicy d object objectKey resourceChangeByKarmada policy s = (err, s1)"
    using ApplyClusterPolicy_lazy[OF assms] c by simp
  show "rbs s1 = rbs s" using ClaimClusterPolicyForObject_bindingsOf[OF c, of RB]
    by (simp add: bindingsOf_def)
  show "crbs s1 = crbs s" using ClaimClusterPolicyForObject_bindingsOf[OF c, of CRB]
    by (simp add: bindingsOf_def)
  show "sentSince (\<lambda>r. bindingRequestKind r = None) s s1"
    using ClaimClusterPolicyForObject_sent[OF c] .
qed

theorem lazy_gate_witness:
  "ApplyPolicy ex_detector ex_nginx ex_key True ex_pp ex_world = (None, ex_world_pp) \<and>
   rbs ex_world_pp = rbs ex_world \<and> crbs ex_world_pp = crbs ex_world \<and>
   sentSince (\<lambda>r. bindingRequestKind r = None) ex_world ex_world_pp \<and>
   ApplyClusterPolicy ex_detector ex_nginx ex_key True ex_cpp ex_world = (None, ex_world_cpp) \<and>
   rbs ex_world_cpp = rbs ex_world \<and> crbs ex_world_cpp = crbs ex_world \<and>
   sentSince (\<lambda>r. bindingRequestKind r = None) ex_world ex_world_cpp"
proof -
  have lazy: "IsLazyActivationEnabled (ps_ActivationPreference (p_Spec ex_pp))"
    "IsLazyActivationEnabled (ps_ActivationPreference (p_Spec ex_cpp))"
    by (simp_all add: IsLazyActivationEnabled_def ex_defs)
  have a: "ApplyPolicy ex_detector ex_nginx ex_key True ex_pp ex_world = (None, ex_world_pp) \<and>
     rbs ex_world_pp = rbs ex_world \<and> crbs ex_world_pp = crbs ex_world \<and>
     sentSince (\<lambda>r. bindingRequestKind r = None) ex_world ex_world_pp"
    using lazy_gate[where resourceChangeByKarmada = True and policy = ex_pp
        and object = ex_nginx and s = ex_world and d = ex_detector and objectKey = ex_key]
      lazy(1) ex_claim_pp
    by blast
  have b: "ApplyClusterPolicy ex_detector ex_nginx ex_key True ex_cpp ex_world =
       (None, ex_world_cpp) \<and>
     rbs ex_world_cpp = rbs ex_world \<and> crbs ex_world_cpp = crbs ex_world \<and>
     sentSince (\<lambda>r. bindingRequestKind r = None) ex_world ex_world_cpp"
    using lazy_gate[where resourceChangeByKarmada = True and policy = ex_cpp
        and object = ex_nginx and s = ex_world and d = ex_detector and objectKey = ex_key]
      lazy(2) ex_claim_cpp
    by blast
  from a b show ?thesis by blast
qed

text \<open>
  C1. Schedule preservation. The three mutation callbacks of \<open>ApplyPolicy\<close> and
  \<open>ApplyClusterPolicy\<close> leave \<^verbatim>\<open>spec.clusters\<close> of the binding they are given as it is;
  when they succeed they overwrite the owner references, the finalizers and the listed
  spec fields with those of the desired binding and merge its labels and annotations
  into the existing ones. Hence, whatever the outcome of \<open>ApplyPolicy\<close> or
  \<open>ApplyClusterPolicy\<close> (failures and conflict retries included), a ResourceBinding or
  ClusterResourceBinding that existed before the call is still stored afterwards with
  the same \<^verbatim>\<open>spec.clusters\<close>.
\<close>

theorem schedule_preservation:
  "Clusters (b_Spec (snd (ApplyPolicy_mutate d object binding bindingCopy))) =
     Clusters (b_Spec bindingCopy) \<and>
   Clusters (b_Spec (snd (ApplyClusterPolicy_mutateRB d object binding bindingCopy))) =
     Clusters (b_Spec bindingCopy) \<and>
   Clusters (b_Spec (snd (ApplyClusterPolicy_mutateCRB d object binding bindingCopy))) =
     Clusters (b_Spec bindingCopy) \<and>
   (fst (ApplyPolicy_mutate d object binding bindingCopy) = None \<longrightarrow>
      overwrittenBy binding (snd (ApplyPolicy_mutate d object binding bindingCopy)) \<and>
      PropagateDeps (b_Spec (snd (ApplyPolicy_mutate d object binding bindingCopy))) =
        PropagateDeps (b_Spec binding) \<and>
      b_Annotations (snd (ApplyPolicy_mutate d object binding bindingCopy)) =
        DedupeAndMergeAnnotations d (b_Annotations bindingCopy) (b_Annotations binding) \<and>
      b_Labels (snd (ApplyPolicy_mutate d object binding bindingCopy)) =
        snd (excludeClusterPolicy
               (DedupeAndMergeLabels d (b_Labels bindingCopy) (b_Labels binding)))) \<and>
   (fst (ApplyClusterPolicy_mutateRB d object binding bindingCopy) = None \<longrightarrow>
      overwrittenBy binding (snd (ApplyClusterPolicy_mutateRB d object binding bindingCopy)) \<and>
      PropagateDeps (b_Spec (snd (ApplyClusterPolicy_mutateRB d object binding bindingCopy))) =
        PropagateDeps (b_Spec binding) \<and>
      b_Annotations (snd (ApplyClusterPolicy_mutateRB d object binding bindingCopy)) =
        DedupeAndMergeAnnotations d (b_Annotations bindingCopy) (b_Annotations binding) \<and>
      b_Labels (snd (ApplyClusterPolicy_mutateRB d object binding bindingCopy)) =
        DedupeAndMergeLabels d (b_Labels bindingCopy) (b_Labels binding)) \<and>
   (fst (ApplyClusterPolicy_mutateCRB d object binding bindingCopy) = None \<longrightarrow>
      overwrittenBy binding (snd (ApplyClusterPolicy_mutateCRB d object binding bindingCopy)) \<and>
      b_Annotations (snd (ApplyClusterPolicy_mutateCRB d object binding bindingCopy)) =
        DedupeAndMergeAnnotations d (b_Annotations bindingCopy) (b_Annotations binding) \<and>
      b_Labels (snd (ApplyClusterPolicy_mutateCRB d object binding bindingCopy)) =
        DedupeAndMergeLabels d (b_Labels bindingCopy) (b_Labels binding)) \<and>
   (clustersAt kind k s = Some c \<longrightarrow>
      clustersAt kind k (snd (ApplyPolicy d object objectKey resourceChangeByKarmada policy s)) =
        Some c \<and>
      clustersAt kind k
        (snd (ApplyClusterPolicy d object objectKey resourceChangeByKarmada cpolicy s)) = Some c)"
proof -
  have "clustersAt kind k (snd (ApplyPolicy d object objectKey resourceChangeByKarmada policy s)) =
          Some c" if "clustersAt kind k s = Some c"
    using ApplyPolicy_clustersAt[OF surjective_pairing that] .
  moreover have "clustersAt kind k
        (snd (ApplyClusterPolicy d object objectKey resourceChangeByKarmada cpolicy s)) = Some c"
    if "clustersAt kind k s = Some c"
    using ApplyClusterPolicy_clustersAt[OF surjective_pairing that] .
  ultimately show ?thesis
    using callbacks_keep_clusters[of d object binding bindingCopy]
      callbacks_overwrite[of d object binding bindingCopy]
    by blast
qed

theorem schedule_preservation_witness:
  "clustersAt RB (''default'', ''nginx-Deployment'') ex_world_bound =
     Some [\<lparr>tc_Name = ''member1'', tc_Replicas = 2\<rparr>] \<and>
   ApplyPolicy ex_detector ex_nginx_pp ex_key False ex_pp ex_world_bound =
     (None, ex_world_refreshed) \<and>
   rbs ex_world_refreshed = [ex_binding_refreshed] \<and>
   Placement (b_Spec ex_binding) = Some ''member0'' \<and>
   Placement (b_Spec ex_binding_refreshed) = Some ''member1'' \<and>
   clustersAt RB (''default'', ''nginx-Deployment'') ex_world_refreshed =
     Some [\<lparr>tc_Name = ''member1'', tc_Replicas = 2\<rparr>]"
proof -
  have pre: "clustersAt RB (''default'', ''nginx-Deployment'') ex_world_bound =
     Some [\<lparr>tc_Name = ''member1'', tc_Replicas = 2\<rparr>]"
    by (simp add: clustersAt_def ex_defs2 ex_world_def bindingsOf_def lookupBy_def bindingKey_def)
  have "clustersAt RB (''default'', ''nginx-Deployment'')
          (snd (ApplyPolicy ex_detector ex_nginx_pp ex_key False ex_pp ex_world_bound)) =
        Some [\<lparr>tc_Name = ''member1'', tc_Replicas = 2\<rparr>]"
    using schedule_preservation[where kind = RB and k = "(''default'', ''nginx-Deployment'')"
        and s = ex_world_bound and d = ex_detector and object = ex_nginx_pp
        and objectKey = ex_key and resourceChangeByKarmada = False and policy = ex_pp] pre
    by blast
  then have post: "clustersAt RB (''default'', ''nginx-Deployment'') ex_world_refreshed =
     Some [\<lparr>tc_Name = ''member1'', tc_Replicas = 2\<rparr>]"
    by (simp only: ex_apply_pp snd_conv)
  have rest: "rbs ex_world_refreshed = [ex_binding_refreshed]"
    "Placement (b_Spec ex_binding) = Some ''member0''"
    "Placement (b_Spec ex_binding_refreshed) = Some ''member1''"
    by (simp_all add: ex_defs2)
  from pre post rest ex_apply_pp show ?thesis by blast
qed

text \<open>
  C2. Owner identity on write. When the binding that the upsert reads already has a
  controller owner reference whose UID is not the UID of the resource template, each
  of the three mutation callbacks returns the error and leaves the binding as it is;
  \<open>ApplyPolicy\<close> and \<open>ApplyClusterPolicy\<close> then return that error at once (it is not a
  conflict, so nothing is retried), the only request of the upsert is the read, and the
  stored bindings are those from before the call. (That the key is then retried is the
  doing of the queue, which re-adds a key whose reconcile returned an error.)
\<close>

theorem owner_mismatch_refused:
  assumes owner: "GetControllerOfNoCopy existing = Some ownerRef"
      and uid: "or_UID ownerRef \<noteq> u_UID object"
      and gate: "\<not> (resourceChangeByKarmada \<and>
                    IsLazyActivationEnabled (ps_ActivationPreference (p_Spec policy)))"
  shows
   "ApplyPolicy_mutate d object binding existing = (Some DifferentOwnerUID, existing) \<and>
    ApplyClusterPolicy_mutateRB d object binding existing = (Some DifferentOwnerUID, existing) \<and>
    ApplyClusterPolicy_mutateCRB d object binding existing = (Some DifferentOwnerUID, existing) \<and>
    (ClaimPolicyForObject object policy s = ((policyID, None), s') \<and>
     BuildResourceBinding d object [PropagationPolicyPermanentIDLabel \<mapsto> policyID]
       [PropagationPolicyNamespaceAnnotation \<mapsto> p_Namespace policy,
        PropagationPolicyNameAnnotation \<mapsto> p_Name policy] (p_Spec policy) = Inr binding \<and>
     getBinding RB (bindingKey binding) s' = (Inr existing, s'') \<longrightarrow>
       ApplyPolicy d object objectKey resourceChangeByKarmada policy s =
         (Some DifferentOwnerUID, s'') \<and>
       rbs s'' = rbs s \<and> crbs s'' = crbs s \<and>
       requests s'' = requests s' @ [GetBinding RB (bindingKey binding) None]) \<and>
    (ClaimClusterPolicyForObject object policy s = ((policyID, None), s') \<and>
     u_Namespace object \<noteq> [] \<and>
     BuildResourceBinding d object [ClusterPropagationPolicyPermanentIDLabel \<mapsto> policyID]
       [ClusterPropagationPolicyAnnotation \<mapsto> p_Name policy] (p_Spec policy) = Inr binding \<and>
     getBinding RB (bindingKey binding) s' = (Inr existing, s'') \<longrightarrow>
       ApplyClusterPolicy d object objectKey resourceChangeByKarmada policy s =
         (Some DifferentOwnerUID, s'') \<and>
       rbs s'' = rbs s \<and> crbs s'' = crbs s \<and>
       requests s'' = requests s' @ [GetBinding RB (bindingKey binding) None]) \<and>
    (ClaimClusterPolicyForObject object policy s = ((policyID, None), s') \<and>
     u_Namespace object = [] \<and>
     BuildClusterResourceBinding d object [ClusterPropagationPolicyPermanentIDLabel \<mapsto> policyID]
       [ClusterPropagationPolicyAnnotation \<mapsto> p_Name policy] (p_Spec policy) = Inr binding \<and>
     getBinding CRB (bindingKey binding) s' = (Inr existing, s'') \<longrightarrow>
       ApplyClusterPolicy d object objectKey resourceChangeByKarmada policy s =
         (Some DifferentOwnerUID, s'') \<and>
       rbs s'' = rbs s \<and> crbs s'' = crbs s \<and>
       requests s'' = requests s' @ [GetBinding CRB (bindingKey binding) None])"
proof (intro conjI impI)
  show "ApplyPolicy_mutate d object binding existing = (Some DifferentOwnerUID, existing)"
    "ApplyClusterPolicy_mutateRB d object binding existing = (Some DifferentOwnerUID, existing)"
    "ApplyClusterPolicy_mutateCRB d object binding existing = (Some DifferentOwnerUID, existing)"
    using callbacks_refuse[OF owner uid] by simp_all
next
  assume a: "ClaimPolicyForObject object policy s = ((policyID, None), s') \<and>
     BuildResourceBinding d object [PropagationPolicyPermanentIDLabel \<mapsto> policyID]
       [PropagationPolicyNamespaceAnnotation \<mapsto> p_Namespace policy,
        PropagationPolicyNameAnnotation \<mapsto> p_Name policy] (p_Spec policy) = Inr binding \<and>
     getBinding RB (bindingKey binding) s' = (Inr existing, s'')"
  then have cl: "ClaimPolicyForObject object policy s = ((policyID, None), s')"
    and get: "getBinding RB (bindingKey binding) s' = (Inr existing, s'')" by simp_all
  from a gate upsert_refused[OF get, where f = "ApplyPolicy_mutate d object binding"]
    callbacks_refuse(1)[OF owner uid, of d binding]
  show "ApplyPolicy d object objectKey resourceChangeByKarmada policy s =
         (Some DifferentOwnerUID, s'')"
    by (simp add: ApplyPolicy_def Let_def)
  show "rbs s'' = rbs s"
    using ClaimPolicyForObject_bindingsOf[OF cl, of RB] getBinding_bindingsOf[OF get, of RB]
    by (simp add: bindingsOf_def)
  show "crbs s'' = crbs s"
    using ClaimPolicyForObject_bindingsOf[OF cl, of CRB] getBinding_bindingsOf[OF get, of CRB]
    by (simp add: bindingsOf_def)
  show "requests s'' = requests s' @ [GetBinding RB (bindingKey binding) None]"
    using getBinding_found_sent[OF get] .
next
  assume a: "ClaimClusterPolicyForObject object policy s = ((policyID, None), s') \<and>
     u_Namespace object \<noteq> [] \<and>
     BuildResourceBinding d object [ClusterPropagationPolicyPermanentIDLabel \<mapsto> policyID]
       [ClusterPropagationPolicyAnnotation \<mapsto> p_Name policy] (p_Spec policy) = Inr binding \<and>
     getBinding RB (bindingKey binding) s' = (Inr existing, s'')"
  then have cl: "ClaimClusterPolicyForObject object policy s = ((policyID, None), s')"
    and get: "getBinding RB (bindingKey binding) s' = (Inr existing, s'')" by simp_all
  from a gate upsert_refused[OF get, where f = "ApplyClusterPolicy_mutateRB d object binding"]
    callbacks_refuse(2)[OF owner uid, of d binding]
  show "ApplyClusterPolicy d object objectKey resourceChangeByKarmada policy s =
         (Some DifferentOwnerUID, s'')"
    by (simp add: ApplyClusterPolicy_def Let_def)
  show "rbs s'' = rbs s"
    using ClaimClusterPolicyForObject_bindingsOf[OF cl, of RB] getBinding_bindingsOf[OF get, of RB]
    by (simp add: bindingsOf_def)
  show "crbs s'' = crbs s"
    using ClaimClusterPolicyForObject_bindingsOf[OF cl, of CRB] getBinding_bindingsOf[OF get, of CRB]
    by (simp add: bindingsOf_def)
  show "requests s'' = requests s' @ [GetBinding RB (bindingKey binding) None]"
    using getBinding_found_sent[OF get] .
next
  assume a: "ClaimClusterPolicyForObject object policy s = ((policyID, None), s') \<and>
     u_Namespace object = [] \<and>
     BuildClusterResourceBinding d object [ClusterPropagationPolicyPermanentIDLabel \<mapsto> policyID]
       [ClusterPropagationPolicyAnnotation \<mapsto> p_Name policy] (p_Spec policy) = Inr binding \<and>
     getBinding CRB (bindingKey binding) s' = (Inr existing, s'')"
  then have cl: "ClaimClusterPolicyForObject object policy s = ((policyID, None), s')"
    and get: "getBinding CRB (bindingKey binding) s' = (Inr existing, s'')" by simp_all
  from a gate upsert_refused[OF get, where f = "ApplyClusterPolicy_mutateCRB d object binding"]
    callbacks_refuse(3)[OF owner uid, of d binding]
  show "ApplyClusterPolicy d object objectKey resourceChangeByKarmada policy s =
         (Some DifferentOwnerUID, s'')"
    by (simp add: ApplyClusterPolicy_def Let_def)
  show "rbs s'' = rbs s"
    using ClaimClusterPolicyForObject_bindingsOf[OF cl, of RB] getBinding_bindingsOf[OF get, of RB]
    by (simp add: bindingsOf_def)
  show "crbs s'' = crbs s"
    using ClaimClusterPolicyForObject_bindingsOf[OF cl, of CRB] getBinding_bindingsOf[OF get, of CRB]
    by (simp add: bindingsOf_def)
  show "requests s'' = requests s' @ [GetBinding CRB (bindingKey binding) None]"
    using getBinding_found_sent[OF get] .
qed

theorem owner_mismatch_refused_witness:
  "ApplyPolicy_mutate ex_detector ex_nginx_pp ex_binding_built ex_binding_stale =
     (Some DifferentOwnerUID, ex_binding_stale) \<and>
   ApplyPolicy ex_detector ex_nginx_pp ex_key False ex_pp ex_world_stale =
     (Some DifferentOwnerUID, ex_world_refused) \<and>
   rbs ex_world_refused = rbs ex_world_stale \<and> crbs ex_world_refused = crbs ex_world_stale"
proof -
  have owner: "GetControllerOfNoCopy ex_binding_stale =
      Some ((NewControllerRef ex_nginx)\<lparr>or_UID := ''uid-0''\<rparr>)"
    by (simp add: GetControllerOfNoCopy_def ex_defs3 NewControllerRef_def)
  have uid: "or_UID ((NewControllerRef ex_nginx)\<lparr>or_UID := ''uid-0''\<rparr>) \<noteq> u_UID ex_nginx_pp"
    by (simp add: ex_defs)
  have gate: "\<not> (False \<and> IsLazyActivationEnabled (ps_ActivationPreference (p_Spec ex_pp)))"
    by simp
  have cl: "ClaimPolicyForObject ex_nginx_pp ex_pp ex_world_stale =
      ((''id-1'', None), ex_world_stale)"
    by (simp add: ClaimPolicyForObject_def ex_defs key_defs mapIndex_def
        excludeClusterPolicy_def Let_def)
  have build: "BuildResourceBinding ex_detector ex_nginx_pp
       [PropagationPolicyPermanentIDLabel \<mapsto> ''id-1'']
       [PropagationPolicyNamespaceAnnotation \<mapsto> p_Namespace ex_pp,
        PropagationPolicyNameAnnotation \<mapsto> p_Name ex_pp] (p_Spec ex_pp) = Inr ex_binding_built"
    by (simp add: ex_pp_simps ex_build_rb)
  have get: "getBinding RB (bindingKey ex_binding_built) ex_world_stale =
      (Inr ex_binding_stale, ex_world_refused)"
    by (simp add: ex_world_refused_def ex_defs ex_defs2 ex_defs3 client_defs)
  from owner_mismatch_refused[OF owner uid gate, where d = ex_detector
      and binding = ex_binding_built and s = ex_world_stale and policyID = "''id-1''"
      and s' = ex_world_stale and s'' = ex_world_refused and objectKey = ex_key]
    cl build get
  show ?thesis by blast
qed

text \<open>
  C7. The scope of the binding follows the namespace of the template. When
  \<open>ApplyClusterPolicy\<close> succeeds past the lazy gate, a template with a non-empty namespace
  has a ResourceBinding stored under its namespace and the generated binding name, and
  the call has neither sent a request for a ClusterResourceBinding nor changed one; a
  template with an empty namespace has a ClusterResourceBinding stored under the
  generated name, and the call has neither sent a request for a ResourceBinding nor
  changed one.
\<close>

theorem binding_scope_follows_namespace:
  assumes run: "ApplyClusterPolicy d object objectKey resourceChangeByKarmada policy s = (None, s')"
      and gate: "\<not> (resourceChangeByKarmada \<and>
                    IsLazyActivationEnabled (ps_ActivationPreference (p_Spec policy)))"
  shows "(u_Namespace object \<noteq> [] \<longrightarrow>
            lookupBy bindingKey
              (u_Namespace object, GenerateBindingName d (u_Kind object) (u_Name object))
              (rbs s') \<noteq> None \<and>
            crbs s' = crbs s \<and>
            sentSince (\<lambda>r. bindingRequestKind r \<noteq> Some CRB) s s') \<and>
         (u_Namespace object = [] \<longrightarrow>
            lookupBy bindingKey ([], GenerateBindingName d (u_Kind object) (u_Name object))
              (crbs s') \<noteq> None \<and>
            rbs s' = rbs s \<and>
            sentSince (\<lambda>r. bindingRequestKind r \<noteq> Some RB) s s')"
proof -
  obtain pid ce s1 where cl: "ClaimClusterPolicyForObject object policy s = ((pid, ce), s1)"
    by (cases "ClaimClusterPolicyForObject object policy s") auto
  have ce: "ce = None" using run cl by (auto simp: ApplyClusterPolicy_def split: option.splits)
  note fr = ClaimClusterPolicyForObject_bindingsOf[OF cl]
  have sent1: "sentSince (\<lambda>r. bindingRequestKind r = None) s s1"
    using ClaimClusterPolicyForObject_sent[OF cl] .
  show ?thesis
  proof (cases "u_Namespace object \<noteq> []")
    case ns: True
    let ?build = "BuildResourceBinding d object [ClusterPropagationPolicyPermanentIDLabel \<mapsto> pid]
       [ClusterPropagationPolicyAnnotation \<mapsto> p_Name policy] (p_Spec policy)"
    obtain binding where b: "?build = Inr binding"
      using run cl ce gate ns by (cases ?build) (auto simp: ApplyClusterPolicy_def Let_def)
    with run cl ce gate ns obtain b' where
      up: "RetryOnConflict DefaultRetry
         (\<lambda>bindingCopy s.
            case CreateOrUpdate RB bindingCopy (ApplyClusterPolicy_mutateRB d object binding) s of
              (((operationResult, err), bindingCopy'), s') \<Rightarrow> ((err, bindingCopy'), s'))
         binding s1 = ((None, b'), s')"
      by (auto simp: ApplyClusterPolicy_def Let_def split: prod.splits)
    have "lookupBy bindingKey (bindingKey binding) (bindingsOf RB s') \<noteq> None"
      using upsert_stored[OF up callbacks_keep_key(2)] .
    then have stored: "lookupBy bindingKey
              (u_Namespace object, GenerateBindingName d (u_Kind object) (u_Name object))
              (rbs s') \<noteq> None"
      using BuildResourceBinding_key[OF b] by (simp add: bindingsOf_RB)
    have other: "crbs s' = crbs s"
      using upsert_other_kind[OF up, of CRB] fr[of CRB] by (simp add: bindingsOf_CRB)
    have "sentSince (\<lambda>r. bindingRequestKind r \<noteq> Some CRB) s s'"
      by (rule sentSince_trans[OF sentSince_mono[OF sent1] sentSince_mono[OF upsert_sentSince[OF up]]])
        simp_all
    with ns stored other show ?thesis by simp
  next
    case ns: False
    let ?build = "BuildClusterResourceBinding d object
       [ClusterPropagationPolicyPermanentIDLabel \<mapsto> pid]
       [ClusterPropagationPolicyAnnotation \<mapsto> p_Name policy] (p_Spec policy)"
    obtain binding where b: "?build = Inr binding"
      using run cl ce gate ns by (cases ?build) (auto simp: ApplyClusterPolicy_def Let_def)
    with run cl ce gate ns obtain b' where
      up: "RetryOnConflict DefaultRetry
         (\<lambda>bindingCopy s.
            case CreateOrUpdate CRB bindingCopy (ApplyClusterPolicy_mutateCRB d object binding) s of
              (((operationResult, err), bindingCopy'), s') \<Rightarrow> ((err, bindingCopy'), s'))
         binding s1 = ((None, b'), s')"
      by (auto simp: ApplyClusterPolicy_def Let_def split: prod.splits)
    have "lookupBy bindingKey (bindingKey binding) (bindingsOf CRB s') \<noteq> None"
      using upsert_stored[OF up callbacks_keep_key(3)] .
    then have stored: "lookupBy bindingKey
              ([], GenerateBindingName d (u_Kind object) (u_Name object)) (crbs s') \<noteq> None"
      using BuildClusterResourceBinding_key[OF b] by (simp add: bindingsOf_CRB)
    have other: "rbs s' = rbs s"
      using upsert_other_kind[OF up, of RB] fr[of RB] by (simp add: bindingsOf_RB)
    have "sentSince (\<lambda>r. bindingRequestKind r \<noteq> Some RB) s s'"
      by (rule sentSince_trans[OF sentSince_mono[OF sent1] sentSince_mono[OF upsert_sentSince[OF up]]])
        simp_all
    with ns stored other show ?thesis by simp
  qed
qed

theorem binding_scope_follows_namespace_witness:
  "ApplyClusterPolicy ex_detector ex_nginx_cpp ex_key False ex_cpp ex_world_c =
     (None, ex_world_rb) \<and>
   u_Namespace ex_nginx_cpp = ''default'' \<and>
   lookupBy bindingKey (''default'', ''nginx-Deployment'') (rbs ex_world_rb) \<noteq> None \<and>
   crbs ex_world_rb = crbs ex_world_c \<and>
   sentSince (\<lambda>r. bindingRequestKind r \<noteq> Some CRB) ex_world_c ex_world_rb \<and>
   ApplyClusterPolicy ex_detector ex_role ex_role_key False ex_cpp ex_world_c =
     (None, ex_world_crb) \<and>
   u_Namespace ex_role = [] \<and>
   lookupBy bindingKey ([], ''viewer-ClusterRole'') (crbs ex_world_crb) \<noteq> None \<and>
   rbs ex_world_crb = rbs ex_world_c \<and>
   sentSince (\<lambda>r. bindingRequestKind r \<noteq> Some RB) ex_world_c ex_world_crb"
proof -
  have gate: "\<not> (False \<and> IsLazyActivationEnabled (ps_ActivationPreference (p_Spec ex_cpp)))"
    by simp
  have ns: "u_Namespace ex_nginx_cpp = ''default''" "u_Namespace ex_role = []"
    and names: "GenerateBindingName ex_detector (u_Kind ex_nginx_cpp) (u_Name ex_nginx_cpp) =
        ''nginx-Deployment''"
      "GenerateBindingName ex_detector (u_Kind ex_role) (u_Name ex_role) = ''viewer-ClusterRole''"
    by (simp_all add: ex_defs ex_role_def)
  have a: "lookupBy bindingKey
              (u_Namespace ex_nginx_cpp,
               GenerateBindingName ex_detector (u_Kind ex_nginx_cpp) (u_Name ex_nginx_cpp))
              (rbs ex_world_rb) \<noteq> None \<and>
            crbs ex_world_rb = crbs ex_world_c \<and>
            sentSince (\<lambda>r. bindingRequestKind r \<noteq> Some CRB) ex_world_c ex_world_rb"
    using binding_scope_follows_namespace[OF ex_apply_cpp(1) gate] ns(1) by simp
  have b: "lookupBy bindingKey
              ([], GenerateBindingName ex_detector (u_Kind ex_role) (u_Name ex_role))
              (crbs ex_world_crb) \<noteq> None \<and>
            rbs ex_world_crb = rbs ex_world_c \<and>
            sentSince (\<lambda>r. bindingRequestKind r \<noteq> Some RB) ex_world_c ex_world_crb"
    using binding_scope_follows_namespace[OF ex_apply_cpp(2) gate] ns(2) by simp
  from a b ex_apply_cpp ns show ?thesis
    by (simp only: names simp_thms)
qed

text \<open>
  C8, as the spec states it, fails: \<open>BuildClusterResourceBinding\<close> copies the policy's
  \<^verbatim>\<open>propagateDeps\<close> into the ClusterResourceBinding it builds, and the binding that
  \<open>ApplyClusterPolicy\<close> creates for a cluster-scoped template carries it. Here the policy
  says \<^verbatim>\<open>propagateDeps = true\<close> and so does the ClusterResourceBinding stored by the call.
\<close>

theorem crb_propagateDeps_counterexample:
  "ps_PropagateDeps (p_Spec ex_cpp) = True \<and>
   BuildClusterResourceBinding ex_detector ex_role
     [ClusterPropagationPolicyPermanentIDLabel \<mapsto> ''id-2'']
     [ClusterPropagationPolicyAnnotation \<mapsto> ''cpp1''] (p_Spec ex_cpp) = Inr ex_crb_created \<and>
   ApplyClusterPolicy ex_detector ex_role ex_role_key False ex_cpp ex_world_c =
     (None, ex_world_crb) \<and>
   crbs ex_world_c = [] \<and>
   crbs ex_world_crb = [ex_crb_created] \<and>
   PropagateDeps (b_Spec ex_crb_created) = True"
  using ex_build_cpp(2) ex_apply_cpp(2)
  by (simp add: ex_pp_simps) (simp add: ex_defs ex_defs4)

text \<open>
  C8, amended. Both builders copy the policy's \<^verbatim>\<open>propagateDeps\<close> into the binding they
  build, so a ClusterResourceBinding that is created carries it as a ResourceBinding
  does. The asymmetry is in the update of an existing binding only: the callback for a
  ClusterResourceBinding leaves \<^verbatim>\<open>spec.propagateDeps\<close> of the existing object as it
  is, while the two callbacks for a ResourceBinding overwrite it with the value of the
  desired binding.
\<close>

theorem propagateDeps_asymmetry:
  "(BuildResourceBinding d object labels annotations policySpec = Inr rb \<longrightarrow>
      PropagateDeps (b_Spec rb) = ps_PropagateDeps policySpec) \<and>
   (BuildClusterResourceBinding d object labels annotations policySpec = Inr crb \<longrightarrow>
      PropagateDeps (b_Spec crb) = ps_PropagateDeps policySpec) \<and>
   PropagateDeps (b_Spec (snd (ApplyClusterPolicy_mutateCRB d object binding bindingCopy))) =
     PropagateDeps (b_Spec bindingCopy) \<and>
   (fst (ApplyPolicy_mutate d object binding bindingCopy) = None \<longrightarrow>
      PropagateDeps (b_Spec (snd (ApplyPolicy_mutate d object binding bindingCopy))) =
        PropagateDeps (b_Spec binding)) \<and>
   (fst (ApplyClusterPolicy_mutateRB d object binding bindingCopy) = None \<longrightarrow>
      PropagateDeps (b_Spec (snd (ApplyClusterPolicy_mutateRB d object binding bindingCopy))) =
        PropagateDeps (b_Spec binding))"
proof -
  have "PropagateDeps (b_Spec rb) = ps_PropagateDeps policySpec"
    if "BuildResourceBinding d object labels annotations policySpec = Inr rb"
    using that
    by (auto simp: BuildResourceBinding_def Let_def split: if_splits sum.splits prod.splits)
  moreover have "PropagateDeps (b_Spec crb) = ps_PropagateDeps policySpec"
    if "BuildClusterResourceBinding d object labels annotations policySpec = Inr crb"
    using that
    by (auto simp: BuildClusterResourceBinding_def Let_def split: if_splits sum.splits prod.splits)
  moreover have
    "PropagateDeps (b_Spec (snd (ApplyClusterPolicy_mutateCRB d object binding bindingCopy))) =
     PropagateDeps (b_Spec bindingCopy)"
    by (simp add: ApplyClusterPolicy_mutateCRB_def)
  ultimately show ?thesis
    using callbacks_overwrite(1,2)[of d object binding bindingCopy] by blast
qed

theorem propagateDeps_asymmetry_witness:
  "BuildResourceBinding ex_detector ex_nginx_cpp
     [ClusterPropagationPolicyPermanentIDLabel \<mapsto> ''id-2'']
     [ClusterPropagationPolicyAnnotation \<mapsto> ''cpp1''] ex_spec = Inr ex_rb_created \<and>
   PropagateDeps (b_Spec ex_rb_created) = ps_PropagateDeps ex_spec \<and>
   BuildClusterResourceBinding ex_detector ex_role
     [ClusterPropagationPolicyPermanentIDLabel \<mapsto> ''id-2'']
     [ClusterPropagationPolicyAnnotation \<mapsto> ''cpp1''] ex_spec = Inr ex_crb_created \<and>
   PropagateDeps (b_Spec ex_crb_created) = ps_PropagateDeps ex_spec \<and>
   fst (ApplyClusterPolicy_mutateCRB ex_detector ex_role ex_crb_created ex_crb_existing) = None \<and>
   PropagateDeps (b_Spec
      (snd (ApplyClusterPolicy_mutateCRB ex_detector ex_role ex_crb_created ex_crb_existing))) =
     False \<and>
   fst (ApplyPolicy_mutate ex_detector ex_nginx_pp ex_binding_built ex_binding) = None \<and>
   PropagateDeps (b_Spec ex_binding) = False \<and>
   PropagateDeps (b_Spec
      (snd (ApplyPolicy_mutate ex_detector ex_nginx_pp ex_binding_built ex_binding))) = True"
proof -
  have ok1: "fst (ApplyClusterPolicy_mutateCRB ex_detector ex_role ex_crb_created ex_crb_existing) =
      None"
    and ok2: "fst (ApplyPolicy_mutate ex_detector ex_nginx_pp ex_binding_built ex_binding) = None"
    by (simp_all add: ApplyClusterPolicy_mutateCRB_def ApplyPolicy_mutate_def
        GetControllerOfNoCopy_def NewControllerRef_def ex_crb_existing_def ex_defs ex_defs2
        ex_defs4)
  have vals: "PropagateDeps (b_Spec ex_crb_existing) = False"
    "PropagateDeps (b_Spec ex_binding) = False"
    "PropagateDeps (b_Spec ex_binding_built) = True"
    by (simp_all add: ex_crb_existing_def ex_defs2)
  note t = propagateDeps_asymmetry[where d = ex_detector and policySpec = ex_spec]
  have a: "PropagateDeps (b_Spec ex_rb_created) = ps_PropagateDeps ex_spec"
    using t[where object = ex_nginx_cpp and rb = ex_rb_created] ex_build_cpp(1) by blast
  have b: "PropagateDeps (b_Spec ex_crb_created) = ps_PropagateDeps ex_spec"
    using t[where object = ex_role and crb = ex_crb_created] ex_build_cpp(2) by blast
  have c: "PropagateDeps (b_Spec
      (snd (ApplyClusterPolicy_mutateCRB ex_detector ex_role ex_crb_created ex_crb_existing))) =
     PropagateDeps (b_Spec ex_crb_existing)"
    using t[where object = ex_role and binding = ex_crb_created and bindingCopy = ex_crb_existing]
    by blast
  have d: "PropagateDeps (b_Spec
      (snd (ApplyPolicy_mutate ex_detector ex_nginx_pp ex_binding_built ex_binding))) =
     PropagateDeps (b_Spec ex_binding_built)"
    using t[where object = ex_nginx_pp and binding = ex_binding_built and bindingCopy = ex_binding]
      ok2
    by blast
  from a b c d ok1 ok2 vals ex_build_cpp show ?thesis
    by (simp only: simp_thms)
qed

text \<open>
  C6. A template that carries a non-empty ClaimedBy label is left alone. When the fetch
  of the template succeeds and the value of the label is not empty, \<open>Reconcile\<close> returns
  success in the world the fetch left, with the key removed from the waiting list. The
  result is the same whatever \<open>propagateResource\<close> is (the function is not called, so no
  policy is matched or claimed), the templates, the bindings and the queue are as
  before, and the only requests sent are the reads of the template.
\<close>

theorem claimed_by_respected:
  assumes fetch: "GetUnstructuredObject d (ClusterWideKey item) s = (Inr object, s')"
      and claimed: "GetLabelValue (u_Labels object) ResourceTemplateClaimedByLabel \<noteq> []"
  shows "Reconcile d (KeyClusterWideKeyWithConfig item) s =
           (None, RemoveWaiting (ClusterWideKey item) s') \<and>
         (\<forall>p. Reconcile (d\<lparr>propagateResource := p\<rparr>) (KeyClusterWideKeyWithConfig item) s =
                (None, RemoveWaiting (ClusterWideKey item) s')) \<and>
         \<not> isWaiting (ClusterWideKey item) (RemoveWaiting (ClusterWideKey item) s') \<and>
         waitingObjects (RemoveWaiting (ClusterWideKey item) s') =
           removeAll (ClusterWideKey item) (waitingObjects s) \<and>
         templates (RemoveWaiting (ClusterWideKey item) s') = templates s \<and>
         rbs (RemoveWaiting (ClusterWideKey item) s') = rbs s \<and>
         crbs (RemoveWaiting (ClusterWideKey item) s') = crbs s \<and>
         Processor (RemoveWaiting (ClusterWideKey item) s') = Processor s \<and>
         sentSince isTemplateRead s (RemoveWaiting (ClusterWideKey item) s')"
proof -
  have r: "Reconcile d' (KeyClusterWideKeyWithConfig item) s =
           (None, RemoveWaiting (ClusterWideKey item) s')"
    if "GetUnstructuredObject d' (ClusterWideKey item) s = (Inr object, s')" for d'
    using that claimed by (simp add: Reconcile_def Let_def)
  have "sentSince isTemplateRead s (RemoveWaiting (ClusterWideKey item) s')"
    using GetUnstructuredObject_sentSince[OF fetch] by (simp add: sentSince_def RemoveWaiting_def)
  then show ?thesis
    using r[OF fetch] r[of "d\<lparr>propagateResource := p\<rparr>" for p] fetch
      GetUnstructuredObject_frame[OF fetch]
    by (simp add: GetUnstructuredObject_propagateResource RemoveWaiting_frame isWaiting_def)
qed

theorem claimed_by_respected_witness:
  "GetLabelValue (u_Labels ex_service) ResourceTemplateClaimedByLabel = ''multiclusterservice'' \<and>
   Reconcile ex_detector (KeyClusterWideKeyWithConfig ex_service_item) ex_world_service =
     (None, ex_world_service_done) \<and>
   Reconcile
     (ex_detector\<lparr>propagateResource :=
        \<lambda>object objectKey resourceChangeByKarmada s. (Some (Failure ''called''), s)\<rparr>)
     (KeyClusterWideKeyWithConfig ex_service_item) ex_world_service =
     (None, ex_world_service_done) \<and>
   waitingObjects ex_world_service_done = [ex_key] \<and>
   rbs ex_world_service_done = rbs ex_world_service \<and>
   sentSince isTemplateRead ex_world_service ex_world_service_done"
proof -
  have fetch: "GetUnstructuredObject ex_detector (ClusterWideKey ex_service_item) ex_world_service =
      (Inr ex_service,
       ex_world_service\<lparr>requests := [GetTemplate (''v1'', ''Service'', ''default'', ''web'') None]\<rparr>)"
    by (simp add: GetUnstructuredObject_def ex_defs ex_defs5 client_defs keyOfClusterWideKey_def
          key_defs)
  have label: "GetLabelValue (u_Labels ex_service) ResourceTemplateClaimedByLabel =
      ''multiclusterservice''"
    by (simp add: GetLabelValue_def mapIndex_def ex_service_def)
  then have claimed: "GetLabelValue (u_Labels ex_service) ResourceTemplateClaimedByLabel \<noteq> []"
    by simp
  have fin: "RemoveWaiting (ClusterWideKey ex_service_item)
       (ex_world_service\<lparr>requests := [GetTemplate (''v1'', ''Service'', ''default'', ''web'') None]\<rparr>) =
     ex_world_service_done"
    by (simp add: RemoveWaiting_def ex_defs ex_defs5)
  have w: "waitingObjects ex_world_service_done = [ex_key]"
    by (simp add: ex_defs5)
  note t = claimed_by_respected[OF fetch claimed, unfolded fin]
  from t have a: "Reconcile ex_detector (KeyClusterWideKeyWithConfig ex_service_item)
      ex_world_service = (None, ex_world_service_done)"
    and b: "Reconcile
     (ex_detector\<lparr>propagateResource :=
        \<lambda>object objectKey resourceChangeByKarmada s. (Some (Failure ''called''), s)\<rparr>)
     (KeyClusterWideKeyWithConfig ex_service_item) ex_world_service =
     (None, ex_world_service_done)"
    and c: "rbs ex_world_service_done = rbs ex_world_service"
    and d: "sentSince isTemplateRead ex_world_service ex_world_service_done"
    by blast+
  from label a b c d w show ?thesis by blast
qed

text \<open>
  C9, as the spec states it, fails: a key of the wrong type is not dropped. \<open>Reconcile\<close>
  returns an error for it, and the worker re-adds a key whose reconcile returned an
  error. Here the key is neither of the two key types.
\<close>

theorem invalid_key_counterexample:
  "Reconcile ex_detector (KeyOther ''pod/x'') ex_world =
     (Some InvalidKey, klogError ''Invalid key'' ex_world) \<and>
   worker (Reconcile ex_detector) (KeyOther ''pod/x'') ex_world =
     (AddRateLimited (KeyOther ''pod/x''), klogError ''Invalid key'' ex_world)"
  by (simp add: Reconcile_def worker_def)

text \<open>
  C9, amended. For a queue item whose key is not of the reconciler's key type
  (\<^verbatim>\<open>ClusterWideKeyWithConfig\<close> for \<open>Reconcile\<close>, \<^verbatim>\<open>ClusterWideKey\<close> for the two policy
  reconcilers), the reconciler writes one line with \<^verbatim>\<open>klog.Error\<close>, changes nothing
  else and returns the error "invalid key". The worker treats it as any other error:
  the key is added again with rate-limited delay, it is not forgotten.
\<close>

theorem invalid_key_returned:
  "((\<forall>item. key \<noteq> KeyClusterWideKeyWithConfig item) \<longrightarrow>
      Reconcile d key s = (Some InvalidKey, klogError ''Invalid key'' s) \<and>
      worker (Reconcile d) key s = (AddRateLimited key, klogError ''Invalid key'' s)) \<and>
   ((\<forall>ckey. key \<noteq> KeyClusterWideKey ckey) \<longrightarrow>
      ReconcilePropagationPolicy d key s =
        (Some InvalidKey,
         klogError ''Found invalid key when reconciling propagation policy.'' s) \<and>
      worker (ReconcilePropagationPolicy d) key s =
        (AddRateLimited key,
         klogError ''Found invalid key when reconciling propagation policy.'' s) \<and>
      ReconcileClusterPropagationPolicy d key s =
        (Some InvalidKey,
         klogError ''Found invalid key when reconciling cluster propagation policy.'' s) \<and>
      worker (ReconcileClusterPropagationPolicy d) key s =
        (AddRateLimited key,
         klogError ''Found invalid key when reconciling cluster propagation policy.'' s))"
  by (cases key)
    (simp_all add: Reconcile_def ReconcilePropagationPolicy_def
      ReconcileClusterPropagationPolicy_def worker_def)

theorem invalid_key_returned_witness:
  "Reconcile ex_detector (KeyClusterWideKey ex_key) ex_world =
     (Some InvalidKey, klogError ''Invalid key'' ex_world) \<and>
   worker (Reconcile ex_detector) (KeyClusterWideKey ex_key) ex_world =
     (AddRateLimited (KeyClusterWideKey ex_key), klogError ''Invalid key'' ex_world) \<and>
   ReconcilePropagationPolicy ex_detector (KeyClusterWideKeyWithConfig ex_service_item) ex_world =
     (Some InvalidKey,
      klogError ''Found invalid key when reconciling propagation policy.'' ex_world) \<and>
   worker (ReconcilePropagationPolicy ex_detector) (KeyClusterWideKeyWithConfig ex_service_item)
     ex_world =
     (AddRateLimited (KeyClusterWideKeyWithConfig ex_service_item),
      klogError ''Found invalid key when reconciling propagation policy.'' ex_world) \<and>
   ReconcileClusterPropagationPolicy ex_detector (KeyOther ''pod/x'') ex_world =
     (Some InvalidKey,
      klogError ''Found invalid key when reconciling cluster propagation policy.'' ex_world) \<and>
   worker (ReconcileClusterPropagationPolicy ex_detector) (KeyOther ''pod/x'') ex_world =
     (AddRateLimited (KeyOther ''pod/x''),
      klogError ''Found invalid key when reconciling cluster propagation policy.'' ex_world) \<and>
   klog (klogError ''Invalid key'' ex_world) = [''Invalid key'']"
proof -
  have k: "klog (klogError ''Invalid key'' ex_world) = [''Invalid key'']"
    by (simp add: klogError_def ex_world_def)
  from invalid_key_returned[where key = "KeyClusterWideKey ex_key" and d = ex_detector
      and s = ex_world]
    invalid_key_returned[where key = "KeyClusterWideKeyWithConfig ex_service_item"
      and d = ex_detector and s = ex_world]
    invalid_key_returned[where key = "KeyOther ''pod/x''" and d = ex_detector and s = ex_world]
    k
  show ?thesis by simp
qed

text \<open>
  C10. The dependency gate comes before the matched keys are touched. When the steps
  before the scan of the waiting list succeed, the scan finds at least one key and the
  dependent overrides of the policy are not present (or the check fails),
  \<open>HandlePropagationPolicyCreationOrUpdate\<close> and its cluster variant return the error
  "waiting for dependent overrides" in the state the scan left: the queue is as it was
  before the scan, the waiting list is unchanged and still holds every matched key. The
  waiting list is the one from before the reconcile, given that the steps of other
  files that ran first (the cleanup of unmatched bindings, the listing of derived
  bindings) left it alone, as the hypotheses say.
\<close>

theorem dependency_gate_keeps_waiting:
  assumes "matchedKeys \<noteq> []" and "err \<noteq> None \<or> \<not> present"
  shows
   "(cleanPPUnmatchedRBs d (mapIndex (p_Labels policy) PropagationPolicyPermanentIDLabel)
       (p_Namespace policy) (p_Name policy) (ResourceSelectors (p_Spec policy)) s = (None, sa) \<and>
     waitingObjects sa = waitingObjects s \<and>
     listPPDerivedRBs d (mapIndex (p_Labels policy) PropagationPolicyPermanentIDLabel)
       (p_Namespace policy) (p_Name policy) sa = (Inr resourceBindings, sb) \<and>
     waitingObjects sb = waitingObjects sa \<and>
     enqueueDerived d resourceBindings sb = (None, sc) \<and>
     GetMatching d (ResourceSelectors (p_Spec policy)) sc = (matchedKeys, s') \<and>
     IsDependentOverridesPresent d policy s' = (present, err) \<longrightarrow>
       HandlePropagationPolicyCreationOrUpdate d policy s =
         (Some WaitingForDependentOverrides, s') \<and>
       waitingObjects s' = waitingObjects s \<and>
       Processor s' = Processor sc \<and>
       set matchedKeys \<subseteq> set (waitingObjects s')) \<and>
    (cleanCPPUnmatchedRBs d (mapIndex (p_Labels policy) ClusterPropagationPolicyPermanentIDLabel)
       (p_Name policy) (ResourceSelectors (p_Spec policy)) s = (None, sa) \<and>
     waitingObjects sa = waitingObjects s \<and>
     cleanUnmatchedCRBs d (mapIndex (p_Labels policy) ClusterPropagationPolicyPermanentIDLabel)
       (p_Name policy) (ResourceSelectors (p_Spec policy)) sa = (None, sa') \<and>
     waitingObjects sa' = waitingObjects sa \<and>
     listCPPDerivedRBs d (mapIndex (p_Labels policy) ClusterPropagationPolicyPermanentIDLabel)
       (p_Name policy) sa' = (Inr resourceBindings, sb) \<and>
     waitingObjects sb = waitingObjects sa' \<and>
     listCPPDerivedCRBs d (mapIndex (p_Labels policy) ClusterPropagationPolicyPermanentIDLabel)
       (p_Name policy) sb = (Inr clusterResourceBindings, sb') \<and>
     waitingObjects sb' = waitingObjects sb \<and>
     enqueueDerived d resourceBindings sb' = (None, sc) \<and>
     enqueueDerived d clusterResourceBindings sc = (None, sc') \<and>
     GetMatching d (ResourceSelectors (p_Spec policy)) sc' = (matchedKeys, s'') \<and>
     IsDependentClusterOverridesPresent d policy s'' = (present, err) \<longrightarrow>
       HandleClusterPropagationPolicyCreationOrUpdate d policy s =
         (Some WaitingForDependentOverrides, s'') \<and>
       waitingObjects s'' = waitingObjects s \<and>
       Processor s'' = Processor sc' \<and>
       set matchedKeys \<subseteq> set (waitingObjects s''))"
proof (intro conjI impI)
  assume a: "cleanPPUnmatchedRBs d (mapIndex (p_Labels policy) PropagationPolicyPermanentIDLabel)
       (p_Namespace policy) (p_Name policy) (ResourceSelectors (p_Spec policy)) s = (None, sa) \<and>
     waitingObjects sa = waitingObjects s \<and>
     listPPDerivedRBs d (mapIndex (p_Labels policy) PropagationPolicyPermanentIDLabel)
       (p_Namespace policy) (p_Name policy) sa = (Inr resourceBindings, sb) \<and>
     waitingObjects sb = waitingObjects sa \<and>
     enqueueDerived d resourceBindings sb = (None, sc) \<and>
     GetMatching d (ResourceSelectors (p_Spec policy)) sc = (matchedKeys, s') \<and>
     IsDependentOverridesPresent d policy s' = (present, err)"
  then have gm: "GetMatching d (ResourceSelectors (p_Spec policy)) sc = (matchedKeys, s')"
    and eq: "enqueueDerived d resourceBindings sb = (None, sc)" by blast+
  note fr = GetMatching_frame[OF gm] enqueueDerived_waiting[OF eq]
  from a have st:
    "cleanPPUnmatchedRBs d (mapIndex (p_Labels policy) PropagationPolicyPermanentIDLabel)
       (p_Namespace policy) (p_Name policy) (ResourceSelectors (p_Spec policy)) s = (None, sa)"
    "listPPDerivedRBs d (mapIndex (p_Labels policy) PropagationPolicyPermanentIDLabel)
       (p_Namespace policy) (p_Name policy) sa = (Inr resourceBindings, sb)"
    "IsDependentOverridesPresent d policy s' = (present, err)"
    by blast+
  show "HandlePropagationPolicyCreationOrUpdate d policy s =
         (Some WaitingForDependentOverrides, s')"
    by (rule gate_PP[OF st(1) st(2) eq gm assms(1) st(3) assms(2)])
  from a have "waitingObjects sa = waitingObjects s" "waitingObjects sb = waitingObjects sa"
    by blast+
  with fr show "waitingObjects s' = waitingObjects s" by simp
  from fr show "Processor s' = Processor sc" by simp
  from fr show "set matchedKeys \<subseteq> set (waitingObjects s')" by simp
next
  assume a: "cleanCPPUnmatchedRBs d
       (mapIndex (p_Labels policy) ClusterPropagationPolicyPermanentIDLabel)
       (p_Name policy) (ResourceSelectors (p_Spec policy)) s = (None, sa) \<and>
     waitingObjects sa = waitingObjects s \<and>
     cleanUnmatchedCRBs d (mapIndex (p_Labels policy) ClusterPropagationPolicyPermanentIDLabel)
       (p_Name policy) (ResourceSelectors (p_Spec policy)) sa = (None, sa') \<and>
     waitingObjects sa' = waitingObjects sa \<and>
     listCPPDerivedRBs d (mapIndex (p_Labels policy) ClusterPropagationPolicyPermanentIDLabel)
       (p_Name policy) sa' = (Inr resourceBindings, sb) \<and>
     waitingObjects sb = waitingObjects sa' \<and>
     listCPPDerivedCRBs d (mapIndex (p_Labels policy) ClusterPropagationPolicyPermanentIDLabel)
       (p_Name policy) sb = (Inr clusterResourceBindings, sb') \<and>
     waitingObjects sb' = waitingObjects sb \<and>
     enqueueDerived d resourceBindings sb' = (None, sc) \<and>
     enqueueDerived d clusterResourceBindings sc = (None, sc') \<and>
     GetMatching d (ResourceSelectors (p_Spec policy)) sc' = (matchedKeys, s'') \<and>
     IsDependentClusterOverridesPresent d policy s'' = (present, err)"
  then have gm: "GetMatching d (ResourceSelectors (p_Spec policy)) sc' = (matchedKeys, s'')"
    and eq: "enqueueDerived d resourceBindings sb' = (None, sc)"
      "enqueueDerived d clusterResourceBindings sc = (None, sc')" by blast+
  note fr = GetMatching_frame[OF gm] enqueueDerived_waiting[OF eq(1)]
    enqueueDerived_waiting[OF eq(2)]
  from a have st:
    "cleanCPPUnmatchedRBs d
       (mapIndex (p_Labels policy) ClusterPropagationPolicyPermanentIDLabel)
       (p_Name policy) (ResourceSelectors (p_Spec policy)) s = (None, sa)"
    "cleanUnmatchedCRBs d (mapIndex (p_Labels policy) ClusterPropagationPolicyPermanentIDLabel)
       (p_Name policy) (ResourceSelectors (p_Spec policy)) sa = (None, sa')"
    "listCPPDerivedRBs d (mapIndex (p_Labels policy) ClusterPropagationPolicyPermanentIDLabel)
       (p_Name policy) sa' = (Inr resourceBindings, sb)"
    "listCPPDerivedCRBs d (mapIndex (p_Labels policy) ClusterPropagationPolicyPermanentIDLabel)
       (p_Name policy) sb = (Inr clusterResourceBindings, sb')"
    "IsDependentClusterOverridesPresent d policy s'' = (present, err)"
    by blast+
  show "HandleClusterPropagationPolicyCreationOrUpdate d policy s =
         (Some WaitingForDependentOverrides, s'')"
    by (rule gate_CPP[OF st(1) st(2) st(3) st(4) eq(1) eq(2) gm assms(1) st(5) assms(2)])
  from a have "waitingObjects sa = waitingObjects s" "waitingObjects sa' = waitingObjects sa"
    "waitingObjects sb = waitingObjects sa'" "waitingObjects sb' = waitingObjects sb"
    by blast+
  with fr show "waitingObjects s'' = waitingObjects s" by simp
  from fr show "Processor s'' = Processor sc'" by simp
  from fr show "set matchedKeys \<subseteq> set (waitingObjects s'')" by simp
qed

theorem dependency_gate_keeps_waiting_witness:
  "IsDependentOverridesPresent ex_detector ex_pp ex_world_gated = (False, None) \<and>
   GetMatching ex_detector (ResourceSelectors (p_Spec ex_pp)) ex_world_waiting =
     ([ex_key], ex_world_gated) \<and>
   HandlePropagationPolicyCreationOrUpdate ex_detector ex_pp ex_world_waiting =
     (Some WaitingForDependentOverrides, ex_world_gated) \<and>
   HandleClusterPropagationPolicyCreationOrUpdate ex_detector ex_cpp ex_world_waiting =
     (Some WaitingForDependentOverrides, ex_world_gated) \<and>
   waitingObjects ex_world_waiting = [ex_key] \<and>
   waitingObjects ex_world_gated = waitingObjects ex_world_waiting \<and>
   Processor ex_world_gated = Processor ex_world_waiting"
proof -
  have h: "[ex_key] \<noteq> []" "None \<noteq> None \<or> \<not> False" by simp_all
  have dep: "IsDependentOverridesPresent ex_detector ex_pp ex_world_gated = (False, None)"
    "IsDependentClusterOverridesPresent ex_detector ex_cpp ex_world_gated = (False, None)"
    by (simp_all add: ex_detector_def)
  have steps:
    "cleanPPUnmatchedRBs ex_detector a b c sels ex_world_waiting = (None, ex_world_waiting)"
    "listPPDerivedRBs ex_detector a b c ex_world_waiting = (Inr [], ex_world_waiting)"
    "cleanCPPUnmatchedRBs ex_detector a b sels ex_world_waiting = (None, ex_world_waiting)"
    "cleanUnmatchedCRBs ex_detector a b sels ex_world_waiting = (None, ex_world_waiting)"
    "listCPPDerivedRBs ex_detector a b ex_world_waiting = (Inr [], ex_world_waiting)"
    "listCPPDerivedCRBs ex_detector a b ex_world_waiting = (Inr [], ex_world_waiting)"
    "enqueueDerived ex_detector [] ex_world_waiting = (None, ex_world_waiting)"
    for a b c sels
    by (simp_all add: ex_detector_def)
  have gm: "GetMatching ex_detector (ResourceSelectors (p_Spec ex_pp)) ex_world_waiting =
      ([ex_key], ex_world_gated)"
    "GetMatching ex_detector (ResourceSelectors (p_Spec ex_cpp)) ex_world_waiting =
      ([ex_key], ex_world_gated)"
    by (simp_all add: ex_pp_simps ex_GetMatching)
  have w: "waitingObjects ex_world_waiting = [ex_key]"
    by (simp add: ex_world_waiting_def)
  note t = dependency_gate_keeps_waiting[OF h, where d = ex_detector and s = ex_world_waiting
      and sa = ex_world_waiting and sa' = ex_world_waiting and sb = ex_world_waiting
      and sb' = ex_world_waiting and sc = ex_world_waiting and sc' = ex_world_waiting
      and resourceBindings = "[]" and clusterResourceBindings = "[]"
      and s' = ex_world_gated and s'' = ex_world_gated]
  have a: "HandlePropagationPolicyCreationOrUpdate ex_detector ex_pp ex_world_waiting =
     (Some WaitingForDependentOverrides, ex_world_gated) \<and>
     waitingObjects ex_world_gated = waitingObjects ex_world_waiting \<and>
     Processor ex_world_gated = Processor ex_world_waiting"
    using t[where policy = ex_pp] steps gm(1) dep(1) by blast
  have b: "HandleClusterPropagationPolicyCreationOrUpdate ex_detector ex_cpp ex_world_waiting =
     (Some WaitingForDependentOverrides, ex_world_gated)"
    using t[where policy = ex_cpp] steps gm(2) dep(2) by blast
  from a b dep(1) gm(1) w show ?thesis by blast
qed

text \<open>
  C4 (marks lead bindings). Both policy deletion handlers, from any world, with any
  collaborators and under any script of request failures, extend the request log by a
  sequence that passes the check \<open>marksLead\<close> for the bindings stored with the
  deleted policy's permanent ID: a binding is written only directly after the marks were
  removed from the template it refers to (a successful update of the template without
  the marks, or a read that found the template gone), with nothing but requests on that
  same binding in between. So the template always comes first, and after a failed
  removal on the template no write of the binding follows in that iteration.
\<close>

theorem marks_lead_bindings:
  "(\<exists>delta. requests (snd (HandlePropagationPolicyDeletion d policyID s)) = requests s @ delta \<and>
      marksLead PP
        (map (Pair RB) (labelled PropagationPolicyPermanentIDLabel policyID (rbs s))) delta) \<and>
   (\<exists>delta. requests (snd (HandleClusterPropagationPolicyDeletion d policyID s)) =
        requests s @ delta \<and>
      marksLead CPP
        (map (Pair CRB) (labelled ClusterPropagationPolicyPermanentIDLabel policyID (crbs s)) @
         map (Pair RB) (labelled ClusterPropagationPolicyPermanentIDLabel policyID (rbs s)))
        delta)"
  using HandlePropagationPolicyDeletion_marksLead [of d policyID s]
    HandleClusterPropagationPolicyDeletion_marksLead [of d policyID s]
  by blast

text \<open>
  The handler on a world holding the claimed Deployment and its binding: the marks leave
  the template, then the binding. With a conflict on the update of the template the
  binding is neither written nor changed and the error is returned. Both logs pass the
  check; a log that writes the binding first, or after the failed update, does not.
\<close>

theorem marks_lead_bindings_witness:
  "HandlePropagationPolicyDeletion ex_detector ''id-1'' ex_world_marked =
     (None, ex_world_unmarked) \<and>
   requests ex_world_unmarked = ex_log_cleanup \<and>
   marksLead PP [(RB, ex_binding_refreshed)] ex_log_cleanup \<and>
   HandlePropagationPolicyDeletion ex_detector ''id-1''
     (ex_world_marked\<lparr>faults := [None, None, Some Conflict]\<rparr>) =
     (Some (Aggregate [Conflict]), ex_world_marked\<lparr>requests := ex_log_failed\<rparr>) \<and>
   rbs (ex_world_marked\<lparr>requests := ex_log_failed\<rparr>) = [ex_binding_refreshed] \<and>
   marksLead PP [(RB, ex_binding_refreshed)] ex_log_failed \<and>
   \<not> marksLead PP [(RB, ex_binding_refreshed)]
       [UpdateBinding RB ex_binding_unmarked None, UpdateTemplate ex_nginx_unmarked None] \<and>
   \<not> marksLead PP [(RB, ex_binding_refreshed)]
       (ex_log_failed @ [UpdateBinding RB ex_binding_unmarked None])"
proof -
  let ?items = "[(RB, ex_binding_refreshed)]"
  have start: "requests ex_world_marked = []"
    "requests (ex_world_marked\<lparr>faults := [None, None, Some Conflict]\<rparr>) = []"
    "rbs ex_world_marked = [ex_binding_refreshed]"
    "rbs (ex_world_marked\<lparr>faults := [None, None, Some Conflict]\<rparr>) = [ex_binding_refreshed]"
    by (simp_all add: ex_world_marked_def ex_world_def)
  have items: "map (Pair RB) (labelled PropagationPolicyPermanentIDLabel ''id-1''
      [ex_binding_refreshed]) = ?items"
    by (simp add: labelled_def ex_marked_keys)
  have a: "HandlePropagationPolicyDeletion ex_detector ''id-1'' ex_world_marked =
      (None, ex_world_unmarked)"
    by (rule ex_deletion)
  have b: "requests ex_world_unmarked = ex_log_cleanup"
    by (simp add: ex_world_unmarked_def)
  have c: "marksLead PP ?items ex_log_cleanup"
    using marks_lead_bindings [of ex_detector "''id-1''" ex_world_marked]
    by (simp add: a b start items)
  have d: "HandlePropagationPolicyDeletion ex_detector ''id-1''
       (ex_world_marked\<lparr>faults := [None, None, Some Conflict]\<rparr>) =
     (Some (Aggregate [Conflict]), ex_world_marked\<lparr>requests := ex_log_failed\<rparr>)"
    by (rule ex_deletion_failed)
  have e: "rbs (ex_world_marked\<lparr>requests := ex_log_failed\<rparr>) = [ex_binding_refreshed]"
    by (simp add: start)
  have f: "marksLead PP ?items ex_log_failed"
    using marks_lead_bindings [of ex_detector "''id-1''"
        "ex_world_marked\<lparr>faults := [None, None, Some Conflict]\<rparr>"]
    by (simp add: d start items)
  have g: "\<not> marksLead PP ?items
       [UpdateBinding RB ex_binding_unmarked None, UpdateTemplate ex_nginx_unmarked None]"
    by (simp add: marksLead_def)
  have h: "\<not> marksLead PP ?items (ex_log_failed @ [UpdateBinding RB ex_binding_unmarked None])"
    by (simp add: marksLead_def ex_log_failed_def)
  from a b c d e f g h show ?thesis by blast
qed

end
